theory Spec2Isabelle
  imports Complex_Main "HOL-Library.Char_ord" "HOL-Library.List_Lexorder"
begin

section \<open>JavaScript values used by the server\<close>

text \<open>
  Strings are byte strings (UTF-8): a cell of the sheet, a header value, a field of a
  request body.  The empty string is the only falsy string, so \<open>x || d\<close> on a value
  that is a string or \<open>undefined\<close> is \<open>or_default\<close>.  A request object whose fields are
  strings is a finite map from field names to strings; a missing field reads as
  \<open>undefined\<close>, that is \<open>None\<close>.
\<close>

type_synonym jsobj = "string \<rightharpoonup> string"

definition or_default :: "string option \<Rightarrow> string \<Rightarrow> string" where
  "or_default v d = (case v of None \<Rightarrow> d | Some s \<Rightarrow> if s = [] then d else s)"

text \<open>\<open>row[i]\<close> on an array of strings: \<open>undefined\<close> past the end.\<close>

definition at_index :: "string list \<Rightarrow> nat \<Rightarrow> string option" where
  "at_index row i = (if i < length row then Some (row ! i) else None)"

section \<open>sheetsClient.getAllData\<close>

text \<open>
  The row object of \<open>getAllData\<close>.  Its fields \<open>note\<close> and \<open>id\<close> are \<open>noteText\<close> and
  \<open>rowId\<close> here.
\<close>

record feedback_row =
  rowNumber :: nat
  deadline :: string
  host :: string
  shop :: string
  link :: string
  stage :: string
  tags :: string
  devNote :: string
  imageNote :: string
  noteText :: string
  time :: string
  message :: string
  messageId :: string
  imageId :: string
  rowId :: string

text \<open>The object built for one raw row by the callback of \<open>rowsRaw.map\<close>.\<close>

definition mk_row :: "string list \<Rightarrow> nat \<Rightarrow> feedback_row" where
  "mk_row row index =
     \<lparr> rowNumber = index + 3,
       deadline = or_default (at_index row 0) [],
       host = or_default (at_index row 1) [],
       shop = or_default (at_index row 2) [],
       link = or_default (at_index row 3) [],
       stage = or_default (at_index row 4) [],
       tags = or_default (at_index row 5) [],
       devNote = or_default (at_index row 6) [],
       imageNote = or_default (at_index row 7) [],
       noteText = or_default (at_index row 8) [],
       time = or_default (at_index row 9) [],
       message = or_default (at_index row 10) [],
       messageId = or_default (at_index row 11) [],
       imageId = or_default (at_index row 12) [],
       rowId = or_default (at_index row 13) [] \<rparr>"

definition keep_row :: "feedback_row \<Rightarrow> bool" where
  "keep_row r = (shop r \<noteq> [] \<or> host r \<noteq> [])"

record all_data =
  headers :: "string list"
  rows :: "feedback_row list"

text \<open>
  The body of \<open>getAllData\<close> after the read: \<open>values\<close> is \<open>response.data.values\<close>,
  absent (\<open>None\<close>) when the sheet holds nothing.
\<close>

definition getAllData_of :: "string list list option \<Rightarrow> all_data" where
  "getAllData_of values =
     (let data = (case values of None \<Rightarrow> [] | Some v \<Rightarrow> v) in
      if length data < 3 then \<lparr> headers = [], rows = [] \<rparr>
      else
        let rowsRaw = drop 2 data in
        \<lparr> headers = data ! 0,
          rows = filter keep_row (map (\<lambda>(row, index). mk_row row index)
                                     (zip rowsRaw [0 ..< length rowsRaw])) \<rparr>)"

section \<open>Numbers and dates as text\<close>

text \<open>
  \<open>n.toString()\<close> for a non-negative integer: its decimal digits.  \<open>digit\<close> is
  only applied to numbers below ten.
\<close>

definition digit :: "nat \<Rightarrow> char" where
  "digit n = ''0123456789'' ! n"

function toString :: "nat \<Rightarrow> string" where
  "toString n = (if n < 10 then [digit n] else toString (n div 10) @ [digit (n mod 10)])"
  by pat_completeness auto
termination
  by (relation "measure (\<lambda>n. n)") auto

text \<open>\<open>s.padStart(2, '0')\<close>.\<close>

definition padStart2 :: "string \<Rightarrow> string" where
  "padStart2 s = (if length s < 2 then replicate (2 - length s) (CHR ''0'') @ s else s)"

text \<open>
  The values that the getters of a \<open>Date\<close> object return: \<open>getFullYear\<close>,
  \<open>getMonth\<close> (0 for January), \<open>getDate\<close>, \<open>getHours\<close>, \<open>getMinutes\<close> and
  \<open>getSeconds\<close>.
\<close>

record jsdate =
  getFullYear :: nat
  getMonth :: nat
  getDate :: nat
  getHours :: nat
  getMinutes :: nat
  getSeconds :: nat

text \<open>The timestamp \<open>`${h}:${min}:${s} ${d}/${m}/${y}`\<close> of the write paths.\<close>

definition timestamp_of :: "jsdate \<Rightarrow> string" where
  "timestamp_of vnTime =
     (let d = padStart2 (toString (getDate vnTime));
          m = padStart2 (toString (getMonth vnTime + 1));
          y = toString (getFullYear vnTime);
          h = padStart2 (toString (getHours vnTime));
          mi = padStart2 (toString (getMinutes vnTime));
          s = padStart2 (toString (getSeconds vnTime))
      in h @ '':'' @ mi @ '':'' @ s @ '' '' @ d @ ''/'' @ m @ ''/'' @ y)"

text \<open>The shorter stamp \<open>`${h}:${min} ${d}/${m}/${y}`\<close> of a comment.\<close>

definition comment_time_of :: "jsdate \<Rightarrow> string" where
  "comment_time_of vnTime =
     (let d = padStart2 (toString (getDate vnTime));
          m = padStart2 (toString (getMonth vnTime + 1));
          y = toString (getFullYear vnTime);
          h = padStart2 (toString (getHours vnTime));
          mi = padStart2 (toString (getMinutes vnTime))
      in h @ '':'' @ mi @ '' '' @ d @ ''/'' @ m @ ''/'' @ y)"

section \<open>The clock: \<open>new Date(now.toLocaleString('en-US', {timeZone: 'Asia/Ho_Chi_Minh'}))\<close>\<close>

text \<open>
  A time value is a number of milliseconds since 1 January 1970 UTC.  The getters of a
  \<open>Date\<close> read the fields of its local time value, as the language defines them: the
  day number, the year that contains it, the day within the year, and the month and the
  day of the month from the table of month lengths.
\<close>

definition DayFromYear :: "int \<Rightarrow> int" where
  "DayFromYear y = 365 * (y - 1970) + (y - 1969) div 4 - (y - 1901) div 100 + (y - 1601) div 400"

definition InLeapYear :: "int \<Rightarrow> bool" where
  "InLeapYear y = (y mod 4 = 0 \<and> (y mod 100 \<noteq> 0 \<or> y mod 400 = 0))"

text \<open>
  The year \<open>y\<close> with \<open>DayFromYear y \<le> d < DayFromYear (y + 1)\<close>, found next to the
  estimate that a year has 146097 / 400 days.
\<close>

definition YearFromDay :: "int \<Rightarrow> int" where
  "YearFromDay d =
     (let y0 = 1970 + (d * 400) div 146097 in
      if DayFromYear (y0 + 1) \<le> d then y0 + 1
      else if DayFromYear y0 \<le> d then y0
      else y0 - 1)"

definition MonthFromDay :: "int \<Rightarrow> int \<Rightarrow> int" where
  "MonthFromDay dayWithinYear leap =
     (if dayWithinYear < 31 then 0
      else if dayWithinYear < 59 + leap then 1
      else if dayWithinYear < 90 + leap then 2
      else if dayWithinYear < 120 + leap then 3
      else if dayWithinYear < 151 + leap then 4
      else if dayWithinYear < 181 + leap then 5
      else if dayWithinYear < 212 + leap then 6
      else if dayWithinYear < 243 + leap then 7
      else if dayWithinYear < 273 + leap then 8
      else if dayWithinYear < 304 + leap then 9
      else if dayWithinYear < 334 + leap then 10
      else 11)"

definition DateFromDay :: "int \<Rightarrow> int \<Rightarrow> int" where
  "DateFromDay dayWithinYear leap =
     (let m = MonthFromDay dayWithinYear leap in
      if m = 0 then dayWithinYear + 1
      else if m = 1 then dayWithinYear - 30
      else if m = 2 then dayWithinYear - 58 - leap
      else if m = 3 then dayWithinYear - 89 - leap
      else if m = 4 then dayWithinYear - 119 - leap
      else if m = 5 then dayWithinYear - 150 - leap
      else if m = 6 then dayWithinYear - 180 - leap
      else if m = 7 then dayWithinYear - 211 - leap
      else if m = 8 then dayWithinYear - 242 - leap
      else if m = 9 then dayWithinYear - 272 - leap
      else if m = 10 then dayWithinYear - 303 - leap
      else dayWithinYear - 333 - leap)"

text \<open>The getters of a date whose local time value is \<open>t\<close> (a date of the common era).\<close>

definition date_fields :: "int \<Rightarrow> jsdate" where
  "date_fields t =
     (let day = t div 86400000;
          y = YearFromDay day;
          dayWithinYear = day - DayFromYear y;
          leap = (if InLeapYear y then 1 else 0)
      in \<lparr> getFullYear = nat y,
           getMonth = nat (MonthFromDay dayWithinYear leap),
           getDate = nat (DateFromDay dayWithinYear leap),
           getHours = nat (t div 3600000 mod 24),
           getMinutes = nat (t div 60000 mod 60),
           getSeconds = nat (t div 1000 mod 60) \<rparr>)"

text \<open>
  The time zone of the host, as the runtime applies it: \<open>LocalTime\<close> takes a time value
  to the local time value of the host, and \<open>UTC\<close> takes a local time value back to a time
  value (for a local time that a change of offset skips or repeats, the language reads it
  with the offset in force before the change).
\<close>

record host_zone =
  LocalTime :: "int \<Rightarrow> int"
  UTC :: "int \<Rightarrow> int"

text \<open>
  Asia/Ho\_Chi\_Minh is seven hours ahead of UTC (since 1975): the wall-clock time there
  at the instant \<open>now\<close>, as a local time value.
\<close>

definition vn_wall_clock :: "nat \<Rightarrow> int" where
  "vn_wall_clock now = int now + 7 * 3600000"

text \<open>
  \<open>vnTime\<close>.  \<open>now.toLocaleString('en-US', {timeZone: 'Asia/Ho_Chi_Minh'})\<close> writes the
  date and the time of day of that wall clock, to the second: month/day/year,
  hour:minute:second and AM or PM.  \<open>new Date(text)\<close> then reads the same six fields
  as a local time of the host the server runs on, and the getters of the result read
  the local time of the host again.
\<close>

definition vnTime_of :: "host_zone \<Rightarrow> nat \<Rightarrow> jsdate" where
  "vnTime_of z now =
     (let rendered = vn_wall_clock now - vn_wall_clock now mod 1000;
          timeValue = UTC z rendered
      in date_fields (LocalTime z timeValue))"

text \<open>
  Two hosts.  One keeps UTC.  The other keeps the time of New York as it is in 2026:
  five hours behind UTC, and four hours behind from 8 March 07:00 UTC (02:00 local
  time, which becomes 03:00) to 1 November 06:00 UTC.
\<close>

definition utc_host :: host_zone where
  "utc_host = \<lparr> LocalTime = (\<lambda>t. t), UTC = (\<lambda>t. t) \<rparr>"

definition new_york_2026 :: host_zone where
  "new_york_2026 =
     \<lparr> LocalTime = (\<lambda>t. if 1772953200000 \<le> t \<and> t < 1793512800000 then t - 4 * 3600000
                          else t - 5 * 3600000),
       UTC = (\<lambda>t. if t < 1772953200000 - 4 * 3600000 then t + 5 * 3600000
                    else if t < 1793512800000 - 4 * 3600000 then t + 4 * 3600000
                    else t + 5 * 3600000) \<rparr>"

section \<open>The remote sheet and the client's calls\<close>

text \<open>
  The remote service is a grid of cell texts, row by row, as a read lists them.  Every
  write of the client is sent with \<open>valueInputOption: 'USER_ENTERED'\<close>: the service
  reads the text as if typed into the cell, and what the cell shows afterwards is
  \<open>entered\<close> of the text (the text itself for a plain word; the service's rendering of
  the number, date or formula it recognises otherwise).  Any call may fail: \<open>faults\<close>
  says, call by call, whether the next request is refused and with which message (no
  entry: it succeeds).  \<open>calls\<close> records the requests sent, in order, and \<open>console\<close>
  the lines the process writes with \<open>console.error\<close>.
\<close>

datatype error = Error string


datatype api_call =
    Values_get
  | Values_get_row nat
  | Values_append "string list"
  | Values_update_row nat "string list"
  | Values_update_cell nat char string

datatype log_line = Console_error string error | Console_text string

record sheets =
  grid :: "string list list"
  faults :: "string option list"
  calls :: "api_call list"
  entered :: "string \<Rightarrow> string"
  console :: "log_line list"

text \<open>
  What the service itself refuses.  A request names a row by its 1-based number, and row
  0 is no A1 range.  \<open>updateRow\<close> names the range \<open>A:N\<close> of one row, fourteen columns,
  and the service refuses values that reach beyond the range it is given.
\<close>

fun refusal :: "api_call \<Rightarrow> string option" where
  "refusal (Values_get_row n) = (if n = 0 then Some ''Unable to parse range'' else None)"
| "refusal (Values_update_row n row) =
     (if n = 0 then Some ''Unable to parse range''
      else if 14 < length row then
        Some (''Requested writing within range [Feedback!A'' @ toString n @ '':N'' @ toString n
              @ ''], but tried writing to column [O]'')
      else None)"
| "refusal (Values_update_cell n c v) = (if n = 0 then Some ''Unable to parse range'' else None)"
| "refusal c = None"

definition request :: "api_call \<Rightarrow> sheets \<Rightarrow> error option \<times> sheets" where
  "request c s =
     (let s' = s\<lparr> calls := calls s @ [c] \<rparr> in
      case refusal c of
        Some m \<Rightarrow> (Some (Error m), s')
      | None \<Rightarrow>
          (case faults s of
             [] \<Rightarrow> (None, s')
           | None # fs \<Rightarrow> (None, s'\<lparr> faults := fs \<rparr>)
           | Some m # fs \<Rightarrow> (Some (Error m), s'\<lparr> faults := fs \<rparr>)))"

text \<open>\<open>console.error(label, error)\<close>.\<close>

definition console_error :: "string \<Rightarrow> error \<Rightarrow> sheets \<Rightarrow> sheets" where
  "console_error label e s = s\<lparr> console := console s @ [Console_error label e] \<rparr>"

text \<open>Column letter to 0-based column index: \<open>A\<close> is 0, \<open>H\<close> is 7, \<open>O\<close> is 14.\<close>

definition col_index :: "char \<Rightarrow> nat" where
  "col_index c = of_char c - of_char (CHR ''A'')"

definition set_cell :: "nat \<Rightarrow> nat \<Rightarrow> string \<Rightarrow> string list list \<Rightarrow> string list list" where
  "set_cell r c v g =
     (let g' = g @ replicate (Suc r - length g) [];
          old = g' ! r;
          padded = old @ replicate (Suc c - length old) []
      in g'[r := padded[c := v]])"

definition set_row :: "nat \<Rightarrow> string list \<Rightarrow> string list list \<Rightarrow> string list list" where
  "set_row r row g =
     (let g' = g @ replicate (Suc r - length g) []
      in g'[r := row @ drop (length row) (g' ! r)])"

text \<open>
  Each method of the client is \<open>try { await (the request); ... } catch (error) {
  console.error(label, error); throw error }\<close>.
\<close>

definition getAllData :: "sheets \<Rightarrow> (error + all_data) \<times> sheets" where
  "getAllData s =
     (case request Values_get s of
        (Some e, s') \<Rightarrow> (Inl e, console_error ''SheetsClient: getAllData Error:'' e s')
      | (None, s') \<Rightarrow>
          (Inr (getAllData_of (if grid s' = [] then None else Some (grid s'))), s'))"

text \<open>
  \<open>getRow\<close> reads \<open>A:N\<close> of one row; a row without values comes back as \<open>[]\<close>.
  \<open>appendRow\<close> adds a row after the last one.  \<open>updateRow\<close> hands over the row array
  as it is for the range \<open>A:N\<close> of one row.  \<open>updateCell\<close> writes one cell.
\<close>

definition getRow :: "nat \<Rightarrow> sheets \<Rightarrow> (error + string list) \<times> sheets" where
  "getRow rowNo s =
     (case request (Values_get_row rowNo) s of
        (Some e, s') \<Rightarrow> (Inl e, console_error ''SheetsClient: getRow Error:'' e s')
      | (None, s') \<Rightarrow>
          (Inr (if rowNo - 1 < length (grid s') then take 14 (grid s' ! (rowNo - 1)) else []),
           s'))"

definition appendRow :: "string list \<Rightarrow> sheets \<Rightarrow> (error + bool) \<times> sheets" where
  "appendRow rowArray s =
     (case request (Values_append rowArray) s of
        (Some e, s') \<Rightarrow> (Inl e, console_error ''SheetsClient: appendRow Error:'' e s')
      | (None, s') \<Rightarrow> (Inr True, s'\<lparr> grid := grid s' @ [map (entered s') rowArray] \<rparr>))"

definition updateRow :: "nat \<Rightarrow> string list \<Rightarrow> sheets \<Rightarrow> (error + bool) \<times> sheets" where
  "updateRow rowNo rowArray s =
     (case request (Values_update_row rowNo rowArray) s of
        (Some e, s') \<Rightarrow> (Inl e, console_error ''SheetsClient: updateRow Error:'' e s')
      | (None, s') \<Rightarrow>
          (Inr True, s'\<lparr> grid := set_row (rowNo - 1) (map (entered s') rowArray) (grid s') \<rparr>))"

definition updateCell :: "nat \<Rightarrow> char \<Rightarrow> string \<Rightarrow> sheets \<Rightarrow> (error + bool) \<times> sheets" where
  "updateCell rowNo colLetter v s =
     (case request (Values_update_cell rowNo colLetter v) s of
        (Some e, s') \<Rightarrow> (Inl e, console_error ''SheetsClient: updateCell Error:'' e s')
      | (None, s') \<Rightarrow>
          (Inr True,
           s'\<lparr> grid := set_cell (rowNo - 1) (col_index colLetter) (entered s' v) (grid s') \<rparr>))"

section \<open>The dashboard\<close>

text \<open>
  \<open>hostStats\<close> and \<open>stageStats\<close> are plain objects created by \<open>{}\<close>, used as
  counters keyed by cell text.  A read \<open>hostStats[k]\<close> finds an own property or else
  a property of \<open>Object.prototype\<close>; the inherited values are functions (and, for
  \<open>__proto__\<close>, the prototype object itself), all truthy, and \<open>+ 1\<close> on one of them
  concatenates its text with \<open>1\<close>.  A value of the object is therefore a number or a
  string.  \<open>object_prototype\<close> gives the text of each inherited value as Node prints it.
\<close>

datatype stat = Count nat | Text string

type_synonym counters = "string \<rightharpoonup> stat"

definition native_function :: "string \<Rightarrow> string" where
  "native_function name = ''function '' @ name @ ''() { [native code] }''"

definition object_prototype :: "string \<rightharpoonup> string" where
  "object_prototype =
     [''constructor'' \<mapsto> native_function ''Object'',
      ''__defineGetter__'' \<mapsto> native_function ''__defineGetter__'',
      ''__defineSetter__'' \<mapsto> native_function ''__defineSetter__'',
      ''hasOwnProperty'' \<mapsto> native_function ''hasOwnProperty'',
      ''__lookupGetter__'' \<mapsto> native_function ''__lookupGetter__'',
      ''__lookupSetter__'' \<mapsto> native_function ''__lookupSetter__'',
      ''isPrototypeOf'' \<mapsto> native_function ''isPrototypeOf'',
      ''propertyIsEnumerable'' \<mapsto> native_function ''propertyIsEnumerable'',
      ''toString'' \<mapsto> native_function ''toString'',
      ''valueOf'' \<mapsto> native_function ''valueOf'',
      ''toLocaleString'' \<mapsto> native_function ''toLocaleString'',
      ''__proto__'' \<mapsto> ''[object Object]'']"

text \<open>
  \<open>stats[k] = (stats[k] || 0) + 1\<close>.  Assigning to \<open>__proto__\<close> a value that is not
  an object changes nothing; assigning to any other inherited name creates an own
  property.
\<close>

definition bump :: "counters \<Rightarrow> string \<Rightarrow> counters" where
  "bump stats k =
     (case stats k of
        Some (Count n) \<Rightarrow> stats(k \<mapsto> Count (n + 1))
      | Some (Text t) \<Rightarrow> stats(k \<mapsto> Text (t @ ''1''))
      | None \<Rightarrow>
          (case object_prototype k of
             None \<Rightarrow> stats(k \<mapsto> Count 1)
           | Some inherited \<Rightarrow>
               if k = ''__proto__'' then stats else stats(k \<mapsto> Text (inherited @ ''1''))))"

text \<open>The \<open>stats\<close> object; its field \<open>done\<close> is \<open>doneCount\<close> here.\<close>

record dash_stats =
  pending :: nat
  doneCount :: nat
  byHost :: counters
  byStage :: counters

record filter_options =
  hosts :: "string list"
  stages :: "string list"

record dashboard =
  stats :: dash_stats
  filterOptions :: filter_options
  feedback :: "feedback_row list"

text \<open>The body of \<open>rows.forEach\<close>.\<close>

definition tally :: "feedback_row \<Rightarrow> dash_stats \<Rightarrow> dash_stats" where
  "tally row acc =
     (let a1 = (if host row \<noteq> [] then acc\<lparr> byHost := bump (byHost acc) (host row) \<rparr> else acc);
          a2 = (if stage row \<noteq> [] then a1\<lparr> byStage := bump (byStage a1) (stage row) \<rparr> else a1);
          a3 = (if stage row = ''Feedback'' then a2\<lparr> pending := pending a2 + 1 \<rparr> else a2);
          a4 = (if stage row = ''Done'' then a3\<lparr> doneCount := doneCount a3 + 1 \<rparr> else a3)
      in a4)"

text \<open>
  \<open>[...new Set(xs)]\<close>: the first occurrence of each value, in order.  The \<open>sort()\<close>
  that follows orders strings by their UTF-16 code units.  \<open>code_units\<close> reads them off
  the UTF-8 bytes of a text: one unit for a character of one, two or three bytes, a
  surrogate pair for a character of four bytes.
\<close>

fun code_units :: "string \<Rightarrow> nat list" where
  "code_units [] = []"
| "code_units [a] = [of_char a]"
| "code_units [a, b] =
     (if (of_char a :: nat) < 0x80 then of_char a # code_units [b]
      else [(of_char a - 0xC0) * 64 + (of_char b - 0x80)])"
| "code_units [a, b, c] =
     (if (of_char a :: nat) < 0x80 then of_char a # code_units [b, c]
      else if (of_char a :: nat) < 0xE0 then
        ((of_char a - 0xC0) * 64 + (of_char b - 0x80)) # code_units [c]
      else [(of_char a - 0xE0) * 4096 + (of_char b - 0x80) * 64 + (of_char c - 0x80)])"
| "code_units (a # b # c # d # rest) =
     (if (of_char a :: nat) < 0x80 then of_char a # code_units (b # c # d # rest)
      else if (of_char a :: nat) < 0xE0 then
        ((of_char a - 0xC0) * 64 + (of_char b - 0x80)) # code_units (c # d # rest)
      else if (of_char a :: nat) < 0xF0 then
        ((of_char a - 0xE0) * 4096 + (of_char b - 0x80) * 64 + (of_char c - 0x80))
        # code_units (d # rest)
      else
        (let cp = (of_char a - 0xF0) * 262144 + (of_char b - 0x80) * 4096
                  + (of_char c - 0x80) * 64 + (of_char d - 0x80)
         in (0xD800 + (cp - 0x10000) div 1024) # (0xDC00 + (cp - 0x10000) mod 1024)
            # code_units rest))"

definition spread_set :: "string list \<Rightarrow> string list" where
  "spread_set xs = foldl (\<lambda>acc x. if x \<in> set acc then acc else acc @ [x]) [] xs"

definition dashboard_of :: "feedback_row list \<Rightarrow> dashboard" where
  "dashboard_of rs =
     \<lparr> stats = fold tally rs \<lparr> pending = 0, doneCount = 0, byHost = Map.empty, byStage = Map.empty \<rparr>,
       filterOptions =
         \<lparr> hosts = sort_key code_units (spread_set (filter (\<lambda>h. h \<noteq> []) (map host rs))),
           stages = sort_key code_units (spread_set (filter (\<lambda>g. g \<noteq> []) (map stage rs))) \<rparr>,
       feedback = rs \<rparr>"

definition getDashboardData :: "sheets \<Rightarrow> (error + dashboard) \<times> sheets" where
  "getDashboardData s =
     (case getAllData s of
        (Inl e, s') \<Rightarrow> (Inl e, s')
      | (Inr data, s') \<Rightarrow> (Inr (dashboard_of (rows data)), s'))"

section \<open>JSON values and the replies of the action functions\<close>

text \<open>
  A Number of the runtime is \<open>NaN\<close>, an infinity (\<open>Infinity True\<close> the positive one) or
  a finite value.  A value read from JSON is \<open>null\<close>, a boolean, a number, a string, an
  array or an object, whose properties are listed in their order.
\<close>

datatype jsnumber = NaN | Infinity bool | Num rat

datatype json =
    JNull
  | JBool bool
  | JNum jsnumber
  | JStr string
  | JArr "json list"
  | JObj "(string \<times> json) list"

text \<open>
  What the runtime supplies: \<open>JSON.parse\<close> (\<open>None\<close> when it throws), the decimal text
  of a finite number, and the number that a string converts to.
\<close>

record js_runtime =
  JSON_parse :: "string \<Rightarrow> json option"
  Number_toString :: "rat \<Rightarrow> string"
  StringToNumber :: "string \<Rightarrow> jsnumber"

text \<open>
  \<open>JSON.stringify\<close> of such a value.  In a string, the quotation mark, the backslash
  and the control characters are escaped; a number that is not finite is written
  \<open>null\<close>.
\<close>

definition hex_digit :: "nat \<Rightarrow> char" where
  "hex_digit n = ''0123456789abcdef'' ! n"

definition quote_char :: "char \<Rightarrow> string" where
  "quote_char c =
     (if c = CHR 0x22 then [CHR 0x5C, CHR 0x22]
      else if c = CHR 0x5C then [CHR 0x5C, CHR 0x5C]
      else if c = CHR 0x08 then [CHR 0x5C, CHR ''b'']
      else if c = CHR 0x0C then [CHR 0x5C, CHR ''f'']
      else if c = CHR 0x0A then [CHR 0x5C, CHR ''n'']
      else if c = CHR 0x0D then [CHR 0x5C, CHR ''r'']
      else if c = CHR 0x09 then [CHR 0x5C, CHR ''t'']
      else if (of_char c :: nat) < 32 then
        [CHR 0x5C, CHR ''u'', CHR ''0'', CHR ''0'',
         hex_digit (of_char c div 16), hex_digit (of_char c mod 16)]
      else [c])"

definition quote :: "string \<Rightarrow> string" where
  "quote s = [CHR 0x22] @ concat (map quote_char s) @ [CHR 0x22]"

fun join :: "string \<Rightarrow> string list \<Rightarrow> string" where
  "join sep [] = []"
| "join sep [x] = x"
| "join sep (x # y # ys) = x @ sep @ join sep (y # ys)"

fun JSON_stringify :: "js_runtime \<Rightarrow> json \<Rightarrow> string" where
  "JSON_stringify rt JNull = ''null''"
| "JSON_stringify rt (JBool b) = (if b then ''true'' else ''false'')"
| "JSON_stringify rt (JNum n) = (case n of Num q \<Rightarrow> Number_toString rt q | _ \<Rightarrow> ''null'')"
| "JSON_stringify rt (JStr s) = quote s"
| "JSON_stringify rt (JArr xs) = ''['' @ join '','' (map (JSON_stringify rt) xs) @ '']''"
| "JSON_stringify rt (JObj fs) =
     ''{'' @ join '','' (map (\<lambda>(k, v). quote k @ '':'' @ JSON_stringify rt v) fs) @ ''}''"

text \<open>
  The conversion of a value to a number, as \<open>>=\<close>, \<open><\<close> and \<open>splice\<close> apply it.
  An object converts through its \<open>toString\<close>: \<open>[object Object]\<close>, unless the object has
  a property of that name of its own, which is no function, and the conversion raises a
  TypeError.  An array converts through \<open>join\<close>: the texts of its elements, empty for
  \<open>null\<close>, with commas between them.
\<close>

fun unconvertible :: "json \<Rightarrow> bool" where
  "unconvertible (JArr xs) = (\<exists>x \<in> set xs. unconvertible x)"
| "unconvertible (JObj fs) = (''toString'' \<in> set (map fst fs))"
| "unconvertible v = False"

fun ToString :: "js_runtime \<Rightarrow> json \<Rightarrow> string" where
  "ToString rt JNull = ''null''"
| "ToString rt (JBool b) = (if b then ''true'' else ''false'')"
| "ToString rt (JNum n) =
     (case n of
        NaN \<Rightarrow> ''NaN''
      | Infinity positive \<Rightarrow> (if positive then ''Infinity'' else ''-Infinity'')
      | Num q \<Rightarrow> Number_toString rt q)"
| "ToString rt (JStr s) = s"
| "ToString rt (JArr xs) = join '','' (map (\<lambda>x. if x = JNull then [] else ToString rt x) xs)"
| "ToString rt (JObj fs) = ''[object Object]''"

definition ToNumber :: "js_runtime \<Rightarrow> json \<Rightarrow> error + jsnumber" where
  "ToNumber rt v =
     (case v of
        JNull \<Rightarrow> Inr (Num 0)
      | JBool b \<Rightarrow> Inr (Num (if b then 1 else 0))
      | JNum n \<Rightarrow> Inr n
      | JStr s \<Rightarrow> Inr (StringToNumber rt s)
      | _ \<Rightarrow>
          if unconvertible v then Inl (Error ''Cannot convert object to primitive value'')
          else Inr (StringToNumber rt (ToString rt v)))"

text \<open>\<open>x >= 0\<close> and \<open>x < n\<close> for a number \<open>x\<close> and a length \<open>n\<close>; \<open>NaN\<close> compares false.\<close>

fun at_least_zero :: "jsnumber \<Rightarrow> bool" where
  "at_least_zero NaN = False"
| "at_least_zero (Infinity positive) = positive"
| "at_least_zero (Num q) = (0 \<le> q)"

fun below :: "jsnumber \<Rightarrow> nat \<Rightarrow> bool" where
  "below NaN n = False"
| "below (Infinity positive) n = (\<not> positive)"
| "below (Num q) n = (q < of_nat n)"

text \<open>
  The start index that \<open>splice\<close> makes of a number that is at least 0 and below the
  length: the number without its fraction.
\<close>

fun integer_part :: "jsnumber \<Rightarrow> nat" where
  "integer_part (Num q) = nat \<lfloor>q\<rfloor>"
| "integer_part n = 0"

text \<open>
  The JSON objects the server sends.  An action function returns \<open>{success, message}\<close>,
  \<open>{success, message, comments}\<close>, \<open>{success, comments}\<close> or the dashboard object (whose
  \<open>success\<close> is \<open>true\<close>).  The Telegram routes also send \<open>{ok: true}\<close>,
  \<open>{success: true, url, fileId}\<close>, \<open>{success, message, result}\<close> and
  \<open>{success: true, webhookInfo}\<close>.
\<close>

datatype reply =
    Reply bool string
  | Reply_with_comments bool string "json list"
  | Reply_comments bool "json list"
  | Reply_dashboard dashboard
  | Reply_ok
  | Reply_image string string
  | Reply_setup bool json json
  | Reply_info "json option"

section \<open>The texts of the replies\<close>

text \<open>
  The Vietnamese texts of the source, as UTF-8 bytes.  Without their diacritics they
  read: \<open>Da tao feedback thanh cong!\<close>, \<open>Cap nhat thanh cong!\<close>,
  \<open>Da cap nhat Stage thanh "..."\<close>, \<open>Da cap nhat N muc thanh "..."\<close>,
  \<open>Da them comment!\<close> and \<open>Note cu\<close>.
\<close>

definition createdMessage :: string where
  "createdMessage = [CHR 0xC4, CHR 0x90, CHR 0xC3, CHR 0xA3] @ '' t'' @ [CHR 0xE1, CHR 0xBA, CHR 0xA1] @ ''o feedback th'' @ [CHR 0xC3, CHR 0xA0] @ ''nh c'' @ [CHR 0xC3, CHR 0xB4] @ ''ng!''"

definition updatedMessage :: string where
  "updatedMessage = ''C'' @ [CHR 0xE1, CHR 0xBA, CHR 0xAD] @ ''p nh'' @ [CHR 0xE1, CHR 0xBA, CHR 0xAD] @ ''t th'' @ [CHR 0xC3, CHR 0xA0] @ ''nh c'' @ [CHR 0xC3, CHR 0xB4] @ ''ng!''"

definition stageMessage :: "string \<Rightarrow> string" where
  "stageMessage newStage = [CHR 0xC4, CHR 0x90, CHR 0xC3, CHR 0xA3] @ '' c'' @ [CHR 0xE1, CHR 0xBA, CHR 0xAD] @ ''p nh'' @ [CHR 0xE1, CHR 0xBA, CHR 0xAD] @ ''t Stage th'' @ [CHR 0xC3, CHR 0xA0] @ ''nh '' @ [CHR 0x22] @ newStage @ [CHR 0x22]"

definition bulkMessage :: "nat \<Rightarrow> string \<Rightarrow> string" where
  "bulkMessage n newStage =
     [CHR 0xC4, CHR 0x90, CHR 0xC3, CHR 0xA3] @ '' c'' @ [CHR 0xE1, CHR 0xBA, CHR 0xAD] @ ''p nh'' @ [CHR 0xE1, CHR 0xBA, CHR 0xAD] @ ''t '' @ toString n @ '' m'' @ [CHR 0xE1, CHR 0xBB, CHR 0xA5] @ ''c th'' @ [CHR 0xC3, CHR 0xA0] @ ''nh '' @ [CHR 0x22] @ newStage @ [CHR 0x22]"

definition commentAddedMessage :: string where
  "commentAddedMessage = [CHR 0xC4, CHR 0x90, CHR 0xC3, CHR 0xA3] @ '' th'' @ [CHR 0xC3, CHR 0xAA] @ ''m comment!''"

definition legacyTime :: string where
  "legacyTime = ''Note c'' @ [CHR 0xC5, CHR 0xA9]"

section \<open>Writing feedback rows (src/server.js)\<close>

text \<open>
  \<open>createFeedback\<close>: \<open>date_now\<close> is \<open>Date.now()\<close>, \<open>vnTime\<close> the date object described
  above, \<open>fb\<close> the \<open>feedback\<close> object of the request body (\<open>None\<close> when it is missing).
  \<open>created_row\<close> is its array \<open>row\<close>, columns A to O: ID, Deadline, Host, Shop, Link,
  Stage, Tags, Dev\_note, Image\_note,
  Note, Time, Message, MessageID, ImageID, UpdatedAt.
\<close>

definition created_row :: "nat \<Rightarrow> jsdate \<Rightarrow> jsobj \<Rightarrow> string list" where
  "created_row date_now vnTime fbk =
     (let timestamp = timestamp_of vnTime in
      [toString date_now,
       or_default (fbk ''deadline'') [],
       or_default (fbk ''host'') [],
       or_default (fbk ''shop'') [],
       or_default (fbk ''link'') [],
       or_default (fbk ''stage'') ''Feedback'',
       or_default (fbk ''tags'') [],
       or_default (fbk ''devNote'') [],
       [],
       or_default (fbk ''note'') [],
       timestamp,
       or_default (fbk ''note'') [],
       [],
       [],
       timestamp])"

definition createFeedback ::
  "nat \<Rightarrow> jsdate \<Rightarrow> jsobj option \<Rightarrow> sheets \<Rightarrow> (error + reply) \<times> sheets" where
  "createFeedback date_now vnTime fb s =
     (case fb of
        None \<Rightarrow> (Inl (Error ''No feedback data''), s)
      | Some fbk \<Rightarrow>
          (case appendRow (created_row date_now vnTime fbk) s of
             (Inl e, s') \<Rightarrow> (Inl e, s')
           | (Inr success, s') \<Rightarrow>
               if success then (Inr (Reply True createdMessage), s')
               else (Inl (Error ''Failed to append row''), s')))"

text \<open>
  The \<open>createFeedback\<close> of the earliest server file (src/unnamed/part\_000), which
  writes columns A to N in the order \<open>getAllData\<close> reads them: Deadline, Host, Shop,
  Link, Stage, Tags, Dev\_note, Image\_note, Note, Time, Message, MessageID, ImageID, ID.
  It formats \<open>now\<close> itself, and \<open>uuid\<close> is \<open>crypto.randomUUID()\<close>.
\<close>

definition createFeedback_AN ::
  "jsdate \<Rightarrow> string \<Rightarrow> jsobj option \<Rightarrow> sheets \<Rightarrow> (error + reply) \<times> sheets" where
  "createFeedback_AN now uuid fb s =
     (case fb of
        None \<Rightarrow> (Inl (Error ''No feedback data''), s)
      | Some fbk \<Rightarrow>
          let timestamp = timestamp_of now;
              row = [or_default (fbk ''deadline'') [],
                     or_default (fbk ''host'') [],
                     or_default (fbk ''shop'') [],
                     or_default (fbk ''link'') [],
                     or_default (fbk ''stage'') ''Feedback'',
                     or_default (fbk ''tags'') [],
                     or_default (fbk ''devNote'') [],
                     [],
                     or_default (fbk ''note'') [],
                     timestamp,
                     or_default (fbk ''note'') [],
                     [],
                     [],
                     uuid]
          in (case appendRow row s of
                (Inl e, s') \<Rightarrow> (Inl e, s')
              | (Inr success, s') \<Rightarrow>
                  if success then (Inr (Reply True createdMessage), s')
                  else (Inl (Error ''Failed to append row''), s')))"

text \<open>\<open>if (updates.f !== undefined) newRow[i] = updates.f\<close>.\<close>

definition assign_defined :: "jsobj \<Rightarrow> string \<Rightarrow> nat \<Rightarrow> string list \<Rightarrow> string list" where
  "assign_defined updates f i newRow =
     (case updates f of None \<Rightarrow> newRow | Some v \<Rightarrow> newRow[i := v])"

text \<open>The row \<open>updateFeedback\<close> hands to \<open>updateRow\<close>, from the row it read.\<close>

definition merged_row :: "jsdate \<Rightarrow> string list \<Rightarrow> jsobj \<Rightarrow> string list" where
  "merged_row vnTime currentRowRaw updates =
     (let r0 = currentRowRaw @ replicate (15 - length currentRowRaw) [];
          r1 = assign_defined updates ''deadline'' 1 r0;
          r2 = assign_defined updates ''host'' 2 r1;
          r3 = assign_defined updates ''shop'' 3 r2;
          r4 = assign_defined updates ''link'' 4 r3;
          r5 = assign_defined updates ''stage'' 5 r4;
          r6 = assign_defined updates ''tags'' 6 r5;
          r7 = assign_defined updates ''devNote'' 7 r6;
          r8 = assign_defined updates ''note'' 9 r7;
          r9 = assign_defined updates ''message'' 11 r8
      in r9[14 := timestamp_of vnTime])"

text \<open>
  \<open>rowNo\<close> is the \<open>rowNumber\<close> of the request, 0 standing for every falsy value (a
  missing field, \<open>null\<close>, 0).  \<open>upd\<close> is the \<open>updates\<close> object, \<open>None\<close> when missing:
  reading a field of it then raises a TypeError, after the row has been fetched.  The
  check \<open>!currentRowRaw\<close> never holds, since \<open>getRow\<close> returns an array.
\<close>

definition updateFeedback ::
  "jsdate \<Rightarrow> nat \<Rightarrow> jsobj option \<Rightarrow> sheets \<Rightarrow> (error + reply) \<times> sheets" where
  "updateFeedback vnTime rowNo upd s =
     (if rowNo = 0 then (Inl (Error ''Missing rowNumber''), s)
      else (case getRow rowNo s of
              (Inl e, s') \<Rightarrow> (Inl e, s')
            | (Inr currentRowRaw, s') \<Rightarrow>
                (case upd of
                   None \<Rightarrow>
                     (Inl (Error (''Cannot read properties of undefined (reading '' @ [CHR 0x27] @ ''deadline'' @ [CHR 0x27] @ '')'')), s')
                 | Some updates \<Rightarrow>
                     (case updateRow rowNo (merged_row vnTime currentRowRaw updates) s' of
                        (Inl e, s'') \<Rightarrow> (Inl e, s'')
                      | (Inr _, s'') \<Rightarrow>
                          (Inr (Reply True updatedMessage), s'')))))"

definition updateStage ::
  "jsdate \<Rightarrow> nat \<Rightarrow> string \<Rightarrow> sheets \<Rightarrow> (error + reply) \<times> sheets" where
  "updateStage vnTime rowNo newStage s =
     (let timestamp = timestamp_of vnTime in
      case updateCell rowNo (CHR ''F'') newStage s of
        (Inl e, s1) \<Rightarrow> (Inl e, s1)
      | (Inr _, s1) \<Rightarrow>
          (case updateCell rowNo (CHR ''O'') timestamp s1 of
             (Inl e, s2) \<Rightarrow> (Inl e, s2)
           | (Inr _, s2) \<Rightarrow>
               (Inr (Reply True (stageMessage newStage)), s2)))"

text \<open>The \<open>for\<close> loop of \<open>bulkUpdateStage\<close>: two cell updates per row, in order.\<close>

fun bulk_loop :: "nat list \<Rightarrow> string \<Rightarrow> string \<Rightarrow> sheets \<Rightarrow> (error + unit) \<times> sheets" where
  "bulk_loop [] newStage timestamp s = (Inr (), s)"
| "bulk_loop (rowNo # rest) newStage timestamp s =
     (case updateCell rowNo (CHR ''F'') newStage s of
        (Inl e, s1) \<Rightarrow> (Inl e, s1)
      | (Inr _, s1) \<Rightarrow>
          (case updateCell rowNo (CHR ''O'') timestamp s1 of
             (Inl e, s2) \<Rightarrow> (Inl e, s2)
           | (Inr _, s2) \<Rightarrow> bulk_loop rest newStage timestamp s2))"

text \<open>
  \<open>rowNos\<close> is \<open>None\<close> when the request's \<open>rowNumbers\<close> is missing or no array;
  \<open>stageOpt\<close> is \<open>None\<close> when \<open>newStage\<close> is missing.
\<close>

definition bulkUpdateStage ::
  "jsdate \<Rightarrow> nat list option \<Rightarrow> string option \<Rightarrow> sheets \<Rightarrow> (error + reply) \<times> sheets" where
  "bulkUpdateStage vnTime rowNos stageOpt s =
     (case rowNos of
        None \<Rightarrow> (Inl (Error ''Missing or invalid rowNumbers''), s)
      | Some rowNumbers \<Rightarrow>
          if rowNumbers = [] then (Inl (Error ''Missing or invalid rowNumbers''), s)
          else if or_default stageOpt [] = [] then (Inl (Error ''Missing newStage''), s)
          else
            let newStage = or_default stageOpt [];
                timestamp = timestamp_of vnTime
            in (case bulk_loop rowNumbers newStage timestamp s of
                  (Inl e, s') \<Rightarrow> (Inl e, s')
                | (Inr _, s') \<Rightarrow>
                    (Inr (Reply True (bulkMessage (length rowNumbers) newStage)), s')))"

section \<open>Comments (src/server.js)\<close>

text \<open>
  \<open>String.prototype.trim\<close> removes the white space and line terminator code points
  from both ends.  On UTF-8 text these are the byte sequences of \<open>white_space\<close>:
  U+0009 to U+000D, U+0020, U+00A0, U+1680, U+2000 to U+200A, U+2028, U+2029, U+202F,
  U+205F, U+3000 and U+FEFF.
\<close>

definition white_space :: "string list" where
  "white_space =
     [[CHR 0x09], [CHR 0x0A], [CHR 0x0B], [CHR 0x0C], [CHR 0x0D], [CHR 0x20],
      [CHR 0xC2, CHR 0xA0], [CHR 0xE1, CHR 0x9A, CHR 0x80],
      [CHR 0xE2, CHR 0x80, CHR 0x80], [CHR 0xE2, CHR 0x80, CHR 0x81],
      [CHR 0xE2, CHR 0x80, CHR 0x82], [CHR 0xE2, CHR 0x80, CHR 0x83],
      [CHR 0xE2, CHR 0x80, CHR 0x84], [CHR 0xE2, CHR 0x80, CHR 0x85],
      [CHR 0xE2, CHR 0x80, CHR 0x86], [CHR 0xE2, CHR 0x80, CHR 0x87],
      [CHR 0xE2, CHR 0x80, CHR 0x88], [CHR 0xE2, CHR 0x80, CHR 0x89],
      [CHR 0xE2, CHR 0x80, CHR 0x8A], [CHR 0xE2, CHR 0x80, CHR 0xA8],
      [CHR 0xE2, CHR 0x80, CHR 0xA9], [CHR 0xE2, CHR 0x80, CHR 0xAF],
      [CHR 0xE2, CHR 0x81, CHR 0x9F], [CHR 0xE3, CHR 0x80, CHR 0x80],
      [CHR 0xEF, CHR 0xBB, CHR 0xBF]]"

text \<open>The length of the sequence of \<open>ws\<close> that \<open>s\<close> starts with, 0 when there is none.\<close>

definition lead_len :: "string list \<Rightarrow> string \<Rightarrow> nat" where
  "lead_len ws s =
     (case filter (\<lambda>w. w \<noteq> [] \<and> take (length w) s = w) ws of
        [] \<Rightarrow> 0
      | w # _ \<Rightarrow> length w)"

function strip_lead :: "string list \<Rightarrow> string \<Rightarrow> string" where
  "strip_lead ws s = (if lead_len ws s = 0 then s else strip_lead ws (drop (lead_len ws s) s))"
  by pat_completeness auto
termination
proof (relation "measure (\<lambda>(ws, s). length s)")
  show "wf (measure (\<lambda>(ws :: string list, s :: string). length s))"
    by simp
next
  fix ws :: "string list" and s :: string
  assume pos: "lead_len ws s \<noteq> 0"
  then obtain w rest where "filter (\<lambda>w. w \<noteq> [] \<and> take (length w) s = w) ws = w # rest"
    by (auto simp: lead_len_def split: list.splits)
  then have "w \<in> set (filter (\<lambda>w. w \<noteq> [] \<and> take (length w) s = w) ws)"
    by simp
  then have "w \<noteq> []" and "take (length w) s = w"
    by auto
  then have "s \<noteq> []"
    by auto
  with pos show "((ws, drop (lead_len ws s) s), (ws, s)) \<in> measure (\<lambda>(ws, s). length s)"
    by simp
qed

definition trim :: "string \<Rightarrow> string" where
  "trim s = rev (strip_lead (map rev white_space) (rev (strip_lead white_space s)))"

definition startsWith :: "string \<Rightarrow> string \<Rightarrow> bool" where
  "startsWith s p = (take (length p) s = p)"

definition endsWith :: "string \<Rightarrow> string \<Rightarrow> bool" where
  "endsWith s p = (length p \<le> length s \<and> drop (length s - length p) s = p)"

text \<open>The object \<open>{text, time, author}\<close> of one comment.\<close>

definition comment :: "string \<Rightarrow> string \<Rightarrow> string \<Rightarrow> json" where
  "comment txt tm author = JObj [(''text'', JStr txt), (''time'', JStr tm), (''author'', JStr author)]"

text \<open>
  The comment list that \<open>addComment\<close> and \<open>getComments\<close> read from the text of cell H:
  a bracketed text is parsed, with \<open>[]\<close> when the parse throws or gives no array; any
  other non-empty text becomes one legacy comment.
\<close>

definition stored_comments :: "js_runtime \<Rightarrow> string \<Rightarrow> json list" where
  "stored_comments rt currentContent =
     (if currentContent \<noteq> [] then
        (if startsWith (trim currentContent) ''['' \<and> endsWith (trim currentContent) '']'' then
           (case JSON_parse rt currentContent of
              Some (JArr cs) \<Rightarrow> cs
            | _ \<Rightarrow> [])
         else [comment currentContent legacyTime ''System''])
      else [])"

text \<open>\<open>deleteComment\<close> reads the list the same way, without the legacy branch.\<close>

definition stored_comments_strict :: "js_runtime \<Rightarrow> string \<Rightarrow> json list" where
  "stored_comments_strict rt currentContent =
     (if currentContent \<noteq> [] then
        (if startsWith (trim currentContent) ''['' \<and> endsWith (trim currentContent) '']'' then
           (case JSON_parse rt currentContent of
              Some (JArr cs) \<Rightarrow> cs
            | _ \<Rightarrow> [])
         else [])
      else [])"

text \<open>\<open>commentText\<close> is \<open>None\<close> when the request has none.\<close>

definition addComment ::
  "js_runtime \<Rightarrow> jsdate \<Rightarrow> nat \<Rightarrow> string option \<Rightarrow> sheets \<Rightarrow> (error + reply) \<times> sheets" where
  "addComment rt vnTime rowNo commentText s =
     (if rowNo = 0 then (Inl (Error ''Missing rowNumber''), s)
      else if or_default commentText [] = [] \<or> trim (or_default commentText []) = [] then
        (Inl (Error ''Missing comment text''), s)
      else (case getRow rowNo s of
              (Inl e, s1) \<Rightarrow> (Inl e, s1)
            | (Inr currentRow, s1) \<Rightarrow>
                let currentContent = or_default (at_index currentRow 7) [];
                    timestamp = comment_time_of vnTime;
                    comments = stored_comments rt currentContent
                               @ [comment (trim (or_default commentText [])) timestamp ''User'']
                in (case updateCell rowNo (CHR ''H'') (JSON_stringify rt (JArr comments)) s1 of
                      (Inl e, s2) \<Rightarrow> (Inl e, s2)
                    | (Inr _, s2) \<Rightarrow>
                        (Inr (Reply_with_comments True commentAddedMessage comments), s2))))"


text \<open>\<open>comments.splice(i, 1)\<close> on an index within the list.\<close>

definition splice1 :: "nat \<Rightarrow> 'a list \<Rightarrow> 'a list" where
  "splice1 i xs = take i xs @ drop (i + 1) xs"

text \<open>
  \<open>commentIndex\<close> is the value of the request body's field as it was parsed, \<open>None\<close>
  when the body has no such field.  The range test compares it as a number; each
  conversion of an unconvertible value raises the TypeError.
\<close>

definition deleteComment ::
  "js_runtime \<Rightarrow> nat \<Rightarrow> json option \<Rightarrow> sheets \<Rightarrow> (error + reply) \<times> sheets" where
  "deleteComment rt rowNo commentIndex s =
     (if rowNo = 0 then (Inl (Error ''Missing rowNumber''), s)
      else (case commentIndex of
              None \<Rightarrow> (Inl (Error ''Missing commentIndex''), s)
            | Some JNull \<Rightarrow> (Inl (Error ''Missing commentIndex''), s)
            | Some v \<Rightarrow>
                (case getRow rowNo s of
                   (Inl e, s1) \<Rightarrow> (Inl e, s1)
                 | (Inr currentRow, s1) \<Rightarrow>
                     let comments = stored_comments_strict rt (or_default (at_index currentRow 7) []) in
                     (case ToNumber rt v of
                        Inl e \<Rightarrow> (Inl e, s1)
                      | Inr n \<Rightarrow>
                          if at_least_zero n \<and> below n (length comments) then
                            let remaining = splice1 (integer_part n) comments in
                            (case updateCell rowNo (CHR ''H'') (JSON_stringify rt (JArr remaining)) s1 of
                               (Inl e, s2) \<Rightarrow> (Inl e, s2)
                             | (Inr _, s2) \<Rightarrow>
                                 (Inr (Reply_with_comments True ''Deleted comment!'' remaining), s2))
                          else (Inr (Reply False ''Invalid comment index''), s1)))))"

section \<open>The timestamp format, as the specification words it\<close>

text \<open>
  \<open>HH:mm:ss dd/MM/yyyy\<close>: two digits each for the hours, minutes, seconds, day and
  month, four for the year.  A date object is valid when each getter is in its range.
\<close>

definition two_digits :: "nat \<Rightarrow> string" where
  "two_digits n = [digit (n div 10), digit (n mod 10)]"

definition four_digits :: "nat \<Rightarrow> string" where
  "four_digits n = [digit (n div 1000), digit (n div 100 mod 10), digit (n div 10 mod 10), digit (n mod 10)]"

definition HH_mm_ss_dd_MM_yyyy :: "jsdate \<Rightarrow> string" where
  "HH_mm_ss_dd_MM_yyyy t =
     two_digits (getHours t) @ '':'' @ two_digits (getMinutes t) @ '':'' @ two_digits (getSeconds t)
     @ '' '' @ two_digits (getDate t) @ ''/'' @ two_digits (getMonth t + 1) @ ''/''
     @ four_digits (getFullYear t)"

definition valid_date :: "jsdate \<Rightarrow> bool" where
  "valid_date t =
     (getMonth t < 12 \<and> 1 \<le> getDate t \<and> getDate t \<le> 31 \<and> getHours t < 24
      \<and> getMinutes t < 60 \<and> getSeconds t < 60)"

text \<open>
  The grid after both cell writes of one stage update of row \<open>n\<close>: column F (index 5)
  then column O (index 14).
\<close>

definition stage_cells :: "string \<Rightarrow> string \<Rightarrow> nat \<Rightarrow> string list list \<Rightarrow> string list list" where
  "stage_cells st ts n g = set_cell (n - 1) 14 ts (set_cell (n - 1) 5 st g)"

section \<open>Reading the grid\<close>

text \<open>
  The text of the cell at 0-based row \<open>r\<close> and column \<open>c\<close>, empty where the grid has no
  value; and \<open>answered k s\<close>: the service answers the next \<open>k\<close> requests.
\<close>

definition cell_text :: "string list list \<Rightarrow> nat \<Rightarrow> nat \<Rightarrow> string" where
  "cell_text g r c = (if r < length g \<and> c < length (g ! r) then g ! r ! c else [])"

definition answered :: "nat \<Rightarrow> sheets \<Rightarrow> bool" where
  "answered k s = (set (take k (faults s)) \<subseteq> {None})"

section \<open>The API key check and the order of the routes\<close>

record env =
  API_KEY :: "string option"
  TELEGRAM_BOT_TOKEN :: "string option"

text \<open>
  What a middleware does with a request: call \<open>next()\<close>, answer with a status and a
  JSON body, end the response with a status and no body, or call \<open>next(err)\<close> with an
  error that carries a status.
\<close>

datatype verdict = Next | Respond nat reply | End_response nat | Next_error nat

text \<open>
  The check of src/server.js; \<open>apiKey\<close> is the \<open>x-api-key\<close> header (\<open>None\<close> when the
  request has none).  \<open>!validKey\<close> holds for an unset and for an empty variable.
\<close>

definition apiKeyMiddleware :: "env \<Rightarrow> string option \<Rightarrow> verdict" where
  "apiKeyMiddleware e apiKey =
     (let validKey = API_KEY e in
      if or_default validKey [] = [] then Next
      else if apiKey \<noteq> validKey then Respond 403 (Reply False ''Forbidden: Invalid API Key'')
      else Next)"

text \<open>
  The check of the server files that register the Telegram routes (src/unnamed/part\_001
  and part\_003); \<open>path\<close> is \<open>req.path\<close>, the path below the mount point.
\<close>

definition apiKeyMiddleware_telegram :: "env \<Rightarrow> string \<Rightarrow> string option \<Rightarrow> verdict" where
  "apiKeyMiddleware_telegram e path apiKey =
     (if startsWith path ''/telegram-'' then Next
      else
        let validKey = API_KEY e in
        if or_default validKey [] = [] then Next
        else if apiKey \<noteq> validKey then Respond 403 (Reply False ''Forbidden: Invalid API Key'')
        else Next)"

text \<open>
  A request, as far as the layers read it: the method, the path of the URL (without the
  query), the \<open>x-api-key\<close> header, and \<open>body_refused\<close>, the status with which
  \<open>express.json()\<close> refuses the body (400 for text that is no JSON, 413 for a body
  above the limit), \<open>None\<close> when it reads the body or finds none to read.
\<close>

datatype http_method = GET | HEAD | POST | OPTIONS | Other_method string

record request =
  req_method :: http_method
  req_path :: string
  x_api_key :: "string option"
  body_refused :: "nat option"

text \<open>
  The application is the list of its layers in the order of registration: \<open>app.use\<close>
  adds a middleware for every path or mounts it on a path prefix, \<open>app.get\<close> and
  \<open>app.post\<close> register a handler for one path.  A request walks the list.  \<open>cors()\<close>
  answers every \<open>OPTIONS\<close> request itself with status 204 and passes the others on;
  \<open>express.json()\<close> passes a request on or hands the error of an unreadable body to
  the error handling of the framework, which answers with the status of the error.
\<close>

datatype handler =
    Telegram_webhook | Telegram_setup | Telegram_info | Exec_post | Exec_get | Telegram_image

datatype middleware = Cors | Express_json | Api_key | Api_key_telegram

datatype layer = Use_all middleware | Use string middleware | Route http_method string handler

datatype outcome =
    Handled handler | Refused nat reply | Ended nat | Error_handler nat | Not_found

text \<open>
  The framework compares paths without regard to the case of the letters A to Z, and a
  route also matches its path followed by one slash.
\<close>

definition lower :: "char \<Rightarrow> char" where
  "lower c =
     (case map_of (zip ''ABCDEFGHIJKLMNOPQRSTUVWXYZ'' ''abcdefghijklmnopqrstuvwxyz'') c of
        None \<Rightarrow> c
      | Some l \<Rightarrow> l)"

definition route_matches :: "string \<Rightarrow> string \<Rightarrow> bool" where
  "route_matches route p = (map lower p = map lower route \<or> map lower p = map lower route @ ''/'')"

text \<open>A route of \<open>app.get\<close> also serves \<open>HEAD\<close>.\<close>

definition method_matches :: "http_method \<Rightarrow> http_method \<Rightarrow> bool" where
  "method_matches route m = (m = route \<or> (route = GET \<and> m = HEAD))"

text \<open>
  \<open>req.path\<close> inside a middleware mounted on \<open>mount\<close>; \<open>None\<close> when the request is not
  under it.  The request is under the mount when its path is the mount, in any case of
  the letters, followed by nothing or by a slash; the mount, and one slash after it when
  another slash or nothing follows that, are cut off, and what is left starts with a
  slash.
\<close>

definition mounted :: "string \<Rightarrow> string \<Rightarrow> string option" where
  "mounted mount p =
     (let rest = drop (length mount) p in
      if map lower (take (length mount) p) \<noteq> map lower mount then None
      else if rest = [] then Some ''/''
      else if hd rest \<noteq> CHR ''/'' then None
      else if tl rest = [] then Some ''/''
      else if hd (tl rest) = CHR ''/'' then Some (tl rest)
      else Some rest)"

definition run_middleware :: "env \<Rightarrow> middleware \<Rightarrow> string \<Rightarrow> request \<Rightarrow> verdict" where
  "run_middleware e mw path req =
     (case mw of
        Cors \<Rightarrow> if req_method req = OPTIONS then End_response 204 else Next
      | Express_json \<Rightarrow> (case body_refused req of None \<Rightarrow> Next | Some status \<Rightarrow> Next_error status)
      | Api_key \<Rightarrow> apiKeyMiddleware e (x_api_key req)
      | Api_key_telegram \<Rightarrow> apiKeyMiddleware_telegram e path (x_api_key req))"

definition after_middleware :: "verdict \<Rightarrow> outcome \<Rightarrow> outcome" where
  "after_middleware v continue =
     (case v of
        Next \<Rightarrow> continue
      | Respond status body \<Rightarrow> Refused status body
      | End_response status \<Rightarrow> Ended status
      | Next_error status \<Rightarrow> Error_handler status)"

fun dispatch :: "env \<Rightarrow> layer list \<Rightarrow> request \<Rightarrow> outcome" where
  "dispatch e [] req = Not_found"
| "dispatch e (Route m p h # ls) req =
     (if method_matches m (req_method req) \<and> route_matches p (req_path req) then Handled h
      else dispatch e ls req)"
| "dispatch e (Use_all mw # ls) req =
     after_middleware (run_middleware e mw (req_path req) req) (dispatch e ls req)"
| "dispatch e (Use mount mw # ls) req =
     (case mounted mount (req_path req) of
        None \<Rightarrow> dispatch e ls req
      | Some path \<Rightarrow> after_middleware (run_middleware e mw path req) (dispatch e ls req))"

text \<open>src/server.js.\<close>

definition server_app :: "layer list" where
  "server_app =
     [Use_all Cors,
      Use_all Express_json,
      Use ''/api'' Api_key,
      Route POST ''/api/exec'' Exec_post,
      Route GET ''/api/exec'' Exec_get,
      Route GET ''/api/telegram-image'' Telegram_image]"

text \<open>src/unnamed/part\_001 and part\_003: the webhook is registered before the check.\<close>

definition telegram_app :: "layer list" where
  "telegram_app =
     [Use_all Cors,
      Use_all Express_json,
      Route POST ''/api/telegram-webhook'' Telegram_webhook,
      Use ''/api'' Api_key_telegram,
      Route GET ''/api/telegram-setup'' Telegram_setup,
      Route GET ''/api/telegram-info'' Telegram_info,
      Route POST ''/api/exec'' Exec_post,
      Route GET ''/api/exec'' Exec_get,
      Route GET ''/api/telegram-image'' Telegram_image]"

section \<open>The handlers of /api/exec (src/server.js)\<close>









section \<open>The Telegram routes\<close>






















section \<open>Counting, as the specification words it\<close>

text \<open>
  A counter object that holds, for each key of a list, the number of its occurrences,
  and nothing else.
\<close>

definition counts_of :: "string list \<Rightarrow> counters" where
  "counts_of ks = (\<lambda>k. if k \<in> set ks then Some (Count (count_list ks k)) else None)"

section \<open>A runtime for the examples\<close>

text \<open>
  The examples below need a runtime.  This one knows \<open>JSON.parse\<close> on three texts,
  each with the value that \<open>JSON.parse\<close> gives for it, and throws on every other
  text, as \<open>JSON.parse\<close> does on \<open>[oops]\<close>; it writes a whole number in decimal
  digits, and it reads the empty string as 0, a string of decimal digits as their
  number and, like \<open>Number('abc')\<close>, anything else as \<open>NaN\<close>.
\<close>

definition decimal_value :: "string \<Rightarrow> nat" where
  "decimal_value s = foldl (\<lambda>n c. 10 * n + (of_char c - of_char (CHR ''0''))) 0 s"

definition example_runtime :: js_runtime where
  "example_runtime =
     \<lparr> JSON_parse = map_of
         [(''[]'', JArr []),
          (''[{'' @ [CHR 0x22] @ ''text'' @ [CHR 0x22] @ '':'' @ [CHR 0x22] @ ''first'' @ [CHR 0x22] @ '','' @ [CHR 0x22] @ ''time'' @ [CHR 0x22] @ '':'' @ [CHR 0x22] @ ''07:05 09/01/2026'' @ [CHR 0x22] @ '','' @ [CHR 0x22] @ ''author'' @ [CHR 0x22] @ '':'' @ [CHR 0x22] @ ''User'' @ [CHR 0x22] @ ''}]'',
           JArr [JObj [(''text'', JStr ''first''), (''time'', JStr ''07:05 09/01/2026''),
                       (''author'', JStr ''User'')]]),
          (''[{'' @ [CHR 0x22] @ ''text'' @ [CHR 0x22] @ '':'' @ [CHR 0x22] @ ''first'' @ [CHR 0x22] @ '','' @ [CHR 0x22] @ ''time'' @ [CHR 0x22] @ '':'' @ [CHR 0x22] @ ''07:05 09/01/2026'' @ [CHR 0x22] @ '','' @ [CHR 0x22] @ ''author'' @ [CHR 0x22] @ '':'' @ [CHR 0x22] @ ''User'' @ [CHR 0x22] @ ''},{'' @ [CHR 0x22] @ ''text'' @ [CHR 0x22] @ '':'' @ [CHR 0x22] @ ''second'' @ [CHR 0x22] @ '','' @ [CHR 0x22] @ ''time'' @ [CHR 0x22] @ '':'' @ [CHR 0x22] @ ''07:06 09/01/2026'' @ [CHR 0x22] @ '','' @ [CHR 0x22] @ ''author'' @ [CHR 0x22] @ '':'' @ [CHR 0x22] @ ''User'' @ [CHR 0x22] @ ''}]'',
           JArr [JObj [(''text'', JStr ''first''), (''time'', JStr ''07:05 09/01/2026''),
                       (''author'', JStr ''User'')],
                 JObj [(''text'', JStr ''second''), (''time'', JStr ''07:06 09/01/2026''),
                       (''author'', JStr ''User'')]])],
       Number_toString = (\<lambda>q. (if q < 0 then ''-'' else []) @ toString (nat \<lfloor>\<bar>q\<bar>\<rfloor>)),
       StringToNumber =
         (\<lambda>s. if list_all (\<lambda>c. c \<in> set ''0123456789'') s then Num (of_nat (decimal_value s))
              else NaN) \<rparr>"

section \<open>Properties of sheetsClient.getAllData\<close>

lemma map_zip_index:
  "map (\<lambda>(x, i). f x i) (zip xs [0 ..< length xs]) = map (\<lambda>i. f (xs ! i) i) [0 ..< length xs]"
  by (rule nth_equalityI) simp_all

lemma getAllData_of_short:
  "length data < 3 \<Longrightarrow> getAllData_of (Some data) = \<lparr> headers = [], rows = [] \<rparr>"
  by (simp add: getAllData_of_def)

lemma getAllData_of_rows:
  "3 \<le> length data \<Longrightarrow>
   rows (getAllData_of (Some data)) =
     filter keep_row (map (\<lambda>i. mk_row (data ! (i + 2)) i) [0 ..< length data - 2])"
  by (simp add: getAllData_of_def Let_def map_zip_index add.commute)

lemma keep_row_eq: "keep_row = (\<lambda>r. shop r \<noteq> [] \<or> host r \<noteq> [])"
  by (rule ext) (simp add: keep_row_def)

lemma getAllData_ok:
  "faults s = [] \<Longrightarrow>
   getAllData s =
     (Inr (getAllData_of (if grid s = [] then None else Some (grid s))),
      s\<lparr> calls := calls s @ [Values_get] \<rparr>)"
  by (simp add: getAllData_def request_def)

text \<open>
  Claim C6.  \<open>getAllData\<close> treats the first two sheet rows as headers.  With fewer
  than three rows (or no values at all) it returns empty headers and no rows.
  Otherwise the headers are the first row, and the rows are built from the sheet rows
  after the second, in order: the row built from the data row at zero-based position
  \<open>i\<close> (sheet row \<open>i + 3\<close>) gets \<open>rowNumber = i + 3\<close>, and exactly the rows with
  neither a shop nor a host are dropped.  A read that the service answers returns
  this result for the grid as it stands.
\<close>

theorem getAllData_numbering:
  "getAllData_of None = \<lparr> headers = [], rows = [] \<rparr>
   \<and> (length data < 3 \<longrightarrow> getAllData_of (Some data) = \<lparr> headers = [], rows = [] \<rparr>)
   \<and> (3 \<le> length data \<longrightarrow>
        headers (getAllData_of (Some data)) = data ! 0
        \<and> rows (getAllData_of (Some data)) =
            filter (\<lambda>r. shop r \<noteq> [] \<or> host r \<noteq> [])
              (map (\<lambda>i. mk_row (data ! (i + 2)) i) [0 ..< length data - 2]))
   \<and> rowNumber (mk_row row i) = i + 3
   \<and> host (mk_row row i) = or_default (at_index row 1) []
   \<and> shop (mk_row row i) = or_default (at_index row 2) []
   \<and> (faults s = [] \<longrightarrow>
        fst (getAllData s) = Inr (getAllData_of (if grid s = [] then None else Some (grid s)))
        \<and> grid (snd (getAllData s)) = grid s)"
  using getAllData_of_rows [of data] getAllData_of_short [of data] getAllData_ok [of s]
  by (auto simp: keep_row_eq mk_row_def getAllData_of_def)

theorem getAllData_numbering_witness:
  "rows (getAllData_of (Some [[''Deadline'', ''Host''], [''h2''],
                              [''1/1'', ''Lam'', ''a.com''],
                              [''2/1'', '''', ''''],
                              [''3/1'', '''', ''c.com'']]))
   = [mk_row [''1/1'', ''Lam'', ''a.com''] 0, mk_row [''3/1'', '''', ''c.com''] 2]
   \<and> map rowNumber (rows (getAllData_of (Some [[''Deadline'', ''Host''], [''h2''],
                              [''1/1'', ''Lam'', ''a.com''],
                              [''2/1'', '''', ''''],
                              [''3/1'', '''', ''c.com'']]))) = [3, 5]
   \<and> getAllData_of (Some [[''Deadline'', ''Host''], [''h2'']]) = \<lparr> headers = [], rows = [] \<rparr>
   \<and> fst (getAllData \<lparr> grid = [[''Deadline'', ''Host''], [''h2'']], faults = [], calls = [], entered = (\<lambda>v. v), console = [] \<rparr>)
       = Inr \<lparr> headers = [], rows = [] \<rparr>"
  using getAllData_numbering [of "[[''Deadline'', ''Host''], [''h2''], [''1/1'', ''Lam'', ''a.com''], [''2/1'', '''', ''''], [''3/1'', '''', ''c.com'']]"
          "[]" 0 "\<lparr> grid = [[''Deadline'', ''Host''], [''h2'']], faults = [], calls = [], entered = (\<lambda>v. v), console = [] \<rparr>"]
        getAllData_numbering [of "[[''Deadline'', ''Host''], [''h2'']]" "[]" 0
          "\<lparr> grid = [[''Deadline'', ''Host''], [''h2'']], faults = [], calls = [], entered = (\<lambda>v. v), console = [] \<rparr>"]
  by (simp add: mk_row_def or_default_def at_index_def upt_rec)

section \<open>Timestamps\<close>

declare toString.simps [simp del]

lemma toString_small: "n < 10 \<Longrightarrow> toString n = [digit n]"
  by (subst toString.simps) simp

lemma toString_two: "10 \<le> n \<Longrightarrow> n < 100 \<Longrightarrow> toString n = [digit (n div 10), digit (n mod 10)]"
  by (subst toString.simps) (simp add: toString_small)

lemma toString_three: "100 \<le> n \<Longrightarrow> n < 1000 \<Longrightarrow>
  toString n = [digit (n div 100), digit (n div 10 mod 10), digit (n mod 10)]"
  by (subst toString.simps) (simp add: toString_two div_mult2_eq [symmetric])

lemma toString_four: "1000 \<le> n \<Longrightarrow> n < 10000 \<Longrightarrow> toString n = four_digits n"
  by (subst toString.simps) (simp add: toString_three four_digits_def div_mult2_eq [symmetric])

lemma pad_two: "n < 100 \<Longrightarrow> padStart2 (toString n) = two_digits n"
  by (cases "n < 10") (simp_all add: padStart2_def toString_small toString_two two_digits_def digit_def)

lemma timestamp_fields:
  "valid_date t \<Longrightarrow>
   timestamp_of t =
     two_digits (getHours t) @ '':'' @ two_digits (getMinutes t) @ '':'' @ two_digits (getSeconds t)
     @ '' '' @ two_digits (getDate t) @ ''/'' @ two_digits (getMonth t + 1) @ ''/''
     @ toString (getFullYear t)"
  by (simp add: timestamp_of_def valid_date_def pad_two Let_def)

lemma timestamp_pattern:
  "valid_date t \<Longrightarrow> 1000 \<le> getFullYear t \<Longrightarrow> getFullYear t < 10000 \<Longrightarrow>
   timestamp_of t = HH_mm_ss_dd_MM_yyyy t"
  by (simp add: timestamp_fields HH_mm_ss_dd_MM_yyyy_def toString_four)

section \<open>The client's calls, one by one\<close>

lemma request_calls: "calls (snd (request c s)) = calls s @ [c]"
  by (simp add: request_def Let_def split: list.splits option.splits)

lemma request_grid: "grid (snd (request c s)) = grid s"
  by (simp add: request_def Let_def split: list.splits option.splits)

lemma request_entered: "entered (snd (request c s)) = entered s"
  by (simp add: request_def Let_def split: list.splits option.splits)

lemma request_console: "console (snd (request c s)) = console s"
  by (simp add: request_def Let_def split: list.splits option.splits)

lemma updateCell_Inr:
  "updateCell n c v s = (Inr b, s') \<Longrightarrow>
   calls s' = calls s @ [Values_update_cell n c v]
   \<and> grid s' = set_cell (n - 1) (col_index c) (entered s v) (grid s)"
  using request_calls [of "Values_update_cell n c v" s] request_grid [of "Values_update_cell n c v" s]
        request_entered [of "Values_update_cell n c v" s]
  by (auto simp: updateCell_def split: prod.splits option.splits)

lemma appendRow_Inr:
  "appendRow row s = (Inr b, s') \<Longrightarrow>
   b \<and> calls s' = calls s @ [Values_append row] \<and> grid s' = grid s @ [map (entered s) row]"
  using request_calls [of "Values_append row" s] request_grid [of "Values_append row" s]
        request_entered [of "Values_append row" s]
  by (auto simp: appendRow_def split: prod.splits option.splits)

lemma getRow_Inr:
  "getRow n s = (Inr row, s') \<Longrightarrow>
   calls s' = calls s @ [Values_get_row n] \<and> grid s' = grid s
   \<and> row = (if n - 1 < length (grid s) then take 14 (grid s ! (n - 1)) else [])"
  using request_calls [of "Values_get_row n" s] request_grid [of "Values_get_row n" s]
  by (auto simp: getRow_def split: prod.splits option.splits)

lemma updateRow_Inr:
  "updateRow n row s = (Inr b, s') \<Longrightarrow>
   calls s' = calls s @ [Values_update_row n row]
   \<and> grid s' = set_row (n - 1) (map (entered s) row) (grid s) \<and> length row \<le> 14"
  using request_calls [of "Values_update_row n row" s] request_grid [of "Values_update_row n row" s]
        request_entered [of "Values_update_row n row" s]
  by (auto simp: updateRow_def request_def Let_def split: prod.splits option.splits if_splits list.splits)

lemma bulk_loop_Inr:
  "bulk_loop rs st ts s = (Inr u, s') \<Longrightarrow>
   calls s' = calls s @ concat (map (\<lambda>n. [Values_update_cell n (CHR ''F'') st,
                                            Values_update_cell n (CHR ''O'') ts]) rs)"
proof (induction rs arbitrary: s)
  case Nil
  then show ?case by simp
next
  case (Cons r rs)
  from Cons.prems obtain b1 s1 b2 s2 where
    c1: "updateCell r (CHR ''F'') st s = (Inr b1, s1)" and
    c2: "updateCell r (CHR ''O'') ts s1 = (Inr b2, s2)" and
    rest: "bulk_loop rs st ts s2 = (Inr u, s')"
    by (auto split: prod.splits sum.splits)
  from updateCell_Inr [OF c1] updateCell_Inr [OF c2] Cons.IH [OF rest]
  show ?case by simp
qed

lemma assign_defined_length: "length (assign_defined updates f i r) = length r"
  by (simp add: assign_defined_def split: option.splits)

lemma merged_row_stamp: "merged_row vnTime cur updates ! 14 = timestamp_of vnTime"
  by (simp add: merged_row_def Let_def assign_defined_length)

lemma createFeedback_Inr:
  "createFeedback date_now vnTime fb s = (Inr r, s') \<Longrightarrow>
   \<exists>row. calls s' = calls s @ [Values_append row] \<and> grid s' = grid s @ [map (entered s) row]
         \<and> row ! 10 = timestamp_of vnTime \<and> row ! 14 = timestamp_of vnTime"
  by (cases fb)
     (auto simp: createFeedback_def created_row_def Let_def split: prod.splits sum.splits if_splits
           dest!: appendRow_Inr)

lemma merged_row_length: "15 \<le> length (merged_row vnTime cur updates)"
  by (simp add: merged_row_def Let_def assign_defined_length)

text \<open>
  \<open>updateFeedback\<close> hands fifteen cells or more to \<open>updateRow\<close>, whose range has
  fourteen columns: the service refuses the write, and the function never succeeds.
\<close>

lemma updateFeedback_refused: "updateFeedback vnTime rowNo upd s \<noteq> (Inr r, s')"
proof
  assume "updateFeedback vnTime rowNo upd s = (Inr r, s')"
  then obtain cur updates s1 b where
    "updateRow rowNo (merged_row vnTime cur updates) s1 = (Inr b, s')"
    by (auto simp: updateFeedback_def split: prod.splits sum.splits if_splits option.splits)
  from updateRow_Inr [OF this] merged_row_length [of vnTime cur updates]
  show False by simp
qed

lemma updateStage_Inr:
  "updateStage vnTime rowNo newStage s = (Inr r, s') \<Longrightarrow>
   calls s' = calls s @ [Values_update_cell rowNo (CHR ''F'') newStage,
                         Values_update_cell rowNo (CHR ''O'') (timestamp_of vnTime)]"
  by (auto simp: updateStage_def Let_def split: prod.splits sum.splits dest!: updateCell_Inr)

lemma bulkUpdateStage_Inr:
  "bulkUpdateStage vnTime rowNos stageOpt s = (Inr r, s') \<Longrightarrow>
   \<exists>rs st. rowNos = Some rs \<and> stageOpt = Some st
     \<and> calls s' = calls s @ concat (map (\<lambda>n. [Values_update_cell n (CHR ''F'') st,
                                               Values_update_cell n (CHR ''O'') (timestamp_of vnTime)]) rs)"
  by (cases rowNos; cases stageOpt)
     (auto simp: bulkUpdateStage_def Let_def or_default_def
           split: prod.splits sum.splits if_splits dest!: bulk_loop_Inr)


section \<open>The timestamps and the clock of the host\<close>

text \<open>
  On a host whose local time skips and repeats nothing, \<open>vnTime\<close> shows the wall clock
  of Asia/Ho\_Chi\_Minh.
\<close>

lemma vnTime_of_steady_host:
  "(\<And>t. LocalTime z (UTC z t) = t) \<Longrightarrow>
   vnTime_of z now = date_fields (vn_wall_clock now - vn_wall_clock now mod 1000)"
  by (simp add: vnTime_of_def Let_def)

text \<open>
  The instant 1772911800000 is 7 March 2026, 19:30:00 UTC: 02:30:00 on 8 March in
  Asia/Ho\_Chi\_Minh.  Day 20520 since 1970 is day 66 of 2026.
\<close>

lemma year_2026: "YearFromDay 20520 = 2026"
  by (simp add: YearFromDay_def DayFromYear_def)

lemma month_march: "MonthFromDay 66 0 = 2"
  by (simp add: MonthFromDay_def)

lemma date_8: "DateFromDay 66 0 = 8"
  by (simp add: DateFromDay_def month_march)

lemma fields_0230:
  "date_fields 1772937000000
   = \<lparr> getFullYear = 2026, getMonth = 2, getDate = 8, getHours = 2, getMinutes = 30, getSeconds = 0 \<rparr>"
  unfolding date_fields_def Let_def
  by (simp add: year_2026 InLeapYear_def DayFromYear_def month_march date_8)

lemma fields_0330:
  "date_fields 1772940600000
   = \<lparr> getFullYear = 2026, getMonth = 2, getDate = 8, getHours = 3, getMinutes = 30, getSeconds = 0 \<rparr>"
  unfolding date_fields_def Let_def
  by (simp add: year_2026 InLeapYear_def DayFromYear_def month_march date_8)

lemma wall_clock_0230: "vn_wall_clock 1772911800000 = 1772937000000"
  by (simp add: vn_wall_clock_def)

lemma vnTime_utc:
  "vnTime_of utc_host 1772911800000
   = \<lparr> getFullYear = 2026, getMonth = 2, getDate = 8, getHours = 2, getMinutes = 30, getSeconds = 0 \<rparr>"
  unfolding vnTime_of_def Let_def wall_clock_0230
  by (simp add: utc_host_def fields_0230)

lemma vnTime_new_york:
  "vnTime_of new_york_2026 1772911800000
   = \<lparr> getFullYear = 2026, getMonth = 2, getDate = 8, getHours = 3, getMinutes = 30, getSeconds = 0 \<rparr>"
  unfolding vnTime_of_def Let_def wall_clock_0230
  by (simp add: new_york_2026_def fields_0330)

lemma stamp_0330:
  "timestamp_of \<lparr> getFullYear = 2026, getMonth = 2, getDate = 8, getHours = 3, getMinutes = 30, getSeconds = 0 \<rparr>
   = ''03:30:00 08/03/2026''"
  by (simp add: timestamp_of_def toString.simps padStart2_def digit_def)

lemma stamp_0230:
  "timestamp_of \<lparr> getFullYear = 2026, getMonth = 2, getDate = 8, getHours = 2, getMinutes = 30, getSeconds = 0 \<rparr>
   = ''02:30:00 08/03/2026''"
  by (simp add: timestamp_of_def toString.simps padStart2_def digit_def)

lemma pattern_0230:
  "HH_mm_ss_dd_MM_yyyy \<lparr> getFullYear = 2026, getMonth = 2, getDate = 8, getHours = 2, getMinutes = 30, getSeconds = 0 \<rparr>
   = ''02:30:00 08/03/2026''"
  by (simp add: HH_mm_ss_dd_MM_yyyy_def two_digits_def four_digits_def digit_def)

text \<open>
  Claim C8 asks for the wall-clock time of Asia/Ho\_Chi\_Minh; the code reads that
  wall clock as a local time of the host.  On a host that keeps the time of New York,
  a call at 19:30:00 UTC on 7 March 2026, when it is 02:30:00 on 8 March 2026 in
  Asia/Ho\_Chi\_Minh, falls into the hour that New York skips that night:
  \<open>createFeedback\<close>, \<open>updateStage\<close> and \<open>bulkUpdateStage\<close> write
  \<open>03:30:00 08/03/2026\<close> to the Time and UpdatedAt columns, and \<open>updateFeedback\<close>
  sends it in the row that the service refuses.  On a host that keeps UTC the same call
  gives \<open>02:30:00 08/03/2026\<close>.
\<close>

theorem timestamp_on_new_york_host:
  "HH_mm_ss_dd_MM_yyyy (date_fields (vn_wall_clock 1772911800000)) = ''02:30:00 08/03/2026''
   \<and> timestamp_of (vnTime_of utc_host 1772911800000) = ''02:30:00 08/03/2026''
   \<and> timestamp_of (vnTime_of new_york_2026 1772911800000) = ''03:30:00 08/03/2026''
   \<and> createFeedback 1772911800123 (vnTime_of new_york_2026 1772911800000)
         (Some [''host'' \<mapsto> ''Lam'', ''shop'' \<mapsto> ''a.com''])
         \<lparr> grid = [[''ID''], [''h'']], faults = [], calls = [], entered = (\<lambda>v. v), console = [] \<rparr>
       = (Inr (Reply True ([CHR 0xC4, CHR 0x90, CHR 0xC3, CHR 0xA3] @ '' t'' @ [CHR 0xE1, CHR 0xBA, CHR 0xA1] @ ''o feedback th'' @ [CHR 0xC3, CHR 0xA0] @ ''nh c'' @ [CHR 0xC3, CHR 0xB4] @ ''ng!'')),
          \<lparr> grid = [[''ID''], [''h''],
                     [''1772911800123'', '''', ''Lam'', ''a.com'', '''', ''Feedback'', '''', '''', '''',
                      '''', ''03:30:00 08/03/2026'', '''', '''', '''', ''03:30:00 08/03/2026'']],
            faults = [],
            calls = [Values_append
                      [''1772911800123'', '''', ''Lam'', ''a.com'', '''', ''Feedback'', '''', '''', '''',
                       '''', ''03:30:00 08/03/2026'', '''', '''', '''', ''03:30:00 08/03/2026'']],
            entered = (\<lambda>v. v), console = [] \<rparr>)
   \<and> updateStage (vnTime_of new_york_2026 1772911800000) 3 ''Done''
         \<lparr> grid = [[''ID''], [''h''], [''17'', ''1/1'', ''Lam'']], faults = [], calls = [],
           entered = (\<lambda>v. v), console = [] \<rparr>
       = (Inr (Reply True ([CHR 0xC4, CHR 0x90, CHR 0xC3, CHR 0xA3] @ '' c'' @ [CHR 0xE1, CHR 0xBA, CHR 0xAD] @ ''p nh'' @ [CHR 0xE1, CHR 0xBA, CHR 0xAD] @ ''t Stage th'' @ [CHR 0xC3, CHR 0xA0] @ ''nh '' @ [CHR 0x22] @ ''Done'' @ [CHR 0x22])),
          \<lparr> grid = [[''ID''], [''h''],
                     [''17'', ''1/1'', ''Lam'', '''', '''', ''Done'', '''', '''', '''', '''', '''', '''',
                      '''', '''', ''03:30:00 08/03/2026'']],
            faults = [],
            calls = [Values_update_cell 3 (CHR ''F'') ''Done'',
                     Values_update_cell 3 (CHR ''O'') ''03:30:00 08/03/2026''],
            entered = (\<lambda>v. v), console = [] \<rparr>)
   \<and> bulkUpdateStage (vnTime_of new_york_2026 1772911800000) (Some [3]) (Some ''Done'')
         \<lparr> grid = [[''ID''], [''h''], [''17'', ''1/1'', ''Lam'']], faults = [], calls = [],
           entered = (\<lambda>v. v), console = [] \<rparr>
       = (Inr (Reply True ([CHR 0xC4, CHR 0x90, CHR 0xC3, CHR 0xA3] @ '' c'' @ [CHR 0xE1, CHR 0xBA, CHR 0xAD] @ ''p nh'' @ [CHR 0xE1, CHR 0xBA, CHR 0xAD] @ ''t 1 m'' @ [CHR 0xE1, CHR 0xBB, CHR 0xA5] @ ''c th'' @ [CHR 0xC3, CHR 0xA0] @ ''nh '' @ [CHR 0x22] @ ''Done'' @ [CHR 0x22])),
          \<lparr> grid = [[''ID''], [''h''],
                     [''17'', ''1/1'', ''Lam'', '''', '''', ''Done'', '''', '''', '''', '''', '''', '''',
                      '''', '''', ''03:30:00 08/03/2026'']],
            faults = [],
            calls = [Values_update_cell 3 (CHR ''F'') ''Done'',
                     Values_update_cell 3 (CHR ''O'') ''03:30:00 08/03/2026''],
            entered = (\<lambda>v. v), console = [] \<rparr>)
   \<and> updateFeedback (vnTime_of new_york_2026 1772911800000) 3 (Some [''stage'' \<mapsto> ''Done''])
         \<lparr> grid = [[''ID''], [''h''], [''17'', ''1/1'', ''Lam'']], faults = [], calls = [],
           entered = (\<lambda>v. v), console = [] \<rparr>
       = (Inl (Error ''Requested writing within range [Feedback!A3:N3], but tried writing to column [O]''),
          \<lparr> grid = [[''ID''], [''h''], [''17'', ''1/1'', ''Lam'']],
            faults = [],
            calls = [Values_get_row 3,
                     Values_update_row 3
                       [''17'', ''1/1'', ''Lam'', '''', '''', ''Done'', '''', '''', '''', '''', '''', '''',
                        '''', '''', ''03:30:00 08/03/2026'']],
            entered = (\<lambda>v. v),
            console = [Console_error ''SheetsClient: updateRow Error:''
                        (Error ''Requested writing within range [Feedback!A3:N3], but tried writing to column [O]'')] \<rparr>)"
proof -
  define S2 where "S2 = \<lparr> grid = [[''ID''], [''h'']], faults = [], calls = [],
                          entered = (\<lambda>v. v), console = [] \<rparr>"
  define S3 where "S3 = \<lparr> grid = [[''ID''], [''h''], [''17'', ''1/1'', ''Lam'']], faults = [], calls = [],
                          entered = (\<lambda>v. v), console = [] \<rparr>"
  have ts: "timestamp_of (vnTime_of new_york_2026 1772911800000) = ''03:30:00 08/03/2026''"
    unfolding vnTime_new_york by (rule stamp_0330)
  have tu: "timestamp_of (vnTime_of utc_host 1772911800000) = ''02:30:00 08/03/2026''"
    unfolding vnTime_utc by (rule stamp_0230)
  have pat: "HH_mm_ss_dd_MM_yyyy (date_fields (vn_wall_clock 1772911800000)) = ''02:30:00 08/03/2026''"
    unfolding wall_clock_0230 fields_0230 by (rule pattern_0230)
  have id_text: "toString 1772911800123 = ''1772911800123''"
    by (simp add: toString.simps digit_def)
  have three: "toString (Suc (Suc (Suc 0))) = ''3''"
    by (subst toString.simps) (simp add: digit_def)
  have one: "toString (Suc 0) = ''1''"
    by (subst toString.simps) (simp add: digit_def)
  have cf: "createFeedback dn vt (Some [''host'' \<mapsto> ''Lam'', ''shop'' \<mapsto> ''a.com'']) S2
      = (Inr (Reply True ([CHR 0xC4, CHR 0x90, CHR 0xC3, CHR 0xA3] @ '' t'' @ [CHR 0xE1, CHR 0xBA, CHR 0xA1] @ ''o feedback th'' @ [CHR 0xC3, CHR 0xA0] @ ''nh c'' @ [CHR 0xC3, CHR 0xB4] @ ''ng!'')),
         \<lparr> grid = [[''ID''], [''h''],
                    [toString dn, '''', ''Lam'', ''a.com'', '''', ''Feedback'', '''', '''', '''',
                     '''', timestamp_of vt, '''', '''', '''', timestamp_of vt]],
           faults = [],
           calls = [Values_append
                     [toString dn, '''', ''Lam'', ''a.com'', '''', ''Feedback'', '''', '''', '''',
                      '''', timestamp_of vt, '''', '''', '''', timestamp_of vt]],
           entered = (\<lambda>v. v), console = [] \<rparr>)" for dn vt
    by (simp add: createFeedback_def created_row_def Let_def appendRow_def request_def or_default_def
                  createdMessage_def S2_def)
  have us: "updateStage vt 3 ''Done'' S3
      = (Inr (Reply True ([CHR 0xC4, CHR 0x90, CHR 0xC3, CHR 0xA3] @ '' c'' @ [CHR 0xE1, CHR 0xBA, CHR 0xAD] @ ''p nh'' @ [CHR 0xE1, CHR 0xBA, CHR 0xAD] @ ''t Stage th'' @ [CHR 0xC3, CHR 0xA0] @ ''nh '' @ [CHR 0x22] @ ''Done'' @ [CHR 0x22])),
         \<lparr> grid = [[''ID''], [''h''],
                    [''17'', ''1/1'', ''Lam'', '''', '''', ''Done'', '''', '''', '''', '''', '''', '''',
                     '''', '''', timestamp_of vt]],
           faults = [],
           calls = [Values_update_cell 3 (CHR ''F'') ''Done'',
                    Values_update_cell 3 (CHR ''O'') (timestamp_of vt)],
           entered = (\<lambda>v. v), console = [] \<rparr>)" for vt
    by (simp add: updateStage_def Let_def updateCell_def request_def set_cell_def col_index_def
                  stageMessage_def S3_def numeral_eq_Suc)
  have bs: "bulkUpdateStage vt (Some [3]) (Some ''Done'') S3
      = (Inr (Reply True ([CHR 0xC4, CHR 0x90, CHR 0xC3, CHR 0xA3] @ '' c'' @ [CHR 0xE1, CHR 0xBA, CHR 0xAD] @ ''p nh'' @ [CHR 0xE1, CHR 0xBA, CHR 0xAD] @ ''t 1 m'' @ [CHR 0xE1, CHR 0xBB, CHR 0xA5] @ ''c th'' @ [CHR 0xC3, CHR 0xA0] @ ''nh '' @ [CHR 0x22] @ ''Done'' @ [CHR 0x22])),
         \<lparr> grid = [[''ID''], [''h''],
                    [''17'', ''1/1'', ''Lam'', '''', '''', ''Done'', '''', '''', '''', '''', '''', '''',
                     '''', '''', timestamp_of vt]],
           faults = [],
           calls = [Values_update_cell 3 (CHR ''F'') ''Done'',
                    Values_update_cell 3 (CHR ''O'') (timestamp_of vt)],
           entered = (\<lambda>v. v), console = [] \<rparr>)" for vt
    by (simp add: bulkUpdateStage_def Let_def updateCell_def request_def set_cell_def col_index_def
                  or_default_def bulkMessage_def one S3_def numeral_eq_Suc)
  have uf: "updateFeedback vt 3 (Some [''stage'' \<mapsto> ''Done'']) S3
      = (Inl (Error ''Requested writing within range [Feedback!A3:N3], but tried writing to column [O]''),
         \<lparr> grid = [[''ID''], [''h''], [''17'', ''1/1'', ''Lam'']],
           faults = [],
           calls = [Values_get_row 3,
                    Values_update_row 3
                      [''17'', ''1/1'', ''Lam'', '''', '''', ''Done'', '''', '''', '''', '''', '''', '''',
                       '''', '''', timestamp_of vt]],
           entered = (\<lambda>v. v),
           console = [Console_error ''SheetsClient: updateRow Error:''
                       (Error ''Requested writing within range [Feedback!A3:N3], but tried writing to column [O]'')] \<rparr>)" for vt
    by (simp add: updateFeedback_def Let_def getRow_def updateRow_def request_def merged_row_def
                  assign_defined_def console_error_def three S3_def numeral_eq_Suc)
  show ?thesis
    using pat tu ts
          cf [of 1772911800123 "vnTime_of new_york_2026 1772911800000"]
          us [of "vnTime_of new_york_2026 1772911800000"]
          bs [of "vnTime_of new_york_2026 1772911800000"]
          uf [of "vnTime_of new_york_2026 1772911800000"]
    unfolding ts id_text S2_def S3_def
    by blast
qed

section \<open>Stage updates are two separate writes\<close>

lemma col_F: "col_index (CHR ''F'') = 5"
  by (simp add: col_index_def)

lemma col_O: "col_index (CHR ''O'') = 14"
  by (simp add: col_index_def)

lemma updateCell_step:
  "0 < n \<Longrightarrow>
   updateCell n c v s =
     (case faults s of
        [] \<Rightarrow> (Inr True, s\<lparr> calls := calls s @ [Values_update_cell n c v],
                             grid := set_cell (n - 1) (col_index c) (entered s v) (grid s) \<rparr>)
      | None # fs \<Rightarrow> (Inr True, s\<lparr> calls := calls s @ [Values_update_cell n c v], faults := fs,
                                  grid := set_cell (n - 1) (col_index c) (entered s v) (grid s) \<rparr>)
      | Some m # fs \<Rightarrow>
          (Inl (Error m),
           s\<lparr> calls := calls s @ [Values_update_cell n c v], faults := fs,
               console := console s @ [Console_error ''SheetsClient: updateCell Error:'' (Error m)] \<rparr>))"
  by (simp add: updateCell_def request_def console_error_def split: list.splits option.splits)

lemma bulk_loop_prefix:
  "\<forall>n \<in> set done. 0 < n \<Longrightarrow> faults s = replicate (2 * length done) None @ fs \<Longrightarrow>
   bulk_loop (done @ rest) st ts s =
     bulk_loop rest st ts
       (s\<lparr> grid := fold (stage_cells (entered s st) (entered s ts)) done (grid s),
           faults := fs,
           calls := calls s @ concat (map (\<lambda>n. [Values_update_cell n (CHR ''F'') st,
                                                   Values_update_cell n (CHR ''O'') ts]) done) \<rparr>)"
proof (induction "done" arbitrary: s)
  case Nil
  then have "s\<lparr> faults := fs \<rparr> = s"
    by (cases s) simp
  then show ?case by simp
next
  case (Cons r rs)
  let ?s1 = "s\<lparr> calls := calls s @ [Values_update_cell r (CHR ''F'') st],
                faults := None # replicate (2 * length rs) None @ fs,
                grid := set_cell (r - 1) 5 (entered s st) (grid s) \<rparr>"
  let ?s2 = "?s1\<lparr> calls := calls ?s1 @ [Values_update_cell r (CHR ''O'') ts],
                  faults := replicate (2 * length rs) None @ fs,
                  grid := stage_cells (entered s st) (entered s ts) r (grid s) \<rparr>"
  from Cons.prems have r: "0 < r" and rs: "\<forall>n \<in> set rs. 0 < n"
    and f: "faults s = None # None # replicate (2 * length rs) None @ fs"
    by simp_all
  have "bulk_loop ((r # rs) @ rest) st ts s = bulk_loop (rs @ rest) st ts ?s2"
    using r f by (simp add: updateCell_step col_F col_O stage_cells_def)
  also have "\<dots> = bulk_loop rest st ts
       (?s2\<lparr> grid := fold (stage_cells (entered s st) (entered s ts)) rs (grid ?s2),
           faults := fs,
           calls := calls ?s2 @ concat (map (\<lambda>n. [Values_update_cell n (CHR ''F'') st,
                                                   Values_update_cell n (CHR ''O'') ts]) rs) \<rparr>)"
    using Cons.IH [OF rs, of ?s2] by simp
  finally show ?case
    by simp
qed

lemma updateStage_second_fails:
  "0 < rowNo \<Longrightarrow> faults s = None # Some m # fs \<Longrightarrow>
   updateStage vnTime rowNo newStage s =
     (Inl (Error m),
      s\<lparr> grid := set_cell (rowNo - 1) 5 (entered s newStage) (grid s),
          faults := fs,
          console := console s @ [Console_error ''SheetsClient: updateCell Error:'' (Error m)],
          calls := calls s @ [Values_update_cell rowNo (CHR ''F'') newStage,
                              Values_update_cell rowNo (CHR ''O'') (timestamp_of vnTime)] \<rparr>)"
  by (simp add: updateStage_def Let_def updateCell_step col_F)

lemma updateStage_both_pass:
  "0 < rowNo \<Longrightarrow> faults s = [] \<Longrightarrow>
   updateStage vnTime rowNo newStage s =
     (Inr (Reply True (stageMessage newStage)),
      s\<lparr> grid := stage_cells (entered s newStage) (entered s (timestamp_of vnTime)) rowNo (grid s),
          calls := calls s @ [Values_update_cell rowNo (CHR ''F'') newStage,
                              Values_update_cell rowNo (CHR ''O'') (timestamp_of vnTime)] \<rparr>)"
  by (simp add: updateStage_def Let_def updateCell_step col_F col_O stage_cells_def)

lemma bulkUpdateStage_second_fails:
  assumes pos: "\<forall>n \<in> set (done @ [r]). 0 < n" and st: "st \<noteq> []"
    and f: "faults s = replicate (2 * length done) None @ None # Some m # fs"
  shows "bulkUpdateStage vnTime (Some (done @ r # rest)) (Some st) s =
     (Inl (Error m),
      s\<lparr> grid := set_cell (r - 1) 5 (entered s st) (fold (stage_cells (entered s st) (entered s (timestamp_of vnTime))) done (grid s)),
          faults := fs,
          console := console s @ [Console_error ''SheetsClient: updateCell Error:'' (Error m)],
          calls := calls s @ concat (map (\<lambda>n. [Values_update_cell n (CHR ''F'') st,
                      Values_update_cell n (CHR ''O'') (timestamp_of vnTime)]) done)
                   @ [Values_update_cell r (CHR ''F'') st,
                      Values_update_cell r (CHR ''O'') (timestamp_of vnTime)] \<rparr>)"
proof -
  let ?ts = "timestamp_of vnTime"
  let ?s0 = "s\<lparr> grid := fold (stage_cells (entered s st) (entered s ?ts)) done (grid s),
           faults := None # Some m # fs,
           calls := calls s @ concat (map (\<lambda>n. [Values_update_cell n (CHR ''F'') st,
                                                   Values_update_cell n (CHR ''O'') ?ts]) done) \<rparr>"
  from pos have d: "\<forall>n \<in> set done. 0 < n" and r: "0 < r"
    by simp_all
  have "bulk_loop (done @ r # rest) st ?ts s = bulk_loop (r # rest) st ?ts ?s0"
    by (rule bulk_loop_prefix [OF d f])
  also have "\<dots> = (Inl (Error m),
      ?s0\<lparr> grid := set_cell (r - 1) 5 (entered s st) (grid ?s0), faults := fs,
           console := console s @ [Console_error ''SheetsClient: updateCell Error:'' (Error m)],
           calls := calls ?s0 @ [Values_update_cell r (CHR ''F'') st,
                                 Values_update_cell r (CHR ''O'') ?ts] \<rparr>)"
    using r by (simp add: updateCell_step col_F)
  finally show ?thesis
    using st by (simp add: bulkUpdateStage_def Let_def or_default_def)
qed

lemma set_cell_nth: "set_cell r c v g ! r ! c = v"
  by (simp add: set_cell_def Let_def nth_append)

text \<open>
  Claim C7.  \<open>updateStage\<close> and \<open>bulkUpdateStage\<close> send the stage (column F) and the
  UpdatedAt timestamp (column O) of a row as two single-cell updates, one after the
  other.  When both succeed, both cells are written, each showing what the sheet makes
  of the text entered.  When the stage write succeeds and the UpdatedAt write is
  refused, the call ends in that error, which the client has written to the console,
  and the grid keeps the new stage in column F: nothing is rolled back, and for
  \<open>bulkUpdateStage\<close> the rows already updated stay updated and the later rows are not
  touched.
\<close>

theorem stage_write_not_rolled_back:
  "(0 < rowNo \<and> faults s = [] \<longrightarrow>
      updateStage vnTime rowNo newStage s =
        (Inr (Reply True (stageMessage newStage)),
         s\<lparr> grid := stage_cells (entered s newStage) (entered s (timestamp_of vnTime)) rowNo (grid s),
             calls := calls s @ [Values_update_cell rowNo (CHR ''F'') newStage,
                                 Values_update_cell rowNo (CHR ''O'') (timestamp_of vnTime)] \<rparr>))
   \<and> (0 < rowNo \<and> faults s = None # Some m # fs \<longrightarrow>
      updateStage vnTime rowNo newStage s =
        (Inl (Error m),
         s\<lparr> grid := set_cell (rowNo - 1) 5 (entered s newStage) (grid s),
             faults := fs,
             console := console s @ [Console_error ''SheetsClient: updateCell Error:'' (Error m)],
             calls := calls s @ [Values_update_cell rowNo (CHR ''F'') newStage,
                                 Values_update_cell rowNo (CHR ''O'') (timestamp_of vnTime)] \<rparr>))
   \<and> ((\<forall>n \<in> set (done @ [r]). 0 < n) \<and> st \<noteq> []
        \<and> faults s = replicate (2 * length done) None @ None # Some m # fs \<longrightarrow>
      bulkUpdateStage vnTime (Some (done @ r # rest)) (Some st) s =
        (Inl (Error m),
         s\<lparr> grid := set_cell (r - 1) 5 (entered s st) (fold (stage_cells (entered s st) (entered s (timestamp_of vnTime))) done (grid s)),
             faults := fs,
             console := console s @ [Console_error ''SheetsClient: updateCell Error:'' (Error m)],
             calls := calls s @ concat (map (\<lambda>n. [Values_update_cell n (CHR ''F'') st,
                         Values_update_cell n (CHR ''O'') (timestamp_of vnTime)]) done)
                      @ [Values_update_cell r (CHR ''F'') st,
                         Values_update_cell r (CHR ''O'') (timestamp_of vnTime)] \<rparr>))
   \<and> set_cell (rowNo - 1) 5 (entered s newStage) (grid s) ! (rowNo - 1) ! 5 = entered s newStage"
  using updateStage_both_pass [of rowNo s vnTime newStage]
        updateStage_second_fails [of rowNo s m fs vnTime newStage]
        bulkUpdateStage_second_fails [of "done" r st s m fs vnTime rest]
        set_cell_nth [of "rowNo - 1" 5 "entered s newStage" "grid s"]
  by blast

theorem stage_write_not_rolled_back_witness:
  "updateStage \<lparr> getFullYear = 2026, getMonth = 0, getDate = 9, getHours = 7, getMinutes = 5, getSeconds = 0 \<rparr>
      3 ''Done''
      \<lparr> grid = [[''ID''], [''h''], [''17'', ''1/1'', ''Lam'', ''a.com'', '''', ''Feedback'']],
        faults = [None, Some ''quota exceeded''], calls = [], entered = (\<lambda>v. v), console = [] \<rparr>
   = (Inl (Error ''quota exceeded''),
      \<lparr> grid = [[''ID''], [''h''], [''17'', ''1/1'', ''Lam'', ''a.com'', '''', ''Done'']],
        faults = [],
        calls = [Values_update_cell 3 (CHR ''F'') ''Done'',
                 Values_update_cell 3 (CHR ''O'') ''07:05:00 09/01/2026''],
        entered = (\<lambda>v. v),
        console = [Console_error ''SheetsClient: updateCell Error:'' (Error ''quota exceeded'')] \<rparr>)
   \<and> bulkUpdateStage \<lparr> getFullYear = 2026, getMonth = 0, getDate = 9, getHours = 7, getMinutes = 5, getSeconds = 0 \<rparr>
      (Some [3, 4, 5]) (Some ''Done'')
      \<lparr> grid = [[''ID''], [''h''], [''17''], [''18''], [''19'']],
        faults = [None, None, None, Some ''quota exceeded''], calls = [], entered = (\<lambda>v. v), console = [] \<rparr>
   = (Inl (Error ''quota exceeded''),
      \<lparr> grid = [[''ID''], [''h''],
                [''17'', '''', '''', '''', '''', ''Done'', '''', '''', '''', '''', '''', '''', '''', '''',
                 ''07:05:00 09/01/2026''],
                [''18'', '''', '''', '''', '''', ''Done''],
                [''19'']],
        faults = [],
        calls = [Values_update_cell 3 (CHR ''F'') ''Done'',
                 Values_update_cell 3 (CHR ''O'') ''07:05:00 09/01/2026'',
                 Values_update_cell 4 (CHR ''F'') ''Done'',
                 Values_update_cell 4 (CHR ''O'') ''07:05:00 09/01/2026''],
        entered = (\<lambda>v. v),
        console = [Console_error ''SheetsClient: updateCell Error:'' (Error ''quota exceeded'')] \<rparr>)"
proof -
  define D where "D = \<lparr> getFullYear = 2026, getMonth = 0, getDate = 9, getHours = 7, getMinutes = 5, getSeconds = (0::nat) \<rparr>"
  define S where "S = \<lparr> grid = [[''ID''], [''h''], [''17'', ''1/1'', ''Lam'', ''a.com'', '''', ''Feedback'']],
        faults = [None, Some ''quota exceeded''], calls = [], entered = (\<lambda>v. v), console = [] \<rparr>"
  define B where "B = \<lparr> grid = [[''ID''], [''h''], [''17''], [''18''], [''19'']],
        faults = [None, None, None, Some ''quota exceeded''], calls = [], entered = (\<lambda>v. v), console = [] \<rparr>"
  have ts: "timestamp_of D = ''07:05:00 09/01/2026''"
    by (simp add: timestamp_of_def toString.simps padStart2_def digit_def D_def)
  have one: "0 < (3::nat) \<and> faults S = None # Some ''quota exceeded'' # []"
    by (simp add: S_def)
  have many: "(\<forall>n \<in> set ([3] @ [4::nat]). 0 < n) \<and> ''Done'' \<noteq> []
        \<and> faults B = replicate (2 * length [3::nat]) None @ None # Some ''quota exceeded'' # []"
    by (simp add: B_def numeral_eq_Suc)
  from one stage_write_not_rolled_back [of 3 S D "''Done''" "''quota exceeded''" "[]"]
  have a: "updateStage D 3 ''Done'' S =
        (Inl (Error ''quota exceeded''),
         S\<lparr> grid := set_cell (3 - 1) 5 (entered S ''Done'') (grid S), faults := [],
             console := console S @ [Console_error ''SheetsClient: updateCell Error:'' (Error ''quota exceeded'')],
             calls := calls S @ [Values_update_cell 3 (CHR ''F'') ''Done'',
                                 Values_update_cell 3 (CHR ''O'') (timestamp_of D)] \<rparr>)"
    by blast
  from many stage_write_not_rolled_back [of _ B D _ "''quota exceeded''" "[]" "[3]" 4 "''Done''" "[5]"]
  have b: "bulkUpdateStage D (Some ([3] @ 4 # [5])) (Some ''Done'') B =
        (Inl (Error ''quota exceeded''),
         B\<lparr> grid := set_cell (4 - 1) 5 (entered B ''Done'')
                      (fold (stage_cells (entered B ''Done'') (entered B (timestamp_of D))) [3] (grid B)),
             faults := [],
             console := console B @ [Console_error ''SheetsClient: updateCell Error:'' (Error ''quota exceeded'')],
             calls := calls B @ concat (map (\<lambda>n. [Values_update_cell n (CHR ''F'') ''Done'',
                         Values_update_cell n (CHR ''O'') (timestamp_of D)]) [3])
                      @ [Values_update_cell 4 (CHR ''F'') ''Done'',
                         Values_update_cell 4 (CHR ''O'') (timestamp_of D)] \<rparr>)"
    by blast
  have g1: "set_cell 2 5 ''Done'' (grid S)
      = [[''ID''], [''h''], [''17'', ''1/1'', ''Lam'', ''a.com'', '''', ''Done'']]"
    by (simp add: S_def set_cell_def numeral_eq_Suc)
  have g2: "set_cell 3 5 ''Done'' (stage_cells ''Done'' ''07:05:00 09/01/2026'' 3 (grid B))
      = [[''ID''], [''h''],
         [''17'', '''', '''', '''', '''', ''Done'', '''', '''', '''', '''', '''', '''', '''', '''',
          ''07:05:00 09/01/2026''],
         [''18'', '''', '''', '''', '''', ''Done''],
         [''19'']]"
    by (simp add: B_def set_cell_def stage_cells_def numeral_eq_Suc)
  have a': "updateStage D 3 ''Done'' S =
        (Inl (Error ''quota exceeded''),
         \<lparr> grid = [[''ID''], [''h''], [''17'', ''1/1'', ''Lam'', ''a.com'', '''', ''Done'']],
           faults = [],
           calls = [Values_update_cell 3 (CHR ''F'') ''Done'',
                    Values_update_cell 3 (CHR ''O'') ''07:05:00 09/01/2026''],
        entered = (\<lambda>v. v),
        console = [Console_error ''SheetsClient: updateCell Error:'' (Error ''quota exceeded'')] \<rparr>)"
    using a g1 by (simp add: ts S_def)
  have b': "bulkUpdateStage D (Some [3, 4, 5]) (Some ''Done'') B =
        (Inl (Error ''quota exceeded''),
         \<lparr> grid = [[''ID''], [''h''],
                [''17'', '''', '''', '''', '''', ''Done'', '''', '''', '''', '''', '''', '''', '''', '''',
                 ''07:05:00 09/01/2026''],
                [''18'', '''', '''', '''', '''', ''Done''],
                [''19'']],
           faults = [],
           calls = [Values_update_cell 3 (CHR ''F'') ''Done'',
                    Values_update_cell 3 (CHR ''O'') ''07:05:00 09/01/2026'',
                    Values_update_cell 4 (CHR ''F'') ''Done'',
                    Values_update_cell 4 (CHR ''O'') ''07:05:00 09/01/2026''],
        entered = (\<lambda>v. v),
        console = [Console_error ''SheetsClient: updateCell Error:'' (Error ''quota exceeded'')] \<rparr>)"
    using b g2 by (simp add: ts B_def)
  show ?thesis
    using a' b' by (simp add: D_def S_def B_def)
qed

section \<open>Creating a feedback row and reading it back\<close>

lemma request_quiet:
  "refusal c = None \<Longrightarrow> set (faults s) \<subseteq> {None} \<Longrightarrow>
   request c s = (None, s\<lparr> calls := calls s @ [c], faults := tl (faults s) \<rparr>)"
  by (cases "faults s") (auto simp: request_def split: option.splits)

lemma or_default_Some_nil [simp]: "or_default (Some x) [] = x"
  by (simp add: or_default_def)

text \<open>A row added below the headers adds its row object, if the filter keeps it.\<close>

lemma rows_append:
  assumes len: "2 \<le> length g"
  shows "rows (getAllData_of (Some (g @ [row])))
         = rows (getAllData_of (Some g)) @ filter keep_row [mk_row row (length g - 2)]"
proof -
  from len obtain n where n: "length g = n + 2"
    by (metis add.commute le_Suc_ex)
  have three: "3 \<le> length (g @ [row])" and upto: "length (g @ [row]) - 2 = Suc n"
    using n by simp_all
  have last: "(g @ [row]) ! (n + 2) = row"
    using nth_append_length [of g row] n by simp
  have same: "map (\<lambda>i. mk_row ((g @ [row]) ! (i + 2)) i) [0 ..< n]
              = map (\<lambda>i. mk_row (g ! (i + 2)) i) [0 ..< n]"
    using n by (intro map_cong refl) (simp add: nth_append)
  have old: "rows (getAllData_of (Some g))
             = filter keep_row (map (\<lambda>i. mk_row (g ! (i + 2)) i) [0 ..< n])"
  proof (cases "n = 0")
    case True
    with n show ?thesis
      by (simp add: getAllData_of_short)
  next
    case False
    with n have "3 \<le> length g" and "length g - 2 = n"
      by simp_all
    then show ?thesis
      using getAllData_of_rows [of g] by simp
  qed
  have "rows (getAllData_of (Some (g @ [row])))
        = filter keep_row (map (\<lambda>i. mk_row ((g @ [row]) ! (i + 2)) i) [0 ..< Suc n])"
    unfolding getAllData_of_rows [OF three] upto ..
  also have "\<dots> = filter keep_row (map (\<lambda>i. mk_row ((g @ [row]) ! (i + 2)) i) [0 ..< n])
                    @ filter keep_row [mk_row ((g @ [row]) ! (n + 2)) n]"
    by simp
  also have "\<dots> = filter keep_row (map (\<lambda>i. mk_row (g ! (i + 2)) i) [0 ..< n])
                    @ filter keep_row [mk_row row n]"
    unfolding same last ..
  finally show ?thesis
    using old n by simp
qed

lemma getDashboardData_quiet:
  "set (faults s) \<subseteq> {None} \<Longrightarrow> grid s \<noteq> [] \<Longrightarrow>
   getDashboardData s =
     (Inr (dashboard_of (rows (getAllData_of (Some (grid s))))),
      s\<lparr> calls := calls s @ [Values_get], faults := tl (faults s) \<rparr>)"
  by (simp add: getDashboardData_def getAllData_def request_quiet)

lemma createFeedback_quiet:
  assumes "set (faults s) \<subseteq> {None}"
  shows "createFeedback date_now vnTime (Some fb) s =
     (Inr (Reply True createdMessage),
      s\<lparr> calls := calls s @ [Values_append (created_row date_now vnTime fb)],
          faults := tl (faults s),
          grid := grid s @ [map (entered s) (created_row date_now vnTime fb)] \<rparr>)"
  using assms
  by (simp add: createFeedback_def Let_def appendRow_def request_quiet created_row_def)

lemma created_row_cells:
  "length (created_row date_now vnTime fb) = 15
   \<and> created_row date_now vnTime fb ! 0 = toString date_now
   \<and> created_row date_now vnTime fb ! 1 = or_default (fb ''deadline'') []
   \<and> created_row date_now vnTime fb ! 2 = or_default (fb ''host'') []
   \<and> created_row date_now vnTime fb ! 3 = or_default (fb ''shop'') []
   \<and> created_row date_now vnTime fb ! 4 = or_default (fb ''link'') []
   \<and> created_row date_now vnTime fb ! 5 = or_default (fb ''stage'') ''Feedback''
   \<and> created_row date_now vnTime fb ! 6 = or_default (fb ''tags'') []
   \<and> created_row date_now vnTime fb ! 7 = or_default (fb ''devNote'') []
   \<and> created_row date_now vnTime fb ! 8 = []"
  by (simp add: created_row_def Let_def)

lemma mk_row_wide:
  "9 \<le> length row \<Longrightarrow>
   rowNumber (mk_row row i) = i + 3 \<and> deadline (mk_row row i) = row ! 0
   \<and> host (mk_row row i) = row ! 1 \<and> shop (mk_row row i) = row ! 2
   \<and> link (mk_row row i) = row ! 3 \<and> stage (mk_row row i) = row ! 4
   \<and> tags (mk_row row i) = row ! 5 \<and> devNote (mk_row row i) = row ! 6
   \<and> noteText (mk_row row i) = row ! 8"
  by (auto simp: mk_row_def at_index_def)

text \<open>
  Claim C1 holds of a writer and a reader that agree on the columns.  Here they do
  not.  \<open>createFeedback\<close> of src/server.js appends a row that starts with the ID
  (columns A to O), and \<open>getAllData\<close> of src/sheetsClient.js reads the deadline from
  column A and the ID from column N.  So for every feedback object, on a sheet that holds
  its two header rows and with no call refused, the row object that \<open>getDashboardData\<close>
  builds from the appended sheet row holds every value one column off: the ID as the
  deadline, the deadline as the host, the host as the shop, the shop as the link, the
  link as the stage, the stage as the tags, and an empty note; each value as the sheet
  shows the text entered.  The row is listed only if the deadline or the host of the
  feedback object shows as a non-empty text.
\<close>

theorem createFeedback_read_one_column_off:
  assumes hdr: "2 \<le> length (grid s)"
    and quiet: "set (faults s) \<subseteq> {None}"
  shows "\<exists>s1 s2 d r.
     createFeedback date_now vnTime (Some fb) s = (Inr (Reply True createdMessage), s1)
     \<and> getDashboardData s1 = (Inr d, s2)
     \<and> feedback d = rows (getAllData_of (Some (grid s)))
                      @ (if shop r \<noteq> [] \<or> host r \<noteq> [] then [r] else [])
     \<and> rowNumber r = length (grid s) + 1
     \<and> deadline r = entered s (toString date_now)
     \<and> host r = entered s (or_default (fb ''deadline'') [])
     \<and> shop r = entered s (or_default (fb ''host'') [])
     \<and> link r = entered s (or_default (fb ''shop'') [])
     \<and> stage r = entered s (or_default (fb ''link'') [])
     \<and> tags r = entered s (or_default (fb ''stage'') ''Feedback'')
     \<and> noteText r = entered s []"
proof -
  let ?row = "created_row date_now vnTime fb"
  let ?s1 = "s\<lparr> calls := calls s @ [Values_append ?row], faults := tl (faults s),
                grid := grid s @ [map (entered s) ?row] \<rparr>"
  let ?r = "mk_row (map (entered s) ?row) (length (grid s) - 2)"
  let ?d = "dashboard_of (rows (getAllData_of (Some (grid ?s1))))"
  have create: "createFeedback date_now vnTime (Some fb) s = (Inr (Reply True createdMessage), ?s1)"
    by (rule createFeedback_quiet [OF quiet])
  have "set (tl (faults s)) \<subseteq> set (faults s)"
    by (cases "faults s") auto
  with quiet have quiet1: "set (faults ?s1) \<subseteq> {None}"
    by auto
  have read: "getDashboardData ?s1 =
      (Inr ?d, ?s1\<lparr> calls := calls ?s1 @ [Values_get], faults := tl (faults ?s1) \<rparr>)"
    by (rule getDashboardData_quiet [OF quiet1]) simp
  have listed: "feedback ?d = rows (getAllData_of (Some (grid s)))
                  @ (if shop ?r \<noteq> [] \<or> host ?r \<noteq> [] then [?r] else [])"
    using rows_append [OF hdr, of "map (entered s) ?row"]
    by (simp add: dashboard_of_def keep_row_def)
  have cells: "9 \<le> length (map (entered s) ?row)"
    using created_row_cells [of date_now vnTime fb] by simp
  have vals: "rowNumber ?r = length (grid s) + 1
     \<and> deadline ?r = entered s (toString date_now)
     \<and> host ?r = entered s (or_default (fb ''deadline'') [])
     \<and> shop ?r = entered s (or_default (fb ''host'') [])
     \<and> link ?r = entered s (or_default (fb ''shop'') [])
     \<and> stage ?r = entered s (or_default (fb ''link'') [])
     \<and> tags ?r = entered s (or_default (fb ''stage'') ''Feedback'')
     \<and> noteText ?r = entered s []"
    using mk_row_wide [OF cells, of "length (grid s) - 2"] created_row_cells [of date_now vnTime fb] hdr
    by simp
  from create read listed vals show ?thesis
    by blast
qed

theorem createFeedback_read_one_column_off_witness:
  "\<exists>s1 s2 d r.
     createFeedback 1767917100000
        \<lparr> getFullYear = 2026, getMonth = 0, getDate = 9, getHours = 7, getMinutes = 5, getSeconds = 0 \<rparr>
        (Some [''deadline'' \<mapsto> ''Friday'', ''host'' \<mapsto> ''Lam'', ''shop'' \<mapsto> ''a.com''])
        \<lparr> grid = [[''ID'', ''Deadline'', ''Host'', ''Shop''], [''h2'']], faults = [], calls = [],
          entered = (\<lambda>v. v), console = [] \<rparr>
       = (Inr (Reply True ([CHR 0xC4, CHR 0x90, CHR 0xC3, CHR 0xA3] @ '' t'' @ [CHR 0xE1, CHR 0xBA, CHR 0xA1] @ ''o feedback th'' @ [CHR 0xC3, CHR 0xA0] @ ''nh c'' @ [CHR 0xC3, CHR 0xB4] @ ''ng!'')), s1)
     \<and> getDashboardData s1 = (Inr d, s2)
     \<and> feedback d = [r]
     \<and> rowNumber r = 3
     \<and> deadline r = ''1767917100000''
     \<and> host r = ''Friday''
     \<and> shop r = ''Lam''
     \<and> link r = ''a.com''
     \<and> stage r = []
     \<and> tags r = ''Feedback''
     \<and> noteText r = []"
proof -
  define fb :: jsobj where "fb = [''deadline'' \<mapsto> ''Friday'', ''host'' \<mapsto> ''Lam'', ''shop'' \<mapsto> ''a.com'']"
  define S where "S = \<lparr> grid = [[''ID'', ''Deadline'', ''Host'', ''Shop''], [''h2'']], faults = [],
                         calls = [], entered = (\<lambda>v. v), console = [] \<rparr>"
  define D where "D = \<lparr> getFullYear = 2026, getMonth = 0, getDate = 9, getHours = 7, getMinutes = 5,
                         getSeconds = (0::nat) \<rparr>"
  have h2: "2 \<le> length (grid S)" and h3: "set (faults S) \<subseteq> {None}"
    by (simp_all add: S_def)
  have id_text: "toString 1767917100000 = ''1767917100000''"
    by (simp add: toString.simps digit_def)
  have vals: "or_default (fb ''deadline'') [] = ''Friday''" "or_default (fb ''host'') [] = ''Lam''"
    "or_default (fb ''shop'') [] = ''a.com''" "or_default (fb ''link'') [] = []"
    "or_default (fb ''stage'') ''Feedback'' = ''Feedback''" "length (grid S) + 1 = 3"
    "rows (getAllData_of (Some (grid S))) = []" "\<And>v. entered S v = v"
    by (simp_all add: fb_def or_default_def S_def getAllData_of_def)
  from createFeedback_read_one_column_off [OF h2 h3, of 1767917100000 D fb]
  obtain s1 s2 d r where
    "createFeedback 1767917100000 D (Some fb) S = (Inr (Reply True createdMessage), s1)"
    "getDashboardData s1 = (Inr d, s2)"
    "feedback d = (if shop r \<noteq> [] \<or> host r \<noteq> [] then [r] else [])"
    "rowNumber r = 3" "deadline r = ''1767917100000''" "host r = ''Friday''" "shop r = ''Lam''"
    "link r = ''a.com''" "stage r = []" "tags r = ''Feedback''" "noteText r = []"
    unfolding vals id_text by auto
  then show ?thesis
    unfolding fb_def S_def D_def createdMessage_def by auto
qed

text \<open>
  The same on a sheet with one row already stored; a feedback object with a shop and
  nothing else is appended and then not listed at all.  The \<open>createFeedback\<close> of the
  earliest server file (src/unnamed/part\_000) writes the columns in the order
  \<open>getAllData\<close> reads them, and its row reads back as it was sent.
\<close>

lemma createFeedback_shop_only_not_listed:
  "(case getDashboardData (snd (createFeedback 1767917100000
          \<lparr> getFullYear = 2026, getMonth = 0, getDate = 9, getHours = 7, getMinutes = 5, getSeconds = 0 \<rparr>
          (Some [''shop'' \<mapsto> ''a.com''])
          \<lparr> grid = [[''ID'', ''Deadline'', ''Host'', ''Shop''], [''h2'']], faults = [], calls = [],
            entered = (\<lambda>v. v), console = [] \<rparr>))
    of (Inr d, s2) \<Rightarrow> Some (feedback d, grid s2) | (Inl e, s2) \<Rightarrow> None)
   = Some ([], [[''ID'', ''Deadline'', ''Host'', ''Shop''], [''h2''],
                [''1767917100000'', '''', '''', ''a.com'', '''', ''Feedback'', '''', '''', '''', '''',
                 ''07:05:00 09/01/2026'', '''', '''', '''', ''07:05:00 09/01/2026'']])"
  by (simp add: createFeedback_def created_row_def Let_def appendRow_def request_def
        getDashboardData_def getAllData_def getAllData_of_def dashboard_of_def mk_row_def
        keep_row_def or_default_def at_index_def toString.simps digit_def timestamp_of_def
        padStart2_def)

lemma createFeedback_AN_reads_back:
  "(case getDashboardData (snd (createFeedback_AN
          \<lparr> getFullYear = 2026, getMonth = 0, getDate = 9, getHours = 7, getMinutes = 5, getSeconds = 0 \<rparr>
          ''0b5c'' (Some [''deadline'' \<mapsto> ''Friday'', ''host'' \<mapsto> ''Lam'', ''shop'' \<mapsto> ''a.com''])
          \<lparr> grid = [[''Deadline'', ''Host'', ''Shop''], [''h2'']], faults = [], calls = [],
            entered = (\<lambda>v. v), console = [] \<rparr>))
    of (Inr d, s2) \<Rightarrow> map (\<lambda>r. (rowNumber r, deadline r, host r, shop r, link r, stage r, tags r,
                                    noteText r, rowId r)) (feedback d)
     | (Inl e, s2) \<Rightarrow> [])
   = [(3, ''Friday'', ''Lam'', ''a.com'', [], ''Feedback'', [], [], ''0b5c'')]"
  by (simp add: createFeedback_AN_def Let_def appendRow_def request_def
        getDashboardData_def getAllData_def getAllData_of_def dashboard_of_def mk_row_def
        keep_row_def or_default_def at_index_def)

section \<open>Dashboard statistics\<close>

text \<open>
  Claim C5 at a sheet whose only data row has the host \<open>constructor\<close>: the row is
  counted as pending and listed among the hosts, but \<open>stats.byHost.constructor\<close> is
  not the count 1.  The read \<open>hostStats['constructor']\<close> finds the inherited
  \<open>Object\<close> function, which is truthy, and \<open>+ 1\<close> turns it into a string.
\<close>

theorem byHost_inherited_key:
  "(case fst (getDashboardData
        \<lparr> grid = [[''Deadline'', ''Host'', ''Shop''], [''h2''],
                  [''10/01'', ''constructor'', ''a.com'', '''', ''Feedback'']],
          faults = [], calls = [], entered = (\<lambda>v. v), console = [] \<rparr>) of
      Inl e \<Rightarrow> None
    | Inr d \<Rightarrow> Some (byHost (stats d) ''constructor'', pending (stats d), hosts (filterOptions d),
                       map rowNumber (feedback d)))
   = Some (Some (Text ''function Object() { [native code] }1''), 1, [''constructor''], [3])"
  by (simp add: getDashboardData_def getAllData_def request_def getAllData_of_def mk_row_def
        keep_row_def or_default_def at_index_def dashboard_of_def tally_def bump_def
        object_prototype_def native_function_def spread_set_def)

theorem byHost_inherited_key_witness:
  "(case fst (getDashboardData
        \<lparr> grid = [[''Deadline'', ''Host'', ''Shop''], [''h2''],
                  [''10/01'', ''constructor'', ''a.com'', '''', ''Feedback'']],
          faults = [], calls = [], entered = (\<lambda>v. v), console = [] \<rparr>) of
      Inl e \<Rightarrow> None
    | Inr d \<Rightarrow> Some (byHost (stats d) ''constructor'', pending (stats d), hosts (filterOptions d),
                       map rowNumber (feedback d)))
   \<noteq> Some (Some (Count 1), 1, [''constructor''], [3])"
  using byHost_inherited_key by simp

section \<open>What the dashboard counts\<close>

lemma tally_pending:
  "pending (tally r a) = pending a + (if stage r = ''Feedback'' then 1 else 0)"
  by (simp add: tally_def Let_def)

lemma tally_done:
  "doneCount (tally r a) = doneCount a + (if stage r = ''Done'' then 1 else 0)"
  by (simp add: tally_def Let_def)

lemma tally_byHost:
  "byHost (tally r a) = (if host r \<noteq> [] then bump (byHost a) (host r) else byHost a)"
  by (simp add: tally_def Let_def)

lemma tally_byStage:
  "byStage (tally r a) = (if stage r \<noteq> [] then bump (byStage a) (stage r) else byStage a)"
  by (simp add: tally_def Let_def)

lemma fold_tally_pending:
  "pending (fold tally rs a) = pending a + length (filter (\<lambda>r. stage r = ''Feedback'') rs)"
  by (induction rs arbitrary: a) (simp_all add: tally_pending)

lemma fold_tally_done:
  "doneCount (fold tally rs a) = doneCount a + length (filter (\<lambda>r. stage r = ''Done'') rs)"
  by (induction rs arbitrary: a) (simp_all add: tally_done)

lemma bump_counts_of:
  "object_prototype k = None \<Longrightarrow> bump (counts_of ks) k = counts_of (ks @ [k])"
  by (rule ext) (auto simp: bump_def counts_of_def)

lemma fold_tally_byHost:
  "\<forall>r \<in> set rs. object_prototype (host r) = None \<Longrightarrow> byHost a = counts_of ks \<Longrightarrow>
   byHost (fold tally rs a) = counts_of (ks @ filter (\<lambda>h. h \<noteq> []) (map host rs))"
proof (induction rs arbitrary: a ks)
  case Nil
  then show ?case by simp
next
  case (Cons r rs)
  show ?case
  proof (cases "host r = []")
    case True
    with Cons.prems have "byHost (tally r a) = counts_of ks"
      by (simp add: tally_byHost)
    with Cons.IH [of "tally r a" ks] Cons.prems True show ?thesis
      by simp
  next
    case False
    with Cons.prems have "byHost (tally r a) = counts_of (ks @ [host r])"
      by (simp add: tally_byHost bump_counts_of)
    with Cons.IH [of "tally r a" "ks @ [host r]"] Cons.prems False show ?thesis
      by simp
  qed
qed

lemma fold_tally_byStage:
  "\<forall>r \<in> set rs. object_prototype (stage r) = None \<Longrightarrow> byStage a = counts_of ks \<Longrightarrow>
   byStage (fold tally rs a) = counts_of (ks @ filter (\<lambda>g. g \<noteq> []) (map stage rs))"
proof (induction rs arbitrary: a ks)
  case Nil
  then show ?case by simp
next
  case (Cons r rs)
  show ?case
  proof (cases "stage r = []")
    case True
    with Cons.prems have "byStage (tally r a) = counts_of ks"
      by (simp add: tally_byStage)
    with Cons.IH [of "tally r a" ks] Cons.prems True show ?thesis
      by simp
  next
    case False
    with Cons.prems have "byStage (tally r a) = counts_of (ks @ [stage r])"
      by (simp add: tally_byStage bump_counts_of)
    with Cons.IH [of "tally r a" "ks @ [stage r]"] Cons.prems False show ?thesis
      by simp
  qed
qed

lemma counts_of_Nil: "counts_of [] = Map.empty"
  by (rule ext) (simp add: counts_of_def)

lemma count_list_filter_map:
  "k \<noteq> [] \<Longrightarrow> count_list (filter (\<lambda>h. h \<noteq> []) (map f rs)) k = length (filter (\<lambda>r. f r = k) rs)"
  by (induction rs) auto

lemma spread_set_aux:
  "distinct acc \<Longrightarrow>
   distinct (foldl (\<lambda>acc x. if x \<in> set acc then acc else acc @ [x]) acc xs)
   \<and> set (foldl (\<lambda>acc x. if x \<in> set acc then acc else acc @ [x]) acc xs) = set acc \<union> set xs"
  by (induction xs arbitrary: acc) auto

lemma spread_set_props: "distinct (spread_set xs) \<and> set (spread_set xs) = set xs"
  using spread_set_aux [of "[]" xs] by (simp add: spread_set_def)

lemma sort_spread_set:
  "set (sort_key f (spread_set xs)) = set xs \<and> distinct (sort_key f (spread_set xs))
   \<and> sorted (map f (sort_key f (spread_set xs)))"
  using spread_set_props [of xs] by (simp add: sorted_sort_key)

lemma getDashboardData_Inr:
  "getDashboardData s = (Inr d, s') \<Longrightarrow> d = dashboard_of (feedback d)"
  by (auto simp: getDashboardData_def dashboard_of_def split: prod.splits sum.splits)

text \<open>
  What holds of the dashboard for every sheet, and the counters where they are right.
  For the rows \<open>rs\<close> that \<open>getDashboardData\<close> returns: \<open>pending\<close> and \<open>done\<close>
  are the numbers of rows whose stage is exactly \<open>Feedback\<close> and \<open>Done\<close>; \<open>hosts\<close> and
  \<open>stages\<close> list the non-empty host and stage values, each once, in the order of
  their UTF-16 code units; and when no host (no stage) is the name of a property of
  \<open>Object.prototype\<close>, \<open>byHost\<close> (\<open>byStage\<close>) maps each non-empty value to the number
  of rows that carry it and has no other entry.
\<close>

theorem dashboard_counts:
  "pending (stats (dashboard_of rs)) = length (filter (\<lambda>r. stage r = ''Feedback'') rs)
   \<and> doneCount (stats (dashboard_of rs)) = length (filter (\<lambda>r. stage r = ''Done'') rs)
   \<and> set (hosts (filterOptions (dashboard_of rs))) = {h \<in> host ` set rs. h \<noteq> []}
   \<and> distinct (hosts (filterOptions (dashboard_of rs)))
   \<and> sorted (map code_units (hosts (filterOptions (dashboard_of rs))))
   \<and> set (stages (filterOptions (dashboard_of rs))) = {g \<in> stage ` set rs. g \<noteq> []}
   \<and> distinct (stages (filterOptions (dashboard_of rs)))
   \<and> sorted (map code_units (stages (filterOptions (dashboard_of rs))))
   \<and> feedback (dashboard_of rs) = rs
   \<and> ((\<forall>r \<in> set rs. object_prototype (host r) = None) \<longrightarrow>
        (\<forall>k. byHost (stats (dashboard_of rs)) k =
           (if k \<noteq> [] \<and> k \<in> host ` set rs then Some (Count (length (filter (\<lambda>r. host r = k) rs)))
            else None)))
   \<and> ((\<forall>r \<in> set rs. object_prototype (stage r) = None) \<longrightarrow>
        (\<forall>k. byStage (stats (dashboard_of rs)) k =
           (if k \<noteq> [] \<and> k \<in> stage ` set rs then Some (Count (length (filter (\<lambda>r. stage r = k) rs)))
            else None)))
   \<and> (getDashboardData s = (Inr d, s') \<longrightarrow> d = dashboard_of (feedback d))"
proof -
  let ?init = "\<lparr> pending = 0, doneCount = 0, byHost = Map.empty, byStage = Map.empty \<rparr>"
  have p: "pending (stats (dashboard_of rs)) = length (filter (\<lambda>r. stage r = ''Feedback'') rs)"
    by (simp add: dashboard_of_def fold_tally_pending)
  have dn: "doneCount (stats (dashboard_of rs)) = length (filter (\<lambda>r. stage r = ''Done'') rs)"
    by (simp add: dashboard_of_def fold_tally_done)
  have h: "set (hosts (filterOptions (dashboard_of rs))) = {h \<in> host ` set rs. h \<noteq> []}
     \<and> distinct (hosts (filterOptions (dashboard_of rs)))
     \<and> sorted (map code_units (hosts (filterOptions (dashboard_of rs))))"
    using sort_spread_set [of code_units "filter (\<lambda>h. h \<noteq> []) (map host rs)"]
    by (auto simp: dashboard_of_def)
  have g: "set (stages (filterOptions (dashboard_of rs))) = {g \<in> stage ` set rs. g \<noteq> []}
     \<and> distinct (stages (filterOptions (dashboard_of rs)))
     \<and> sorted (map code_units (stages (filterOptions (dashboard_of rs))))"
    using sort_spread_set [of code_units "filter (\<lambda>g. g \<noteq> []) (map stage rs)"]
    by (auto simp: dashboard_of_def)
  have f: "feedback (dashboard_of rs) = rs"
    by (simp add: dashboard_of_def)
  have bh: "(\<forall>r \<in> set rs. object_prototype (host r) = None) \<longrightarrow>
        (\<forall>k. byHost (stats (dashboard_of rs)) k =
           (if k \<noteq> [] \<and> k \<in> host ` set rs then Some (Count (length (filter (\<lambda>r. host r = k) rs)))
            else None))"
  proof (intro impI allI)
    fix k
    assume a: "\<forall>r \<in> set rs. object_prototype (host r) = None"
    have "byHost (fold tally rs ?init) = counts_of ([] @ filter (\<lambda>h. h \<noteq> []) (map host rs))"
      by (rule fold_tally_byHost [OF a]) (simp add: counts_of_Nil)
    then have "byHost (stats (dashboard_of rs)) k = counts_of (filter (\<lambda>h. h \<noteq> []) (map host rs)) k"
      by (simp add: dashboard_of_def)
    then show "byHost (stats (dashboard_of rs)) k =
           (if k \<noteq> [] \<and> k \<in> host ` set rs then Some (Count (length (filter (\<lambda>r. host r = k) rs)))
            else None)"
      by (auto simp: counts_of_def count_list_filter_map)
  qed
  have bs: "(\<forall>r \<in> set rs. object_prototype (stage r) = None) \<longrightarrow>
        (\<forall>k. byStage (stats (dashboard_of rs)) k =
           (if k \<noteq> [] \<and> k \<in> stage ` set rs then Some (Count (length (filter (\<lambda>r. stage r = k) rs)))
            else None))"
  proof (intro impI allI)
    fix k
    assume a: "\<forall>r \<in> set rs. object_prototype (stage r) = None"
    have "byStage (fold tally rs ?init) = counts_of ([] @ filter (\<lambda>g. g \<noteq> []) (map stage rs))"
      by (rule fold_tally_byStage [OF a]) (simp add: counts_of_Nil)
    then have "byStage (stats (dashboard_of rs)) k = counts_of (filter (\<lambda>g. g \<noteq> []) (map stage rs)) k"
      by (simp add: dashboard_of_def)
    then show "byStage (stats (dashboard_of rs)) k =
           (if k \<noteq> [] \<and> k \<in> stage ` set rs then Some (Count (length (filter (\<lambda>r. stage r = k) rs)))
            else None)"
      by (auto simp: counts_of_def count_list_filter_map)
  qed
  have gd: "getDashboardData s = (Inr d, s') \<longrightarrow> d = dashboard_of (feedback d)"
    using getDashboardData_Inr [of s d s'] by blast
  from p dn h g f bh bs gd show ?thesis
    by blast
qed

theorem dashboard_counts_witness:
  "(case fst (getDashboardData
        \<lparr> grid = [[''Deadline'', ''Host'', ''Shop''], [''h2''],
                  [''10/01'', ''Lam'', ''a.com'', '''', ''Feedback''],
                  [''11/01'', ''Taiz'', ''b.com'', '''', ''Done''],
                  [''12/01'', ''Lam'', ''c.com'', '''', ''Feedback'']],
          faults = [], calls = [], entered = (\<lambda>v. v), console = [] \<rparr>) of
      Inl e \<Rightarrow> None
    | Inr d \<Rightarrow> Some (pending (stats d), doneCount (stats d), byHost (stats d) ''Lam'',
                       byHost (stats d) ''Taiz'', byStage (stats d) ''Feedback'',
                       hosts (filterOptions d), stages (filterOptions d)))
   = Some (2, 1, Some (Count 2), Some (Count 1), Some (Count 2), [''Lam'', ''Taiz''], [''Done'', ''Feedback''])"
proof -
  define S where "S = \<lparr> grid = [[''Deadline'', ''Host'', ''Shop''], [''h2''],
                  [''10/01'', ''Lam'', ''a.com'', '''', ''Feedback''],
                  [''11/01'', ''Taiz'', ''b.com'', '''', ''Done''],
                  [''12/01'', ''Lam'', ''c.com'', '''', ''Feedback'']],
          faults = [], calls = [], entered = (\<lambda>v. v), console = [] \<rparr>"
  define rs where "rs = [mk_row [''10/01'', ''Lam'', ''a.com'', '''', ''Feedback''] 0,
                         mk_row [''11/01'', ''Taiz'', ''b.com'', '''', ''Done''] 1,
                         mk_row [''12/01'', ''Lam'', ''c.com'', '''', ''Feedback''] 2]"
  have run: "fst (getDashboardData S) = Inr (dashboard_of rs)"
    by (simp add: getDashboardData_def getAllData_def request_def getAllData_of_def S_def rs_def
          keep_row_def mk_row_def or_default_def at_index_def)
  have hs: "map host rs = [''Lam'', ''Taiz'', ''Lam'']" and ss: "map stage rs = [''Feedback'', ''Done'', ''Feedback'']"
    by (simp_all add: rs_def mk_row_def or_default_def at_index_def)
  have proto: "\<forall>r \<in> set rs. object_prototype (host r) = None"
    "\<forall>r \<in> set rs. object_prototype (stage r) = None"
    by (simp_all add: rs_def mk_row_def or_default_def at_index_def object_prototype_def)
  have lists: "hosts (filterOptions (dashboard_of rs)) = [''Lam'', ''Taiz'']"
    "stages (filterOptions (dashboard_of rs)) = [''Done'', ''Feedback'']"
    by (simp_all add: dashboard_of_def hs ss spread_set_def)
  have counts: "length (filter (\<lambda>r. stage r = ''Feedback'') rs) = 2"
    "length (filter (\<lambda>r. stage r = ''Done'') rs) = 1"
    "length (filter (\<lambda>r. host r = ''Lam'') rs) = 2"
    "length (filter (\<lambda>r. host r = ''Taiz'') rs) = 1"
    "''Lam'' \<in> host ` set rs" "''Taiz'' \<in> host ` set rs" "''Feedback'' \<in> stage ` set rs"
    by (simp_all add: rs_def mk_row_def or_default_def at_index_def)
  from dashboard_counts [of rs S "dashboard_of rs"] proto
  show ?thesis
    unfolding S_def [symmetric]
    by (simp add: run lists counts)
qed

text \<open>
  The order of the filter options is that of the code units: a character outside the
  basic plane, stored as a surrogate pair, comes before the full-width letter U+FF21,
  though its UTF-8 bytes come after.
\<close>

lemma hosts_in_code_unit_order:
  "hosts (filterOptions (dashboard_of
      [mk_row [''1/1'', [CHR 0xEF, CHR 0xBC, CHR 0xA1], ''a.com''] 0, mk_row [''2/1'', [CHR 0xF0, CHR 0x9F, CHR 0x98, CHR 0x80], ''b.com''] 1,
       mk_row [''3/1'', ''Lam'', ''c.com''] 2]))
   = [''Lam'', [CHR 0xF0, CHR 0x9F, CHR 0x98, CHR 0x80], [CHR 0xEF, CHR 0xBC, CHR 0xA1]]
   \<and> code_units ([CHR 0xF0, CHR 0x9F, CHR 0x98, CHR 0x80]) = [0xD83D, 0xDE00] \<and> code_units ([CHR 0xEF, CHR 0xBC, CHR 0xA1]) = [0xFF21]
   \<and> code_units (''L'' @ [CHR 0xC3, CHR 0xA2] @ ''m'') = [0x4C, 0xE2, 0x6D]"
  by (simp add: dashboard_of_def mk_row_def or_default_def at_index_def spread_set_def)

section \<open>Comments\<close>

lemma nth_Cons_replicate: "i < Suc n \<Longrightarrow> (x # replicate n x) ! i = x"
  by (cases i) auto

lemma cell_text_set_cell:
  "cell_text (set_cell r c v g) r' c' = (if r' = r \<and> c' = c then v else cell_text g r' c')"
  by (auto simp: cell_text_def set_cell_def Let_def nth_append nth_list_update nth_Cons_replicate)

lemma request_answered:
  "refusal c = None \<Longrightarrow> answered (Suc k) s \<Longrightarrow>
   request c s = (None, s\<lparr> calls := calls s @ [c], faults := tl (faults s) \<rparr>)
   \<and> answered k (s\<lparr> calls := calls s @ [c], faults := tl (faults s) \<rparr>)"
  by (cases "faults s") (auto simp: request_def answered_def split: option.splits)

lemma getRow_answered:
  assumes "0 < n" and "answered (Suc k) s"
  shows "\<exists>row. getRow n s = (Inr row, s\<lparr> calls := calls s @ [Values_get_row n], faults := tl (faults s) \<rparr>)
     \<and> or_default (at_index row 7) [] = cell_text (grid s) (n - 1) 7
     \<and> answered k (s\<lparr> calls := calls s @ [Values_get_row n], faults := tl (faults s) \<rparr>)"
  using assms request_answered [of "Values_get_row n" k s]
  by (auto simp: getRow_def cell_text_def at_index_def or_default_def)

lemma updateCell_answered:
  assumes "0 < n" and "answered (Suc k) s"
  shows "updateCell n c v s =
     (Inr True, s\<lparr> calls := calls s @ [Values_update_cell n c v], faults := tl (faults s),
                   grid := set_cell (n - 1) (col_index c) (entered s v) (grid s) \<rparr>)"
  using assms request_answered [of "Values_update_cell n c v" k s]
  by (simp add: updateCell_def)

lemma col_H: "col_index (CHR ''H'') = 7"
  by (simp add: col_index_def)

lemma lead_len_Nil: "lead_len ws [] = 0"
  by (induction ws) (auto simp: lead_len_def)

lemma trim_Nil: "trim [] = []"
  by (simp add: trim_def lead_len_Nil)

lemma addComment_run:
  assumes row: "0 < rowNo" and nonblank: "trim txt \<noteq> []" and ans: "answered 2 s"
  shows "addComment rt vnTime rowNo (Some txt) s =
     (let comments = stored_comments rt (cell_text (grid s) (rowNo - 1) 7)
                     @ [comment (trim txt) (comment_time_of vnTime) ''User''];
          cell = JSON_stringify rt (JArr comments)
      in (Inr (Reply_with_comments True commentAddedMessage comments),
          s\<lparr> calls := calls s @ [Values_get_row rowNo, Values_update_cell rowNo (CHR ''H'') cell],
              faults := tl (tl (faults s)),
              grid := set_cell (rowNo - 1) 7 (entered s cell) (grid s) \<rparr>))"
proof -
  let ?s1 = "s\<lparr> calls := calls s @ [Values_get_row rowNo], faults := tl (faults s) \<rparr>"
  from ans have ans': "answered (Suc (Suc 0)) s"
    by (simp add: numeral_2_eq_2)
  from getRow_answered [OF row ans'] obtain currentRow where
    get: "getRow rowNo s = (Inr currentRow, ?s1)" and
    h: "or_default (at_index currentRow 7) [] = cell_text (grid s) (rowNo - 1) 7" and
    ans1: "answered (Suc 0) ?s1"
    by blast
  from nonblank have ne: "txt \<noteq> []"
    using trim_Nil by auto
  show ?thesis
    using row ne nonblank
    by (simp add: addComment_def Let_def get h updateCell_answered [OF row ans1] col_H
             del: JSON_stringify.simps)
qed

text \<open>
  Claim C4.  For a row number, a comment text that is not blank and a service that
  answers the read and the write, \<open>addComment\<close> reads cell H of the row (index 7).
  The old list is: nothing for an empty cell; for a cell whose trimmed text starts
  with \<open>[\<close> and ends with \<open>]\<close>, the array that \<open>JSON.parse\<close> gives, and nothing when it
  throws or gives no array; for any other text, one comment, the object whose \<open>text\<close>
  is that text, whose \<open>time\<close> is the text \<open>Note cu\<close> (with a tilde on the u, in UTF-8)
  and whose \<open>author\<close> is \<open>System\<close>.  The new comment, the object whose \<open>text\<close> is the
  trimmed text, whose \<open>time\<close> is the stamp of the call and whose \<open>author\<close> is \<open>User\<close>,
  is appended; the list, serialised as JSON, is sent as one update of cell H of the same
  row, which changes that cell only, and the reply is a success carrying the new list.
\<close>

theorem addComment_appends:
  assumes row: "0 < rowNo" and nonblank: "trim txt \<noteq> []" and ans: "answered 2 s"
    and cell: "H = cell_text (grid s) (rowNo - 1) 7"
    and new: "c = JObj [(''text'', JStr (trim txt)), (''time'', JStr (comment_time_of vnTime)),
                        (''author'', JStr ''User'')]"
  shows "\<exists>old.
     addComment rt vnTime rowNo (Some txt) s =
       (Inr (Reply_with_comments True ([CHR 0xC4, CHR 0x90, CHR 0xC3, CHR 0xA3] @ '' th'' @ [CHR 0xC3, CHR 0xAA] @ ''m comment!'') (old @ [c])),
        s\<lparr> calls := calls s @ [Values_get_row rowNo,
                 Values_update_cell rowNo (CHR ''H'') (JSON_stringify rt (JArr (old @ [c])))],
            faults := tl (tl (faults s)),
            grid := set_cell (rowNo - 1) 7 (entered s (JSON_stringify rt (JArr (old @ [c])))) (grid s) \<rparr>)
     \<and> (H = [] \<longrightarrow> old = [])
     \<and> (H \<noteq> [] \<and> \<not> (startsWith (trim H) ''['' \<and> endsWith (trim H) '']'') \<longrightarrow>
          old = [JObj [(''text'', JStr H), (''time'', JStr (''Note c'' @ [CHR 0xC5, CHR 0xA9])), (''author'', JStr ''System'')]])
     \<and> (H \<noteq> [] \<and> startsWith (trim H) ''['' \<and> endsWith (trim H) '']'' \<longrightarrow>
          (\<forall>cs. JSON_parse rt H = Some (JArr cs) \<longrightarrow> old = cs)
          \<and> ((\<forall>cs. JSON_parse rt H \<noteq> Some (JArr cs)) \<longrightarrow> old = []))
     \<and> (\<forall>r k v. cell_text (set_cell (rowNo - 1) 7 v (grid s)) r k =
            (if r = rowNo - 1 \<and> k = 7 then v else cell_text (grid s) r k))"
proof -
  let ?old = "stored_comments rt H"
  have run: "addComment rt vnTime rowNo (Some txt) s =
       (Inr (Reply_with_comments True ([CHR 0xC4, CHR 0x90, CHR 0xC3, CHR 0xA3] @ '' th'' @ [CHR 0xC3, CHR 0xAA] @ ''m comment!'') (?old @ [c])),
        s\<lparr> calls := calls s @ [Values_get_row rowNo,
                 Values_update_cell rowNo (CHR ''H'') (JSON_stringify rt (JArr (?old @ [c])))],
            faults := tl (tl (faults s)),
            grid := set_cell (rowNo - 1) 7 (entered s (JSON_stringify rt (JArr (?old @ [c])))) (grid s) \<rparr>)"
    using addComment_run [OF row nonblank ans, of rt vnTime]
    by (simp add: Let_def cell new comment_def commentAddedMessage_def del: JSON_stringify.simps)
  have empty: "H = [] \<longrightarrow> ?old = []"
    by (simp add: stored_comments_def)
  have legacy: "H \<noteq> [] \<and> \<not> (startsWith (trim H) ''['' \<and> endsWith (trim H) '']'') \<longrightarrow>
      ?old = [JObj [(''text'', JStr H), (''time'', JStr (''Note c'' @ [CHR 0xC5, CHR 0xA9])), (''author'', JStr ''System'')]]"
    by (auto simp: stored_comments_def comment_def legacyTime_def)
  have parsed: "H \<noteq> [] \<and> startsWith (trim H) ''['' \<and> endsWith (trim H) '']'' \<longrightarrow>
      (\<forall>cs. JSON_parse rt H = Some (JArr cs) \<longrightarrow> ?old = cs)
      \<and> ((\<forall>cs. JSON_parse rt H \<noteq> Some (JArr cs)) \<longrightarrow> ?old = [])"
    by (auto simp: stored_comments_def split: option.splits json.splits)
  have only: "\<forall>r k v. cell_text (set_cell (rowNo - 1) 7 v (grid s)) r k =
            (if r = rowNo - 1 \<and> k = 7 then v else cell_text (grid s) r k)"
    by (simp add: cell_text_set_cell)
  from run empty legacy parsed only show ?thesis
    by blast
qed

declare strip_lead.simps [simp del]

lemma trim_example: "trim [CHR 0x20, CHR 0x09, CHR ''o'', CHR ''k'', CHR 0xC2, CHR 0xA0, CHR 0x0A] = ''ok''"
  by (simp add: trim_def strip_lead.simps lead_len_def white_space_def)

lemma stringify_example:
  "JSON_stringify rt
     (JArr [JObj [(''text'', JStr ''old note''), (''time'', JStr (''Note c'' @ [CHR 0xC5, CHR 0xA9])), (''author'', JStr ''System'')],
            JObj [(''text'', JStr ''ok''), (''time'', JStr ''07:05 09/01/2026''), (''author'', JStr ''User'')]])
   = ''[{'' @ [CHR 0x22] @ ''text'' @ [CHR 0x22] @ '':'' @ [CHR 0x22] @ ''old note'' @ [CHR 0x22] @ '','' @ [CHR 0x22] @ ''time'' @ [CHR 0x22] @ '':'' @ [CHR 0x22] @ ''Note c'' @ [CHR 0xC5, CHR 0xA9, CHR 0x22] @ '','' @ [CHR 0x22] @ ''author'' @ [CHR 0x22] @ '':'' @ [CHR 0x22] @ ''System'' @ [CHR 0x22] @ ''},{'' @ [CHR 0x22] @ ''text'' @ [CHR 0x22] @ '':'' @ [CHR 0x22] @ ''ok'' @ [CHR 0x22] @ '','' @ [CHR 0x22] @ ''time'' @ [CHR 0x22] @ '':'' @ [CHR 0x22] @ ''07:05 09/01/2026'' @ [CHR 0x22] @ '','' @ [CHR 0x22] @ ''author'' @ [CHR 0x22] @ '':'' @ [CHR 0x22] @ ''User'' @ [CHR 0x22] @ ''}]''"
  by (simp add: quote_def quote_char_def)

theorem addComment_appends_witness:
  "addComment example_runtime
     \<lparr> getFullYear = 2026, getMonth = 0, getDate = 9, getHours = 7, getMinutes = 5, getSeconds = 0 \<rparr>
     3 (Some [CHR 0x20, CHR 0x09, CHR ''o'', CHR ''k'', CHR 0xC2, CHR 0xA0, CHR 0x0A])
     \<lparr> grid = [[''ID''], [''h''], [''17'', ''10/01'', ''Lam'', ''a.com'', '''', ''Feedback'', '''', ''old note'']],
       faults = [], calls = [], entered = (\<lambda>v. v), console = [] \<rparr>
   = (Inr (Reply_with_comments True ([CHR 0xC4, CHR 0x90, CHR 0xC3, CHR 0xA3] @ '' th'' @ [CHR 0xC3, CHR 0xAA] @ ''m comment!'')
            [JObj [(''text'', JStr ''old note''), (''time'', JStr (''Note c'' @ [CHR 0xC5, CHR 0xA9])), (''author'', JStr ''System'')],
             JObj [(''text'', JStr ''ok''), (''time'', JStr ''07:05 09/01/2026''), (''author'', JStr ''User'')]]),
      \<lparr> grid = [[''ID''], [''h''],
                 [''17'', ''10/01'', ''Lam'', ''a.com'', '''', ''Feedback'', '''',
                  ''[{'' @ [CHR 0x22] @ ''text'' @ [CHR 0x22] @ '':'' @ [CHR 0x22] @ ''old note'' @ [CHR 0x22] @ '','' @ [CHR 0x22] @ ''time'' @ [CHR 0x22] @ '':'' @ [CHR 0x22] @ ''Note c'' @ [CHR 0xC5, CHR 0xA9, CHR 0x22] @ '','' @ [CHR 0x22] @ ''author'' @ [CHR 0x22] @ '':'' @ [CHR 0x22] @ ''System'' @ [CHR 0x22] @ ''},{'' @ [CHR 0x22] @ ''text'' @ [CHR 0x22] @ '':'' @ [CHR 0x22] @ ''ok'' @ [CHR 0x22] @ '','' @ [CHR 0x22] @ ''time'' @ [CHR 0x22] @ '':'' @ [CHR 0x22] @ ''07:05 09/01/2026'' @ [CHR 0x22] @ '','' @ [CHR 0x22] @ ''author'' @ [CHR 0x22] @ '':'' @ [CHR 0x22] @ ''User'' @ [CHR 0x22] @ ''}]'']],
        faults = [],
        calls = [Values_get_row 3,
                 Values_update_cell 3 (CHR ''H'')
                   (''[{'' @ [CHR 0x22] @ ''text'' @ [CHR 0x22] @ '':'' @ [CHR 0x22] @ ''old note'' @ [CHR 0x22] @ '','' @ [CHR 0x22] @ ''time'' @ [CHR 0x22] @ '':'' @ [CHR 0x22] @ ''Note c'' @ [CHR 0xC5, CHR 0xA9, CHR 0x22] @ '','' @ [CHR 0x22] @ ''author'' @ [CHR 0x22] @ '':'' @ [CHR 0x22] @ ''System'' @ [CHR 0x22] @ ''},{'' @ [CHR 0x22] @ ''text'' @ [CHR 0x22] @ '':'' @ [CHR 0x22] @ ''ok'' @ [CHR 0x22] @ '','' @ [CHR 0x22] @ ''time'' @ [CHR 0x22] @ '':'' @ [CHR 0x22] @ ''07:05 09/01/2026'' @ [CHR 0x22] @ '','' @ [CHR 0x22] @ ''author'' @ [CHR 0x22] @ '':'' @ [CHR 0x22] @ ''User'' @ [CHR 0x22] @ ''}]'')],
        entered = (\<lambda>v. v), console = [] \<rparr>)"
proof -
  define D where "D = \<lparr> getFullYear = 2026, getMonth = 0, getDate = 9, getHours = 7, getMinutes = 5, getSeconds = (0::nat) \<rparr>"
  define S where "S = \<lparr> grid = [[''ID''], [''h''], [''17'', ''10/01'', ''Lam'', ''a.com'', '''', ''Feedback'', '''', ''old note'']],
       faults = [], calls = [], entered = (\<lambda>v. v), console = [] \<rparr>"
  define t where "t = [CHR 0x20, CHR 0x09, CHR ''o'', CHR ''k'', CHR 0xC2, CHR 0xA0, CHR 0x0A]"
  define legacy where "legacy = JObj [(''text'', JStr ''old note''), (''time'', JStr (''Note c'' @ [CHR 0xC5, CHR 0xA9])), (''author'', JStr ''System'')]"
  define fresh where "fresh = JObj [(''text'', JStr ''ok''), (''time'', JStr ''07:05 09/01/2026''), (''author'', JStr ''User'')]"
  define cell where "cell = ''[{'' @ [CHR 0x22] @ ''text'' @ [CHR 0x22] @ '':'' @ [CHR 0x22] @ ''old note'' @ [CHR 0x22] @ '','' @ [CHR 0x22] @ ''time'' @ [CHR 0x22] @ '':'' @ [CHR 0x22] @ ''Note c'' @ [CHR 0xC5, CHR 0xA9, CHR 0x22] @ '','' @ [CHR 0x22] @ ''author'' @ [CHR 0x22] @ '':'' @ [CHR 0x22] @ ''System'' @ [CHR 0x22] @ ''},{'' @ [CHR 0x22] @ ''text'' @ [CHR 0x22] @ '':'' @ [CHR 0x22] @ ''ok'' @ [CHR 0x22] @ '','' @ [CHR 0x22] @ ''time'' @ [CHR 0x22] @ '':'' @ [CHR 0x22] @ ''07:05 09/01/2026'' @ [CHR 0x22] @ '','' @ [CHR 0x22] @ ''author'' @ [CHR 0x22] @ '':'' @ [CHR 0x22] @ ''User'' @ [CHR 0x22] @ ''}]''"
  have tr: "trim t = ''ok''"
    unfolding t_def by (rule trim_example)
  have h1: "0 < (3::nat)" by simp
  have h2: "trim t \<noteq> []" by (simp add: tr)
  have h3: "answered 2 S" by (simp add: answered_def S_def)
  have h4: "''old note'' = cell_text (grid S) (3 - 1) 7"
    by (simp add: cell_text_def S_def)
  have h5: "fresh = JObj [(''text'', JStr (trim t)), (''time'', JStr (comment_time_of D)), (''author'', JStr ''User'')]"
    by (simp add: tr comment_time_of_def toString.simps padStart2_def digit_def D_def fresh_def)
  have plain: "\<not> (startsWith (trim ''old note'') ''['' \<and> endsWith (trim ''old note'') '']'')"
    by (simp add: startsWith_def trim_def strip_lead.simps lead_len_def white_space_def)
  have str: "JSON_stringify example_runtime (JArr ([legacy] @ [fresh])) = cell"
    unfolding legacy_def fresh_def cell_def using stringify_example [of example_runtime] by simp
  from addComment_appends [OF h1 h2 h3 h4 h5, of example_runtime] plain
  have run: "addComment example_runtime D 3 (Some t) S =
       (Inr (Reply_with_comments True ([CHR 0xC4, CHR 0x90, CHR 0xC3, CHR 0xA3] @ '' th'' @ [CHR 0xC3, CHR 0xAA] @ ''m comment!'') ([legacy] @ [fresh])),
        S\<lparr> calls := calls S @ [Values_get_row 3,
                 Values_update_cell 3 (CHR ''H'') (JSON_stringify example_runtime (JArr ([legacy] @ [fresh])))],
            faults := tl (tl (faults S)),
            grid := set_cell (3 - 1) 7 (entered S (JSON_stringify example_runtime (JArr ([legacy] @ [fresh])))) (grid S) \<rparr>)"
    unfolding legacy_def by (auto simp del: JSON_stringify.simps)
  have g: "set_cell (3 - 1) 7 v (grid S)
      = [[''ID''], [''h''], [''17'', ''10/01'', ''Lam'', ''a.com'', '''', ''Feedback'', '''', v]]" for v
    by (simp add: S_def set_cell_def numeral_eq_Suc)
  have e: "entered S v = v" for v
    by (simp add: S_def)
  have "addComment example_runtime D 3 (Some t) S =
       (Inr (Reply_with_comments True ([CHR 0xC4, CHR 0x90, CHR 0xC3, CHR 0xA3] @ '' th'' @ [CHR 0xC3, CHR 0xAA] @ ''m comment!'') [legacy, fresh]),
        \<lparr> grid = [[''ID''], [''h''], [''17'', ''10/01'', ''Lam'', ''a.com'', '''', ''Feedback'', '''', cell]],
          faults = [], calls = [Values_get_row 3, Values_update_cell 3 (CHR ''H'') cell],
          entered = (\<lambda>v. v), console = [] \<rparr>)"
    using run unfolding str e g by (simp add: S_def)
  then show ?thesis
    unfolding D_def S_def t_def legacy_def fresh_def cell_def .
qed

lemma splice1_props:
  assumes "i < length xs"
  shows "length (splice1 i xs) + 1 = length xs"
    and "\<forall>j < i. splice1 i xs ! j = xs ! j"
    and "\<forall>j. i \<le> j \<and> j + 1 < length xs \<longrightarrow> splice1 i xs ! j = xs ! (j + 1)"
  using assms by (auto simp: splice1_def nth_append min_def)

lemma integer_part_below:
  "at_least_zero n \<Longrightarrow> below n k \<Longrightarrow> integer_part n < k"
proof (cases n)
  case (Num q)
  assume "at_least_zero n" and "below n k"
  with Num have q: "0 \<le> q" "q < of_nat k"
    by simp_all
  then have "\<lfloor>q\<rfloor> < int k"
    by (simp add: floor_less_iff)
  with q Num show ?thesis
    by simp
qed simp_all

text \<open>
  What \<open>deleteComment\<close> does for a row number, a value of \<open>commentIndex\<close> other than
  \<open>null\<close> and a service that answers: it reads the row, converts the value to a number
  and either writes the list without one comment or refuses the index.
\<close>

lemma deleteComment_run:
  assumes row: "0 < rowNo" and ans: "answered 2 s" and present: "v \<noteq> JNull"
    and cs: "cs = stored_comments_strict rt (cell_text (grid s) (rowNo - 1) 7)"
  shows "deleteComment rt rowNo (Some v) s =
     (case ToNumber rt v of
        Inl e \<Rightarrow> (Inl e, s\<lparr> calls := calls s @ [Values_get_row rowNo], faults := tl (faults s) \<rparr>)
      | Inr n \<Rightarrow>
          if at_least_zero n \<and> below n (length cs) then
            (Inr (Reply_with_comments True ''Deleted comment!'' (splice1 (integer_part n) cs)),
             s\<lparr> calls := calls s @ [Values_get_row rowNo,
                      Values_update_cell rowNo (CHR ''H'')
                        (JSON_stringify rt (JArr (splice1 (integer_part n) cs)))],
                 faults := tl (tl (faults s)),
                 grid := set_cell (rowNo - 1) 7
                           (entered s (JSON_stringify rt (JArr (splice1 (integer_part n) cs)))) (grid s) \<rparr>)
          else
            (Inr (Reply False ''Invalid comment index''),
             s\<lparr> calls := calls s @ [Values_get_row rowNo], faults := tl (faults s) \<rparr>))"
proof -
  let ?s1 = "s\<lparr> calls := calls s @ [Values_get_row rowNo], faults := tl (faults s) \<rparr>"
  from ans have ans': "answered (Suc (Suc 0)) s"
    by (simp add: numeral_2_eq_2)
  from getRow_answered [OF row ans'] obtain currentRow where
    get: "getRow rowNo s = (Inr currentRow, ?s1)" and
    h: "or_default (at_index currentRow 7) [] = cell_text (grid s) (rowNo - 1) 7" and
    ans1: "answered (Suc 0) ?s1"
    by blast
  show ?thesis
    using row present unfolding cs
    by (cases v)
       (simp_all add: deleteComment_def Let_def get h updateCell_answered [OF row ans1] col_H
                 split: sum.splits del: JSON_stringify.simps)
qed

text \<open>
  Claim C9, amended.  Let \<open>cs\<close> be the list \<open>deleteComment\<close> parses from cell H of a
  row: the array \<open>JSON.parse\<close> gives for a bracketed text, and the empty list otherwise.
  The service answers, and \<open>commentIndex\<close> is a value other than \<open>null\<close> that converts
  to the number \<open>n\<close> as JavaScript converts it for a comparison (a number is itself,
  \<open>true\<close> is 1, \<open>false\<close> is 0, a string is the number it spells).  If \<open>n\<close> is outside
  \<open>[0, length cs)\<close>, or \<open>NaN\<close>, the reply is \<open>{success: false, message: 'Invalid comment
  index'}\<close>, the only request sent is the read, and the grid is unchanged.  If \<open>n\<close> is
  inside the range, the comment at the index \<open>n\<close> without its fraction is removed (the
  comments before it keep their place, those after it move up by one) and the serialised
  remaining list is written to cell H of the row.  For an integer \<open>commentIndex\<close> this
  is the range test and the index of the claim.  A missing or \<open>null\<close> \<open>commentIndex\<close>
  ends in the error \<open>Missing commentIndex\<close> before any request, and a value that cannot
  be converted ends in the TypeError after the read; neither writes.
\<close>

theorem deleteComment_index:
  assumes row: "0 < rowNo" and ans: "answered 2 s"
    and cell: "H = cell_text (grid s) (rowNo - 1) 7"
    and cs: "cs = stored_comments_strict rt H"
    and present: "v \<noteq> JNull"
    and number: "ToNumber rt v = Inr n"
  shows "(\<not> (at_least_zero n \<and> below n (length cs)) \<longrightarrow>
       deleteComment rt rowNo (Some v) s =
         (Inr (Reply False ''Invalid comment index''),
          s\<lparr> calls := calls s @ [Values_get_row rowNo], faults := tl (faults s) \<rparr>))
     \<and> (at_least_zero n \<and> below n (length cs) \<longrightarrow>
       integer_part n < length cs
       \<and> deleteComment rt rowNo (Some v) s =
         (Inr (Reply_with_comments True ''Deleted comment!''
                (take (integer_part n) cs @ drop (integer_part n + 1) cs)),
          s\<lparr> calls := calls s @ [Values_get_row rowNo,
                   Values_update_cell rowNo (CHR ''H'')
                     (JSON_stringify rt (JArr (take (integer_part n) cs @ drop (integer_part n + 1) cs)))],
              faults := tl (tl (faults s)),
              grid := set_cell (rowNo - 1) 7
                        (entered s (JSON_stringify rt
                           (JArr (take (integer_part n) cs @ drop (integer_part n + 1) cs))))
                        (grid s) \<rparr>))
     \<and> (\<forall>i. v = JNum (Num (of_int i)) \<longrightarrow>
          ((at_least_zero n \<and> below n (length cs)) = (0 \<le> i \<and> i < int (length cs)))
          \<and> integer_part n = nat i)
     \<and> (v = JBool True \<longrightarrow> n = Num 1)
     \<and> (v = JBool False \<longrightarrow> n = Num 0)
     \<and> (\<forall>t. v = JStr t \<longrightarrow> n = StringToNumber rt t)
     \<and> deleteComment rt rowNo None s = (Inl (Error ''Missing commentIndex''), s)
     \<and> deleteComment rt rowNo (Some JNull) s = (Inl (Error ''Missing commentIndex''), s)
     \<and> (\<forall>w e. w \<noteq> JNull \<and> ToNumber rt w = Inl e \<longrightarrow>
          deleteComment rt rowNo (Some w) s =
            (Inl e, s\<lparr> calls := calls s @ [Values_get_row rowNo], faults := tl (faults s) \<rparr>))
     \<and> (\<not> (H \<noteq> [] \<and> startsWith (trim H) ''['' \<and> endsWith (trim H) '']'') \<longrightarrow> cs = [])
     \<and> (H \<noteq> [] \<and> startsWith (trim H) ''['' \<and> endsWith (trim H) '']'' \<longrightarrow>
          (\<forall>xs. JSON_parse rt H = Some (JArr xs) \<longrightarrow> cs = xs)
          \<and> ((\<forall>xs. JSON_parse rt H \<noteq> Some (JArr xs)) \<longrightarrow> cs = []))"
proof -
  note run = deleteComment_run [OF row ans _ cs [unfolded cell]]
  have out: "\<not> (at_least_zero n \<and> below n (length cs)) \<longrightarrow>
       deleteComment rt rowNo (Some v) s =
         (Inr (Reply False ''Invalid comment index''),
          s\<lparr> calls := calls s @ [Values_get_row rowNo], faults := tl (faults s) \<rparr>)"
    using run [OF present] number by auto
  have inside: "at_least_zero n \<and> below n (length cs) \<longrightarrow>
       integer_part n < length cs
       \<and> deleteComment rt rowNo (Some v) s =
         (Inr (Reply_with_comments True ''Deleted comment!''
                (take (integer_part n) cs @ drop (integer_part n + 1) cs)),
          s\<lparr> calls := calls s @ [Values_get_row rowNo,
                   Values_update_cell rowNo (CHR ''H'')
                     (JSON_stringify rt (JArr (take (integer_part n) cs @ drop (integer_part n + 1) cs)))],
              faults := tl (tl (faults s)),
              grid := set_cell (rowNo - 1) 7
                        (entered s (JSON_stringify rt
                           (JArr (take (integer_part n) cs @ drop (integer_part n + 1) cs))))
                        (grid s) \<rparr>)"
    using run [OF present] number integer_part_below [of n "length cs"]
    by (auto simp: splice1_def simp del: JSON_stringify.simps)
  have ints: "\<forall>i. v = JNum (Num (of_int i)) \<longrightarrow>
          ((at_least_zero n \<and> below n (length cs)) = (0 \<le> i \<and> i < int (length cs)))
          \<and> integer_part n = nat i"
  proof (intro allI impI)
    fix i
    assume "v = JNum (Num (of_int i))"
    with number have n: "n = Num (of_int i)"
      by (simp add: ToNumber_def)
    have "(of_int i :: rat) < of_nat (length cs) \<longleftrightarrow> i < int (length cs)"
      using of_int_less_iff [of i "int (length cs)", where ?'a = rat] by simp
    then show "((at_least_zero n \<and> below n (length cs)) = (0 \<le> i \<and> i < int (length cs)))
          \<and> integer_part n = nat i"
      by (simp add: n)
  qed
  have bools: "(v = JBool True \<longrightarrow> n = Num 1) \<and> (v = JBool False \<longrightarrow> n = Num 0)
     \<and> (\<forall>t. v = JStr t \<longrightarrow> n = StringToNumber rt t)"
    using number by (auto simp: ToNumber_def)
  have missing: "deleteComment rt rowNo None s = (Inl (Error ''Missing commentIndex''), s)
     \<and> deleteComment rt rowNo (Some JNull) s = (Inl (Error ''Missing commentIndex''), s)"
    using row by (simp add: deleteComment_def)
  have thrown: "\<forall>w e. w \<noteq> JNull \<and> ToNumber rt w = Inl e \<longrightarrow>
          deleteComment rt rowNo (Some w) s =
            (Inl e, s\<lparr> calls := calls s @ [Values_get_row rowNo], faults := tl (faults s) \<rparr>)"
    using run by auto
  have plain: "\<not> (H \<noteq> [] \<and> startsWith (trim H) ''['' \<and> endsWith (trim H) '']'') \<longrightarrow> cs = []"
    by (auto simp: cs stored_comments_strict_def)
  have parsed: "H \<noteq> [] \<and> startsWith (trim H) ''['' \<and> endsWith (trim H) '']'' \<longrightarrow>
          (\<forall>xs. JSON_parse rt H = Some (JArr xs) \<longrightarrow> cs = xs)
          \<and> ((\<forall>xs. JSON_parse rt H \<noteq> Some (JArr xs)) \<longrightarrow> cs = [])"
    by (auto simp: cs stored_comments_strict_def split: option.splits json.splits)
  from out inside ints bools missing thrown plain parsed show ?thesis
    by blast
qed

lemma example_comments:
  "stored_comments_strict example_runtime
     (''[{'' @ [CHR 0x22] @ ''text'' @ [CHR 0x22] @ '':'' @ [CHR 0x22] @ ''first'' @ [CHR 0x22] @ '','' @ [CHR 0x22] @ ''time'' @ [CHR 0x22] @ '':'' @ [CHR 0x22] @ ''07:05 09/01/2026'' @ [CHR 0x22] @ '','' @ [CHR 0x22] @ ''author'' @ [CHR 0x22] @ '':'' @ [CHR 0x22] @ ''User'' @ [CHR 0x22] @ ''},{'' @ [CHR 0x22] @ ''text'' @ [CHR 0x22] @ '':'' @ [CHR 0x22] @ ''second'' @ [CHR 0x22] @ '','' @ [CHR 0x22] @ ''time'' @ [CHR 0x22] @ '':'' @ [CHR 0x22] @ ''07:06 09/01/2026'' @ [CHR 0x22] @ '','' @ [CHR 0x22] @ ''author'' @ [CHR 0x22] @ '':'' @ [CHR 0x22] @ ''User'' @ [CHR 0x22] @ ''}]'')
   = [JObj [(''text'', JStr ''first''), (''time'', JStr ''07:05 09/01/2026''), (''author'', JStr ''User'')],
      JObj [(''text'', JStr ''second''), (''time'', JStr ''07:06 09/01/2026''), (''author'', JStr ''User'')]]"
  by (simp add: stored_comments_strict_def example_runtime_def startsWith_def endsWith_def
                trim_def strip_lead.simps lead_len_def white_space_def)

lemma example_texts:
  "JSON_stringify rt
     (JArr [JObj [(''text'', JStr ''first''), (''time'', JStr ''07:05 09/01/2026''), (''author'', JStr ''User'')]])
   = ''[{'' @ [CHR 0x22] @ ''text'' @ [CHR 0x22] @ '':'' @ [CHR 0x22] @ ''first'' @ [CHR 0x22] @ '','' @ [CHR 0x22] @ ''time'' @ [CHR 0x22] @ '':'' @ [CHR 0x22] @ ''07:05 09/01/2026'' @ [CHR 0x22] @ '','' @ [CHR 0x22] @ ''author'' @ [CHR 0x22] @ '':'' @ [CHR 0x22] @ ''User'' @ [CHR 0x22] @ ''}]''"
  "JSON_stringify rt
     (JArr [JObj [(''text'', JStr ''second''), (''time'', JStr ''07:06 09/01/2026''), (''author'', JStr ''User'')]])
   = ''[{'' @ [CHR 0x22] @ ''text'' @ [CHR 0x22] @ '':'' @ [CHR 0x22] @ ''second'' @ [CHR 0x22] @ '','' @ [CHR 0x22] @ ''time'' @ [CHR 0x22] @ '':'' @ [CHR 0x22] @ ''07:06 09/01/2026'' @ [CHR 0x22] @ '','' @ [CHR 0x22] @ ''author'' @ [CHR 0x22] @ '':'' @ [CHR 0x22] @ ''User'' @ [CHR 0x22] @ ''}]''"
  by (simp_all add: quote_def quote_char_def)

theorem deleteComment_index_witness:
  "deleteComment example_runtime 3 (Some (JNum (Num 5)))
     \<lparr> grid = [[''ID''], [''h''],
                [''17'', ''10/01'', ''Lam'', ''a.com'', '''', ''Feedback'', '''',
                 ''[{'' @ [CHR 0x22] @ ''text'' @ [CHR 0x22] @ '':'' @ [CHR 0x22] @ ''first'' @ [CHR 0x22] @ '','' @ [CHR 0x22] @ ''time'' @ [CHR 0x22] @ '':'' @ [CHR 0x22] @ ''07:05 09/01/2026'' @ [CHR 0x22] @ '','' @ [CHR 0x22] @ ''author'' @ [CHR 0x22] @ '':'' @ [CHR 0x22] @ ''User'' @ [CHR 0x22] @ ''},{'' @ [CHR 0x22] @ ''text'' @ [CHR 0x22] @ '':'' @ [CHR 0x22] @ ''second'' @ [CHR 0x22] @ '','' @ [CHR 0x22] @ ''time'' @ [CHR 0x22] @ '':'' @ [CHR 0x22] @ ''07:06 09/01/2026'' @ [CHR 0x22] @ '','' @ [CHR 0x22] @ ''author'' @ [CHR 0x22] @ '':'' @ [CHR 0x22] @ ''User'' @ [CHR 0x22] @ ''}]'']],
       faults = [], calls = [], entered = (\<lambda>v. v), console = [] \<rparr>
   = (Inr (Reply False ''Invalid comment index''),
      \<lparr> grid = [[''ID''], [''h''],
                 [''17'', ''10/01'', ''Lam'', ''a.com'', '''', ''Feedback'', '''',
                  ''[{'' @ [CHR 0x22] @ ''text'' @ [CHR 0x22] @ '':'' @ [CHR 0x22] @ ''first'' @ [CHR 0x22] @ '','' @ [CHR 0x22] @ ''time'' @ [CHR 0x22] @ '':'' @ [CHR 0x22] @ ''07:05 09/01/2026'' @ [CHR 0x22] @ '','' @ [CHR 0x22] @ ''author'' @ [CHR 0x22] @ '':'' @ [CHR 0x22] @ ''User'' @ [CHR 0x22] @ ''},{'' @ [CHR 0x22] @ ''text'' @ [CHR 0x22] @ '':'' @ [CHR 0x22] @ ''second'' @ [CHR 0x22] @ '','' @ [CHR 0x22] @ ''time'' @ [CHR 0x22] @ '':'' @ [CHR 0x22] @ ''07:06 09/01/2026'' @ [CHR 0x22] @ '','' @ [CHR 0x22] @ ''author'' @ [CHR 0x22] @ '':'' @ [CHR 0x22] @ ''User'' @ [CHR 0x22] @ ''}]'']],
        faults = [], calls = [Values_get_row 3], entered = (\<lambda>v. v), console = [] \<rparr>)
   \<and> deleteComment example_runtime 3 (Some (JNum (Num 0)))
     \<lparr> grid = [[''ID''], [''h''],
                [''17'', ''10/01'', ''Lam'', ''a.com'', '''', ''Feedback'', '''',
                 ''[{'' @ [CHR 0x22] @ ''text'' @ [CHR 0x22] @ '':'' @ [CHR 0x22] @ ''first'' @ [CHR 0x22] @ '','' @ [CHR 0x22] @ ''time'' @ [CHR 0x22] @ '':'' @ [CHR 0x22] @ ''07:05 09/01/2026'' @ [CHR 0x22] @ '','' @ [CHR 0x22] @ ''author'' @ [CHR 0x22] @ '':'' @ [CHR 0x22] @ ''User'' @ [CHR 0x22] @ ''},{'' @ [CHR 0x22] @ ''text'' @ [CHR 0x22] @ '':'' @ [CHR 0x22] @ ''second'' @ [CHR 0x22] @ '','' @ [CHR 0x22] @ ''time'' @ [CHR 0x22] @ '':'' @ [CHR 0x22] @ ''07:06 09/01/2026'' @ [CHR 0x22] @ '','' @ [CHR 0x22] @ ''author'' @ [CHR 0x22] @ '':'' @ [CHR 0x22] @ ''User'' @ [CHR 0x22] @ ''}]'']],
       faults = [], calls = [], entered = (\<lambda>v. v), console = [] \<rparr>
   = (Inr (Reply_with_comments True ''Deleted comment!''
            [JObj [(''text'', JStr ''second''), (''time'', JStr ''07:06 09/01/2026''), (''author'', JStr ''User'')]]),
      \<lparr> grid = [[''ID''], [''h''],
                 [''17'', ''10/01'', ''Lam'', ''a.com'', '''', ''Feedback'', '''',
                  ''[{'' @ [CHR 0x22] @ ''text'' @ [CHR 0x22] @ '':'' @ [CHR 0x22] @ ''second'' @ [CHR 0x22] @ '','' @ [CHR 0x22] @ ''time'' @ [CHR 0x22] @ '':'' @ [CHR 0x22] @ ''07:06 09/01/2026'' @ [CHR 0x22] @ '','' @ [CHR 0x22] @ ''author'' @ [CHR 0x22] @ '':'' @ [CHR 0x22] @ ''User'' @ [CHR 0x22] @ ''}]'']],
        faults = [],
        calls = [Values_get_row 3,
                 Values_update_cell 3 (CHR ''H'')
                   (''[{'' @ [CHR 0x22] @ ''text'' @ [CHR 0x22] @ '':'' @ [CHR 0x22] @ ''second'' @ [CHR 0x22] @ '','' @ [CHR 0x22] @ ''time'' @ [CHR 0x22] @ '':'' @ [CHR 0x22] @ ''07:06 09/01/2026'' @ [CHR 0x22] @ '','' @ [CHR 0x22] @ ''author'' @ [CHR 0x22] @ '':'' @ [CHR 0x22] @ ''User'' @ [CHR 0x22] @ ''}]'')],
        entered = (\<lambda>v. v), console = [] \<rparr>)"
proof -
  define T2 where "T2 = ''[{'' @ [CHR 0x22] @ ''text'' @ [CHR 0x22] @ '':'' @ [CHR 0x22] @ ''first'' @ [CHR 0x22] @ '','' @ [CHR 0x22] @ ''time'' @ [CHR 0x22] @ '':'' @ [CHR 0x22] @ ''07:05 09/01/2026'' @ [CHR 0x22] @ '','' @ [CHR 0x22] @ ''author'' @ [CHR 0x22] @ '':'' @ [CHR 0x22] @ ''User'' @ [CHR 0x22] @ ''},{'' @ [CHR 0x22] @ ''text'' @ [CHR 0x22] @ '':'' @ [CHR 0x22] @ ''second'' @ [CHR 0x22] @ '','' @ [CHR 0x22] @ ''time'' @ [CHR 0x22] @ '':'' @ [CHR 0x22] @ ''07:06 09/01/2026'' @ [CHR 0x22] @ '','' @ [CHR 0x22] @ ''author'' @ [CHR 0x22] @ '':'' @ [CHR 0x22] @ ''User'' @ [CHR 0x22] @ ''}]''"
  define c1 where "c1 = JObj [(''text'', JStr ''first''), (''time'', JStr ''07:05 09/01/2026''), (''author'', JStr ''User'')]"
  define c2 where "c2 = JObj [(''text'', JStr ''second''), (''time'', JStr ''07:06 09/01/2026''), (''author'', JStr ''User'')]"
  define S where "S = \<lparr> grid = [[''ID''], [''h''], [''17'', ''10/01'', ''Lam'', ''a.com'', '''', ''Feedback'', '''', T2]],
       faults = [], calls = [], entered = (\<lambda>v. v), console = [] \<rparr>"
  have h1: "0 < (3::nat)" by simp
  have h2: "answered 2 S"
    by (simp add: answered_def S_def)
  have h3: "T2 = cell_text (grid S) (3 - 1) 7"
    by (simp add: cell_text_def S_def)
  have h4: "[c1, c2] = stored_comments_strict example_runtime T2"
    unfolding T2_def c1_def c2_def by (rule example_comments [symmetric])
  have five: "JNum (Num 5) \<noteq> JNull" "ToNumber example_runtime (JNum (Num 5)) = Inr (Num 5)"
    and zero: "JNum (Num 0) \<noteq> JNull" "ToNumber example_runtime (JNum (Num 0)) = Inr (Num 0)"
    by (simp_all add: ToNumber_def)
  from deleteComment_index [OF h1 h2 h3 h4 five]
  have out: "deleteComment example_runtime 3 (Some (JNum (Num 5))) S =
      (Inr (Reply False ''Invalid comment index''),
       S\<lparr> calls := calls S @ [Values_get_row 3], faults := tl (faults S) \<rparr>)"
    by simp
  from deleteComment_index [OF h1 h2 h3 h4 zero]
  have inside: "deleteComment example_runtime 3 (Some (JNum (Num 0))) S =
      (Inr (Reply_with_comments True ''Deleted comment!'' [c2]),
       S\<lparr> calls := calls S @ [Values_get_row 3,
                Values_update_cell 3 (CHR ''H'') (JSON_stringify example_runtime (JArr [c2]))],
           faults := tl (tl (faults S)),
           grid := set_cell (3 - 1) 7 (entered S (JSON_stringify example_runtime (JArr [c2]))) (grid S) \<rparr>)"
    by (simp del: JSON_stringify.simps)
  have g: "set_cell (3 - 1) 7 v (grid S)
      = [[''ID''], [''h''], [''17'', ''10/01'', ''Lam'', ''a.com'', '''', ''Feedback'', '''', v]]" for v
    by (simp add: S_def set_cell_def numeral_eq_Suc)
  have e: "entered S v = v" for v
    by (simp add: S_def)
  have str: "JSON_stringify example_runtime (JArr [c2]) = ''[{'' @ [CHR 0x22] @ ''text'' @ [CHR 0x22] @ '':'' @ [CHR 0x22] @ ''second'' @ [CHR 0x22] @ '','' @ [CHR 0x22] @ ''time'' @ [CHR 0x22] @ '':'' @ [CHR 0x22] @ ''07:06 09/01/2026'' @ [CHR 0x22] @ '','' @ [CHR 0x22] @ ''author'' @ [CHR 0x22] @ '':'' @ [CHR 0x22] @ ''User'' @ [CHR 0x22] @ ''}]''"
    unfolding c2_def by (rule example_texts)
  have "deleteComment example_runtime 3 (Some (JNum (Num 5))) S =
      (Inr (Reply False ''Invalid comment index''),
       \<lparr> grid = [[''ID''], [''h''], [''17'', ''10/01'', ''Lam'', ''a.com'', '''', ''Feedback'', '''', T2]],
         faults = [], calls = [Values_get_row 3], entered = (\<lambda>v. v), console = [] \<rparr>)"
    using out by (simp add: S_def)
  moreover have "deleteComment example_runtime 3 (Some (JNum (Num 0))) S =
      (Inr (Reply_with_comments True ''Deleted comment!'' [c2]),
       \<lparr> grid = [[''ID''], [''h''],
                  [''17'', ''10/01'', ''Lam'', ''a.com'', '''', ''Feedback'', '''',
                   ''[{'' @ [CHR 0x22] @ ''text'' @ [CHR 0x22] @ '':'' @ [CHR 0x22] @ ''second'' @ [CHR 0x22] @ '','' @ [CHR 0x22] @ ''time'' @ [CHR 0x22] @ '':'' @ [CHR 0x22] @ ''07:06 09/01/2026'' @ [CHR 0x22] @ '','' @ [CHR 0x22] @ ''author'' @ [CHR 0x22] @ '':'' @ [CHR 0x22] @ ''User'' @ [CHR 0x22] @ ''}]'']],
         faults = [],
         calls = [Values_get_row 3,
                  Values_update_cell 3 (CHR ''H'')
                    (''[{'' @ [CHR 0x22] @ ''text'' @ [CHR 0x22] @ '':'' @ [CHR 0x22] @ ''second'' @ [CHR 0x22] @ '','' @ [CHR 0x22] @ ''time'' @ [CHR 0x22] @ '':'' @ [CHR 0x22] @ ''07:06 09/01/2026'' @ [CHR 0x22] @ '','' @ [CHR 0x22] @ ''author'' @ [CHR 0x22] @ '':'' @ [CHR 0x22] @ ''User'' @ [CHR 0x22] @ ''}]'')],
         entered = (\<lambda>v. v), console = [] \<rparr>)"
    using inside unfolding e g str by (simp add: S_def)
  ultimately show ?thesis
    unfolding S_def T2_def c2_def by blast
qed

text \<open>
  Claim C9 as stated fails for a \<open>commentIndex\<close> that is no number in the range and
  yet converts to one.  Cell H holds two comments.  \<open>true\<close> converts to 1 and the
  second comment is deleted; the empty string converts to 0 and the first comment is
  deleted; 1.5 is cut to 1 and the second comment is deleted.  Each time cell H is
  written.
\<close>

theorem deleteComment_index_counterexample:
  "deleteComment example_runtime 3 (Some (JBool True))
     \<lparr> grid = [[''ID''], [''h''],
                [''17'', ''10/01'', ''Lam'', ''a.com'', '''', ''Feedback'', '''',
                 ''[{'' @ [CHR 0x22] @ ''text'' @ [CHR 0x22] @ '':'' @ [CHR 0x22] @ ''first'' @ [CHR 0x22] @ '','' @ [CHR 0x22] @ ''time'' @ [CHR 0x22] @ '':'' @ [CHR 0x22] @ ''07:05 09/01/2026'' @ [CHR 0x22] @ '','' @ [CHR 0x22] @ ''author'' @ [CHR 0x22] @ '':'' @ [CHR 0x22] @ ''User'' @ [CHR 0x22] @ ''},{'' @ [CHR 0x22] @ ''text'' @ [CHR 0x22] @ '':'' @ [CHR 0x22] @ ''second'' @ [CHR 0x22] @ '','' @ [CHR 0x22] @ ''time'' @ [CHR 0x22] @ '':'' @ [CHR 0x22] @ ''07:06 09/01/2026'' @ [CHR 0x22] @ '','' @ [CHR 0x22] @ ''author'' @ [CHR 0x22] @ '':'' @ [CHR 0x22] @ ''User'' @ [CHR 0x22] @ ''}]'']],
       faults = [], calls = [], entered = (\<lambda>v. v), console = [] \<rparr>
   = (Inr (Reply_with_comments True ''Deleted comment!''
            [JObj [(''text'', JStr ''first''), (''time'', JStr ''07:05 09/01/2026''), (''author'', JStr ''User'')]]),
      \<lparr> grid = [[''ID''], [''h''],
                 [''17'', ''10/01'', ''Lam'', ''a.com'', '''', ''Feedback'', '''',
                  ''[{'' @ [CHR 0x22] @ ''text'' @ [CHR 0x22] @ '':'' @ [CHR 0x22] @ ''first'' @ [CHR 0x22] @ '','' @ [CHR 0x22] @ ''time'' @ [CHR 0x22] @ '':'' @ [CHR 0x22] @ ''07:05 09/01/2026'' @ [CHR 0x22] @ '','' @ [CHR 0x22] @ ''author'' @ [CHR 0x22] @ '':'' @ [CHR 0x22] @ ''User'' @ [CHR 0x22] @ ''}]'']],
        faults = [],
        calls = [Values_get_row 3,
                 Values_update_cell 3 (CHR ''H'')
                   (''[{'' @ [CHR 0x22] @ ''text'' @ [CHR 0x22] @ '':'' @ [CHR 0x22] @ ''first'' @ [CHR 0x22] @ '','' @ [CHR 0x22] @ ''time'' @ [CHR 0x22] @ '':'' @ [CHR 0x22] @ ''07:05 09/01/2026'' @ [CHR 0x22] @ '','' @ [CHR 0x22] @ ''author'' @ [CHR 0x22] @ '':'' @ [CHR 0x22] @ ''User'' @ [CHR 0x22] @ ''}]'')],
        entered = (\<lambda>v. v), console = [] \<rparr>)
   \<and> deleteComment example_runtime 3 (Some (JStr ''''))
     \<lparr> grid = [[''ID''], [''h''],
                [''17'', ''10/01'', ''Lam'', ''a.com'', '''', ''Feedback'', '''',
                 ''[{'' @ [CHR 0x22] @ ''text'' @ [CHR 0x22] @ '':'' @ [CHR 0x22] @ ''first'' @ [CHR 0x22] @ '','' @ [CHR 0x22] @ ''time'' @ [CHR 0x22] @ '':'' @ [CHR 0x22] @ ''07:05 09/01/2026'' @ [CHR 0x22] @ '','' @ [CHR 0x22] @ ''author'' @ [CHR 0x22] @ '':'' @ [CHR 0x22] @ ''User'' @ [CHR 0x22] @ ''},{'' @ [CHR 0x22] @ ''text'' @ [CHR 0x22] @ '':'' @ [CHR 0x22] @ ''second'' @ [CHR 0x22] @ '','' @ [CHR 0x22] @ ''time'' @ [CHR 0x22] @ '':'' @ [CHR 0x22] @ ''07:06 09/01/2026'' @ [CHR 0x22] @ '','' @ [CHR 0x22] @ ''author'' @ [CHR 0x22] @ '':'' @ [CHR 0x22] @ ''User'' @ [CHR 0x22] @ ''}]'']],
       faults = [], calls = [], entered = (\<lambda>v. v), console = [] \<rparr>
   = (Inr (Reply_with_comments True ''Deleted comment!''
            [JObj [(''text'', JStr ''second''), (''time'', JStr ''07:06 09/01/2026''), (''author'', JStr ''User'')]]),
      \<lparr> grid = [[''ID''], [''h''],
                 [''17'', ''10/01'', ''Lam'', ''a.com'', '''', ''Feedback'', '''',
                  ''[{'' @ [CHR 0x22] @ ''text'' @ [CHR 0x22] @ '':'' @ [CHR 0x22] @ ''second'' @ [CHR 0x22] @ '','' @ [CHR 0x22] @ ''time'' @ [CHR 0x22] @ '':'' @ [CHR 0x22] @ ''07:06 09/01/2026'' @ [CHR 0x22] @ '','' @ [CHR 0x22] @ ''author'' @ [CHR 0x22] @ '':'' @ [CHR 0x22] @ ''User'' @ [CHR 0x22] @ ''}]'']],
        faults = [],
        calls = [Values_get_row 3,
                 Values_update_cell 3 (CHR ''H'')
                   (''[{'' @ [CHR 0x22] @ ''text'' @ [CHR 0x22] @ '':'' @ [CHR 0x22] @ ''second'' @ [CHR 0x22] @ '','' @ [CHR 0x22] @ ''time'' @ [CHR 0x22] @ '':'' @ [CHR 0x22] @ ''07:06 09/01/2026'' @ [CHR 0x22] @ '','' @ [CHR 0x22] @ ''author'' @ [CHR 0x22] @ '':'' @ [CHR 0x22] @ ''User'' @ [CHR 0x22] @ ''}]'')],
        entered = (\<lambda>v. v), console = [] \<rparr>)
   \<and> deleteComment example_runtime 3 (Some (JNum (Num (Fract 3 2))))
     \<lparr> grid = [[''ID''], [''h''],
                [''17'', ''10/01'', ''Lam'', ''a.com'', '''', ''Feedback'', '''',
                 ''[{'' @ [CHR 0x22] @ ''text'' @ [CHR 0x22] @ '':'' @ [CHR 0x22] @ ''first'' @ [CHR 0x22] @ '','' @ [CHR 0x22] @ ''time'' @ [CHR 0x22] @ '':'' @ [CHR 0x22] @ ''07:05 09/01/2026'' @ [CHR 0x22] @ '','' @ [CHR 0x22] @ ''author'' @ [CHR 0x22] @ '':'' @ [CHR 0x22] @ ''User'' @ [CHR 0x22] @ ''},{'' @ [CHR 0x22] @ ''text'' @ [CHR 0x22] @ '':'' @ [CHR 0x22] @ ''second'' @ [CHR 0x22] @ '','' @ [CHR 0x22] @ ''time'' @ [CHR 0x22] @ '':'' @ [CHR 0x22] @ ''07:06 09/01/2026'' @ [CHR 0x22] @ '','' @ [CHR 0x22] @ ''author'' @ [CHR 0x22] @ '':'' @ [CHR 0x22] @ ''User'' @ [CHR 0x22] @ ''}]'']],
       faults = [], calls = [], entered = (\<lambda>v. v), console = [] \<rparr>
   = (Inr (Reply_with_comments True ''Deleted comment!''
            [JObj [(''text'', JStr ''first''), (''time'', JStr ''07:05 09/01/2026''), (''author'', JStr ''User'')]]),
      \<lparr> grid = [[''ID''], [''h''],
                 [''17'', ''10/01'', ''Lam'', ''a.com'', '''', ''Feedback'', '''',
                  ''[{'' @ [CHR 0x22] @ ''text'' @ [CHR 0x22] @ '':'' @ [CHR 0x22] @ ''first'' @ [CHR 0x22] @ '','' @ [CHR 0x22] @ ''time'' @ [CHR 0x22] @ '':'' @ [CHR 0x22] @ ''07:05 09/01/2026'' @ [CHR 0x22] @ '','' @ [CHR 0x22] @ ''author'' @ [CHR 0x22] @ '':'' @ [CHR 0x22] @ ''User'' @ [CHR 0x22] @ ''}]'']],
        faults = [],
        calls = [Values_get_row 3,
                 Values_update_cell 3 (CHR ''H'')
                   (''[{'' @ [CHR 0x22] @ ''text'' @ [CHR 0x22] @ '':'' @ [CHR 0x22] @ ''first'' @ [CHR 0x22] @ '','' @ [CHR 0x22] @ ''time'' @ [CHR 0x22] @ '':'' @ [CHR 0x22] @ ''07:05 09/01/2026'' @ [CHR 0x22] @ '','' @ [CHR 0x22] @ ''author'' @ [CHR 0x22] @ '':'' @ [CHR 0x22] @ ''User'' @ [CHR 0x22] @ ''}]'')],
        entered = (\<lambda>v. v), console = [] \<rparr>)"
proof -
  define T2 where "T2 = ''[{'' @ [CHR 0x22] @ ''text'' @ [CHR 0x22] @ '':'' @ [CHR 0x22] @ ''first'' @ [CHR 0x22] @ '','' @ [CHR 0x22] @ ''time'' @ [CHR 0x22] @ '':'' @ [CHR 0x22] @ ''07:05 09/01/2026'' @ [CHR 0x22] @ '','' @ [CHR 0x22] @ ''author'' @ [CHR 0x22] @ '':'' @ [CHR 0x22] @ ''User'' @ [CHR 0x22] @ ''},{'' @ [CHR 0x22] @ ''text'' @ [CHR 0x22] @ '':'' @ [CHR 0x22] @ ''second'' @ [CHR 0x22] @ '','' @ [CHR 0x22] @ ''time'' @ [CHR 0x22] @ '':'' @ [CHR 0x22] @ ''07:06 09/01/2026'' @ [CHR 0x22] @ '','' @ [CHR 0x22] @ ''author'' @ [CHR 0x22] @ '':'' @ [CHR 0x22] @ ''User'' @ [CHR 0x22] @ ''}]''"
  define c1 where "c1 = JObj [(''text'', JStr ''first''), (''time'', JStr ''07:05 09/01/2026''), (''author'', JStr ''User'')]"
  define c2 where "c2 = JObj [(''text'', JStr ''second''), (''time'', JStr ''07:06 09/01/2026''), (''author'', JStr ''User'')]"
  define S where "S = \<lparr> grid = [[''ID''], [''h''], [''17'', ''10/01'', ''Lam'', ''a.com'', '''', ''Feedback'', '''', T2]],
       faults = [], calls = [], entered = (\<lambda>v. v), console = [] \<rparr>"
  have h1: "0 < (3::nat)" by simp
  have h2: "answered 2 S"
    by (simp add: answered_def S_def)
  have h4: "[c1, c2] = stored_comments_strict example_runtime (cell_text (grid S) (3 - 1) 7)"
    using example_comments by (simp add: cell_text_def S_def T2_def c1_def c2_def)
  have n1: "ToNumber example_runtime (JBool True) = Inr (Num 1)"
    and n2: "ToNumber example_runtime (JStr '''') = Inr (Num 0)"
    and n3: "ToNumber example_runtime (JNum (Num (Fract 3 2))) = Inr (Num (Fract 3 2))"
    by (simp_all add: ToNumber_def example_runtime_def decimal_value_def)
  have i3: "integer_part (Num (Fract 3 2)) = 1"
    by (simp add: floor_Fract)
  have i1: "integer_part (Num 1) = 1" and i0: "integer_part (Num 0) = 0"
    by simp_all
  have r3: "(0::rat) \<le> Fract 3 2" "Fract 3 2 < (2::rat)"
    by (simp_all add: Fract_of_int_quotient)
  have g: "set_cell (3 - 1) 7 v (grid S)
      = [[''ID''], [''h''], [''17'', ''10/01'', ''Lam'', ''a.com'', '''', ''Feedback'', '''', v]]" for v
    by (simp add: S_def set_cell_def numeral_eq_Suc)
  have e: "entered S v = v" for v
    by (simp add: S_def)
  have s1: "JSON_stringify example_runtime (JArr [c1]) = ''[{'' @ [CHR 0x22] @ ''text'' @ [CHR 0x22] @ '':'' @ [CHR 0x22] @ ''first'' @ [CHR 0x22] @ '','' @ [CHR 0x22] @ ''time'' @ [CHR 0x22] @ '':'' @ [CHR 0x22] @ ''07:05 09/01/2026'' @ [CHR 0x22] @ '','' @ [CHR 0x22] @ ''author'' @ [CHR 0x22] @ '':'' @ [CHR 0x22] @ ''User'' @ [CHR 0x22] @ ''}]''"
    and s2: "JSON_stringify example_runtime (JArr [c2]) = ''[{'' @ [CHR 0x22] @ ''text'' @ [CHR 0x22] @ '':'' @ [CHR 0x22] @ ''second'' @ [CHR 0x22] @ '','' @ [CHR 0x22] @ ''time'' @ [CHR 0x22] @ '':'' @ [CHR 0x22] @ ''07:06 09/01/2026'' @ [CHR 0x22] @ '','' @ [CHR 0x22] @ ''author'' @ [CHR 0x22] @ '':'' @ [CHR 0x22] @ ''User'' @ [CHR 0x22] @ ''}]''"
    unfolding c1_def c2_def by (rule example_texts)+
  from deleteComment_run [OF h1 h2 _ h4, of "JBool True"]
  have a0: "deleteComment example_runtime 3 (Some (JBool True)) S =
      (Inr (Reply_with_comments True ''Deleted comment!'' [c1]),
       S\<lparr> calls := calls S @ [Values_get_row 3,
                Values_update_cell 3 (CHR ''H'') (JSON_stringify example_runtime (JArr [c1]))],
           faults := tl (tl (faults S)),
           grid := set_cell (3 - 1) 7 (entered S (JSON_stringify example_runtime (JArr [c1]))) (grid S) \<rparr>)"
    by (simp add: n1 i1 splice1_def del: JSON_stringify.simps integer_part.simps)
  have a: "deleteComment example_runtime 3 (Some (JBool True)) S =
      (Inr (Reply_with_comments True ''Deleted comment!'' [c1]),
       \<lparr> grid = [[''ID''], [''h''],
                  [''17'', ''10/01'', ''Lam'', ''a.com'', '''', ''Feedback'', '''', ''[{'' @ [CHR 0x22] @ ''text'' @ [CHR 0x22] @ '':'' @ [CHR 0x22] @ ''first'' @ [CHR 0x22] @ '','' @ [CHR 0x22] @ ''time'' @ [CHR 0x22] @ '':'' @ [CHR 0x22] @ ''07:05 09/01/2026'' @ [CHR 0x22] @ '','' @ [CHR 0x22] @ ''author'' @ [CHR 0x22] @ '':'' @ [CHR 0x22] @ ''User'' @ [CHR 0x22] @ ''}]'']],
         faults = [],
         calls = [Values_get_row 3, Values_update_cell 3 (CHR ''H'') (''[{'' @ [CHR 0x22] @ ''text'' @ [CHR 0x22] @ '':'' @ [CHR 0x22] @ ''first'' @ [CHR 0x22] @ '','' @ [CHR 0x22] @ ''time'' @ [CHR 0x22] @ '':'' @ [CHR 0x22] @ ''07:05 09/01/2026'' @ [CHR 0x22] @ '','' @ [CHR 0x22] @ ''author'' @ [CHR 0x22] @ '':'' @ [CHR 0x22] @ ''User'' @ [CHR 0x22] @ ''}]'')],
         entered = (\<lambda>v. v), console = [] \<rparr>)"
    using a0 unfolding e g s1 by (simp add: S_def)
  from deleteComment_run [OF h1 h2 _ h4, of "JStr ''''"]
  have b0: "deleteComment example_runtime 3 (Some (JStr '''')) S =
      (Inr (Reply_with_comments True ''Deleted comment!'' [c2]),
       S\<lparr> calls := calls S @ [Values_get_row 3,
                Values_update_cell 3 (CHR ''H'') (JSON_stringify example_runtime (JArr [c2]))],
           faults := tl (tl (faults S)),
           grid := set_cell (3 - 1) 7 (entered S (JSON_stringify example_runtime (JArr [c2]))) (grid S) \<rparr>)"
    by (simp add: n2 i0 splice1_def del: JSON_stringify.simps integer_part.simps)
  have b: "deleteComment example_runtime 3 (Some (JStr '''')) S =
      (Inr (Reply_with_comments True ''Deleted comment!'' [c2]),
       \<lparr> grid = [[''ID''], [''h''],
                  [''17'', ''10/01'', ''Lam'', ''a.com'', '''', ''Feedback'', '''', ''[{'' @ [CHR 0x22] @ ''text'' @ [CHR 0x22] @ '':'' @ [CHR 0x22] @ ''second'' @ [CHR 0x22] @ '','' @ [CHR 0x22] @ ''time'' @ [CHR 0x22] @ '':'' @ [CHR 0x22] @ ''07:06 09/01/2026'' @ [CHR 0x22] @ '','' @ [CHR 0x22] @ ''author'' @ [CHR 0x22] @ '':'' @ [CHR 0x22] @ ''User'' @ [CHR 0x22] @ ''}]'']],
         faults = [],
         calls = [Values_get_row 3, Values_update_cell 3 (CHR ''H'') (''[{'' @ [CHR 0x22] @ ''text'' @ [CHR 0x22] @ '':'' @ [CHR 0x22] @ ''second'' @ [CHR 0x22] @ '','' @ [CHR 0x22] @ ''time'' @ [CHR 0x22] @ '':'' @ [CHR 0x22] @ ''07:06 09/01/2026'' @ [CHR 0x22] @ '','' @ [CHR 0x22] @ ''author'' @ [CHR 0x22] @ '':'' @ [CHR 0x22] @ ''User'' @ [CHR 0x22] @ ''}]'')],
         entered = (\<lambda>v. v), console = [] \<rparr>)"
    using b0 unfolding e g s2 by (simp add: S_def)
  from deleteComment_run [OF h1 h2 _ h4, of "JNum (Num (Fract 3 2))"]
  have c0: "deleteComment example_runtime 3 (Some (JNum (Num (Fract 3 2)))) S =
      (Inr (Reply_with_comments True ''Deleted comment!'' [c1]),
       S\<lparr> calls := calls S @ [Values_get_row 3,
                Values_update_cell 3 (CHR ''H'') (JSON_stringify example_runtime (JArr [c1]))],
           faults := tl (tl (faults S)),
           grid := set_cell (3 - 1) 7 (entered S (JSON_stringify example_runtime (JArr [c1]))) (grid S) \<rparr>)"
    using r3 by (simp add: n3 i3 splice1_def del: JSON_stringify.simps integer_part.simps)
  have c: "deleteComment example_runtime 3 (Some (JNum (Num (Fract 3 2)))) S =
      (Inr (Reply_with_comments True ''Deleted comment!'' [c1]),
       \<lparr> grid = [[''ID''], [''h''],
                  [''17'', ''10/01'', ''Lam'', ''a.com'', '''', ''Feedback'', '''', ''[{'' @ [CHR 0x22] @ ''text'' @ [CHR 0x22] @ '':'' @ [CHR 0x22] @ ''first'' @ [CHR 0x22] @ '','' @ [CHR 0x22] @ ''time'' @ [CHR 0x22] @ '':'' @ [CHR 0x22] @ ''07:05 09/01/2026'' @ [CHR 0x22] @ '','' @ [CHR 0x22] @ ''author'' @ [CHR 0x22] @ '':'' @ [CHR 0x22] @ ''User'' @ [CHR 0x22] @ ''}]'']],
         faults = [],
         calls = [Values_get_row 3, Values_update_cell 3 (CHR ''H'') (''[{'' @ [CHR 0x22] @ ''text'' @ [CHR 0x22] @ '':'' @ [CHR 0x22] @ ''first'' @ [CHR 0x22] @ '','' @ [CHR 0x22] @ ''time'' @ [CHR 0x22] @ '':'' @ [CHR 0x22] @ ''07:05 09/01/2026'' @ [CHR 0x22] @ '','' @ [CHR 0x22] @ ''author'' @ [CHR 0x22] @ '':'' @ [CHR 0x22] @ ''User'' @ [CHR 0x22] @ ''}]'')],
         entered = (\<lambda>v. v), console = [] \<rparr>)"
    using c0 unfolding e g s1 by (simp add: S_def)
  show ?thesis
    using a b c unfolding S_def T2_def c1_def c2_def by blast
qed

section \<open>The API key check\<close>

lemma apiKeyMiddleware_refuses:
  "API_KEY e = Some k \<Longrightarrow> k \<noteq> [] \<Longrightarrow> apiKey \<noteq> Some k \<Longrightarrow>
   apiKeyMiddleware e apiKey = Respond 403 (Reply False ''Forbidden: Invalid API Key'')"
  by (simp add: apiKeyMiddleware_def or_default_def Let_def)

lemma apiKeyMiddleware_open:
  "API_KEY e = None \<or> API_KEY e = Some [] \<Longrightarrow> apiKeyMiddleware e apiKey = Next"
  by (auto simp: apiKeyMiddleware_def or_default_def Let_def)

lemma apiKeyMiddleware_accepts:
  "API_KEY e = Some k \<Longrightarrow> apiKey = Some k \<Longrightarrow> apiKeyMiddleware e apiKey = Next"
  by (simp add: apiKeyMiddleware_def or_default_def Let_def)

text \<open>The two layers registered first.\<close>

lemma server_app_first_layers:
  "dispatch e server_app r =
     (if req_method r = OPTIONS then Ended 204
      else case body_refused r of
             Some status \<Rightarrow> Error_handler status
           | None \<Rightarrow> dispatch e (drop 2 server_app) r)"
  by (simp add: server_app_def run_middleware_def after_middleware_def split: option.splits)

lemma server_app_check:
  "dispatch e (drop 2 server_app) r =
     (case mounted ''/api'' (req_path r) of
        None \<Rightarrow> dispatch e (drop 3 server_app) r
      | Some path \<Rightarrow> after_middleware (apiKeyMiddleware e (x_api_key r)) (dispatch e (drop 3 server_app) r))"
  by (simp add: server_app_def run_middleware_def split: option.splits)

lemma server_app_routes:
  "drop 3 server_app =
     [Route POST ''/api/exec'' Exec_post, Route GET ''/api/exec'' Exec_get,
      Route GET ''/api/telegram-image'' Telegram_image]"
  by (simp add: server_app_def)

lemma under_mount:
  "(mounted mount p \<noteq> None) =
     (map lower (take (length mount) p) = map lower mount
      \<and> (length p \<le> length mount \<or> p ! length mount = CHR ''/''))"
  by (auto simp: mounted_def Let_def hd_drop_conv_nth)

text \<open>
  Claim C2, amended.  In src/server.js two layers stand before the check: \<open>cors()\<close>
  answers every \<open>OPTIONS\<close> request itself, with status 204, and \<open>express.json()\<close>
  hands a request whose body it cannot read to the error handling, which answers with
  the status of the error.  For every other request whose path is \<open>/api\<close>, in any case
  of the letters, alone or followed by a slash and more: when \<open>API_KEY\<close> is set to a
  non-empty value and the \<open>x-api-key\<close> header is missing or differs from it, the answer
  is 403 with \<open>{success: false, message: 'Forbidden: Invalid API Key'}\<close> and no route
  handler is reached; when \<open>API_KEY\<close> is unset or empty, or the header equals it, the
  check passes the request on and it is routed as if the check were not registered.
\<close>

theorem api_key_check:
  "(req_method r \<noteq> OPTIONS \<and> body_refused r = None \<and> mounted ''/api'' (req_path r) \<noteq> None
      \<and> API_KEY e = Some k \<and> k \<noteq> [] \<and> x_api_key r \<noteq> Some k \<longrightarrow>
      dispatch e server_app r = Refused 403 (Reply False ''Forbidden: Invalid API Key''))
   \<and> (req_method r \<noteq> OPTIONS \<and> body_refused r = None
      \<and> (API_KEY e = None \<or> API_KEY e = Some [] \<or> (API_KEY e = Some k \<and> x_api_key r = Some k)) \<longrightarrow>
      apiKeyMiddleware e (x_api_key r) = Next
      \<and> dispatch e server_app r =
          dispatch e [Route POST ''/api/exec'' Exec_post, Route GET ''/api/exec'' Exec_get,
                      Route GET ''/api/telegram-image'' Telegram_image] r)
   \<and> (req_method r = OPTIONS \<longrightarrow> dispatch e server_app r = Ended 204)
   \<and> (req_method r \<noteq> OPTIONS \<and> body_refused r = Some status \<longrightarrow>
      dispatch e server_app r = Error_handler status)
   \<and> ((mounted ''/api'' (req_path r) \<noteq> None) =
        (map lower (take 4 (req_path r)) = ''/api''
         \<and> (length (req_path r) \<le> 4 \<or> req_path r ! 4 = CHR ''/'')))"
proof -
  have refused: "req_method r \<noteq> OPTIONS \<and> body_refused r = None \<and> mounted ''/api'' (req_path r) \<noteq> None
      \<and> API_KEY e = Some k \<and> k \<noteq> [] \<and> x_api_key r \<noteq> Some k \<longrightarrow>
      dispatch e server_app r = Refused 403 (Reply False ''Forbidden: Invalid API Key'')"
    using apiKeyMiddleware_refuses [of e k "x_api_key r"]
    by (auto simp: server_app_first_layers server_app_check after_middleware_def)
  have passed: "req_method r \<noteq> OPTIONS \<and> body_refused r = None
      \<and> (API_KEY e = None \<or> API_KEY e = Some [] \<or> (API_KEY e = Some k \<and> x_api_key r = Some k)) \<longrightarrow>
      apiKeyMiddleware e (x_api_key r) = Next
      \<and> dispatch e server_app r =
          dispatch e [Route POST ''/api/exec'' Exec_post, Route GET ''/api/exec'' Exec_get,
                      Route GET ''/api/telegram-image'' Telegram_image] r"
    using apiKeyMiddleware_open [of e "x_api_key r"] apiKeyMiddleware_accepts [of e k "x_api_key r"]
    by (auto simp: server_app_first_layers server_app_check after_middleware_def
                   server_app_routes [symmetric] split: option.splits)
  have first: "(req_method r = OPTIONS \<longrightarrow> dispatch e server_app r = Ended 204)
     \<and> (req_method r \<noteq> OPTIONS \<and> body_refused r = Some status \<longrightarrow>
          dispatch e server_app r = Error_handler status)"
    by (simp add: server_app_first_layers)
  have under: "(mounted ''/api'' (req_path r) \<noteq> None) =
        (map lower (take 4 (req_path r)) = ''/api''
         \<and> (length (req_path r) \<le> 4 \<or> req_path r ! 4 = CHR ''/''))"
    using under_mount [of "''/api''" "req_path r"] by (simp add: lower_def numeral_eq_Suc)
  from refused passed first under show ?thesis
    by blast
qed

lemma paths_under_api:
  "mounted ''/api'' ''/api/exec'' = Some ''/exec''"
  "mounted ''/api'' ''/API/Exec/'' = Some ''/Exec/''"
  "mounted ''/api'' ''/api'' = Some ''/''"
  "mounted ''/api'' ''/api/'' = Some ''/''"
  "mounted ''/api'' ''/api//exec'' = Some ''/exec''"
  "mounted ''/api'' ''/apiary'' = None"
  "mounted ''/api'' ''/health'' = None"
  by (simp_all add: mounted_def lower_def)

theorem api_key_check_witness:
  "dispatch \<lparr> API_KEY = Some ''s3cret'', TELEGRAM_BOT_TOKEN = None \<rparr> server_app
      \<lparr> req_method = POST, req_path = ''/api/exec'', x_api_key = Some ''guess'', body_refused = None \<rparr>
     = Refused 403 (Reply False ''Forbidden: Invalid API Key'')
   \<and> dispatch \<lparr> API_KEY = Some ''s3cret'', TELEGRAM_BOT_TOKEN = None \<rparr> server_app
      \<lparr> req_method = GET, req_path = ''/API/Exec/'', x_api_key = None, body_refused = None \<rparr>
     = Refused 403 (Reply False ''Forbidden: Invalid API Key'')
   \<and> dispatch \<lparr> API_KEY = Some ''s3cret'', TELEGRAM_BOT_TOKEN = None \<rparr> server_app
      \<lparr> req_method = Other_method ''DELETE'', req_path = ''/api'', x_api_key = Some ''S3CRET'', body_refused = None \<rparr>
     = Refused 403 (Reply False ''Forbidden: Invalid API Key'')
   \<and> dispatch \<lparr> API_KEY = None, TELEGRAM_BOT_TOKEN = None \<rparr> server_app
      \<lparr> req_method = POST, req_path = ''/api/exec'', x_api_key = None, body_refused = None \<rparr>
     = Handled Exec_post
   \<and> dispatch \<lparr> API_KEY = Some ''s3cret'', TELEGRAM_BOT_TOKEN = None \<rparr> server_app
      \<lparr> req_method = HEAD, req_path = ''/api/Exec/'', x_api_key = Some ''s3cret'', body_refused = None \<rparr>
     = Handled Exec_get
   \<and> dispatch \<lparr> API_KEY = Some ''s3cret'', TELEGRAM_BOT_TOKEN = None \<rparr> server_app
      \<lparr> req_method = POST, req_path = ''/api/telegram-image'', x_api_key = Some ''s3cret'', body_refused = None \<rparr>
     = Not_found"
proof -
  define E where "E = \<lparr> API_KEY = Some ''s3cret'', TELEGRAM_BOT_TOKEN = None \<rparr>"
  define U where "U = \<lparr> API_KEY = None, TELEGRAM_BOT_TOKEN = (None :: string option) \<rparr>"
  define r1 where "r1 = \<lparr> req_method = POST, req_path = ''/api/exec'', x_api_key = Some ''guess'', body_refused = None \<rparr>"
  define r2 where "r2 = \<lparr> req_method = GET, req_path = ''/API/Exec/'', x_api_key = None, body_refused = None \<rparr>"
  define r3 where "r3 = \<lparr> req_method = Other_method ''DELETE'', req_path = ''/api'', x_api_key = Some ''S3CRET'', body_refused = None \<rparr>"
  define r4 where "r4 = \<lparr> req_method = POST, req_path = ''/api/exec'', x_api_key = None, body_refused = None \<rparr>"
  define r5 where "r5 = \<lparr> req_method = HEAD, req_path = ''/api/Exec/'', x_api_key = Some ''s3cret'', body_refused = None \<rparr>"
  define r6 where "r6 = \<lparr> req_method = POST, req_path = ''/api/telegram-image'', x_api_key = Some ''s3cret'', body_refused = None \<rparr>"
  have a: "dispatch E server_app r1 = Refused 403 (Reply False ''Forbidden: Invalid API Key'')"
    using api_key_check [of r1 E "''s3cret''"] by (simp add: r1_def E_def paths_under_api)
  have b: "dispatch E server_app r2 = Refused 403 (Reply False ''Forbidden: Invalid API Key'')"
    using api_key_check [of r2 E "''s3cret''"] by (simp add: r2_def E_def paths_under_api)
  have c: "dispatch E server_app r3 = Refused 403 (Reply False ''Forbidden: Invalid API Key'')"
    using api_key_check [of r3 E "''s3cret''"] by (simp add: r3_def E_def paths_under_api)
  have d: "dispatch U server_app r4 = Handled Exec_post"
    using api_key_check [of r4 U]
    by (simp add: r4_def U_def method_matches_def route_matches_def lower_def)
  have f: "dispatch E server_app r5 = Handled Exec_get"
    using api_key_check [of r5 E "''s3cret''"]
    by (simp add: r5_def E_def method_matches_def route_matches_def lower_def)
  have g: "dispatch E server_app r6 = Not_found"
    using api_key_check [of r6 E "''s3cret''"]
    by (simp add: r6_def E_def method_matches_def route_matches_def lower_def)
  from a b c d f g show ?thesis
    unfolding E_def U_def r1_def r2_def r3_def r4_def r5_def r6_def by blast
qed

text \<open>
  Claim C2 as stated fails three times.  With a variable that is set but empty
  (\<open>API_KEY=\<close> in the environment) the header does not equal it, and the request is
  handled.  With a key configured and no header, an \<open>OPTIONS\<close> request is answered
  with 204 by \<open>cors()\<close>, and a request whose body is not JSON is answered with 400 by
  the error handling, both before the check.
\<close>

theorem api_key_check_counterexample:
  "API_KEY \<lparr> API_KEY = Some [], TELEGRAM_BOT_TOKEN = None \<rparr> \<noteq> None
   \<and> None \<noteq> API_KEY \<lparr> API_KEY = Some [], TELEGRAM_BOT_TOKEN = None \<rparr>
   \<and> dispatch \<lparr> API_KEY = Some [], TELEGRAM_BOT_TOKEN = None \<rparr> server_app
        \<lparr> req_method = POST, req_path = ''/api/exec'', x_api_key = None, body_refused = None \<rparr>
       = Handled Exec_post
   \<and> dispatch \<lparr> API_KEY = Some ''s3cret'', TELEGRAM_BOT_TOKEN = None \<rparr> server_app
        \<lparr> req_method = OPTIONS, req_path = ''/api/exec'', x_api_key = None, body_refused = None \<rparr>
       = Ended 204
   \<and> dispatch \<lparr> API_KEY = Some ''s3cret'', TELEGRAM_BOT_TOKEN = None \<rparr> server_app
        \<lparr> req_method = POST, req_path = ''/api/exec'', x_api_key = None, body_refused = Some 400 \<rparr>
       = Error_handler 400"
  by (simp add: apiKeyMiddleware_def or_default_def Let_def server_app_def run_middleware_def
        after_middleware_def mounted_def lower_def method_matches_def route_matches_def)

section \<open>The Telegram routes are exempt from the check\<close>

lemma telegram_path_passes:
  "startsWith path ''/telegram-'' \<Longrightarrow> apiKeyMiddleware_telegram e path apiKey = Next"
  by (simp add: apiKeyMiddleware_telegram_def Let_def)

lemma telegram_app_routes:
  "dispatch e telegram_app
     \<lparr> req_method = GET, req_path = ''/api/telegram-setup'', x_api_key = apiKey, body_refused = None \<rparr>
   = Handled Telegram_setup"
  "dispatch e telegram_app
     \<lparr> req_method = GET, req_path = ''/api/telegram-info'', x_api_key = apiKey, body_refused = None \<rparr>
   = Handled Telegram_info"
  "dispatch e telegram_app
     \<lparr> req_method = POST, req_path = ''/api/telegram-webhook'', x_api_key = apiKey, body_refused = None \<rparr>
   = Handled Telegram_webhook"
  "dispatch e telegram_app
     \<lparr> req_method = GET, req_path = ''/api/telegram-image'', x_api_key = apiKey, body_refused = None \<rparr>
   = Handled Telegram_image"
  by (simp_all add: telegram_app_def run_middleware_def after_middleware_def mounted_def lower_def
        method_matches_def route_matches_def startsWith_def apiKeyMiddleware_telegram_def Let_def)

text \<open>
  Claim C10.  In the server files that register the Telegram routes, the check passes
  every request whose path below \<open>/api\<close> starts with \<open>/telegram-\<close>, whatever the header
  and the configured key.  So \<open>/api/telegram-setup\<close> and \<open>/api/telegram-info\<close> (and
  \<open>/api/telegram-image\<close>) reach their handlers without the key, and so does
  \<open>/api/telegram-webhook\<close>, which is registered before the check.
\<close>

theorem telegram_routes_exempt:
  "(startsWith path ''/telegram-'' \<longrightarrow> apiKeyMiddleware_telegram e path apiKey = Next)
   \<and> dispatch e telegram_app
        \<lparr> req_method = GET, req_path = ''/api/telegram-setup'', x_api_key = apiKey, body_refused = None \<rparr>
       = Handled Telegram_setup
   \<and> dispatch e telegram_app
        \<lparr> req_method = GET, req_path = ''/api/telegram-info'', x_api_key = apiKey, body_refused = None \<rparr>
       = Handled Telegram_info
   \<and> dispatch e telegram_app
        \<lparr> req_method = POST, req_path = ''/api/telegram-webhook'', x_api_key = apiKey, body_refused = None \<rparr>
       = Handled Telegram_webhook
   \<and> dispatch e telegram_app
        \<lparr> req_method = GET, req_path = ''/api/telegram-image'', x_api_key = apiKey, body_refused = None \<rparr>
       = Handled Telegram_image"
  using telegram_path_passes [of path e apiKey] telegram_app_routes [of e apiKey]
  by blast

theorem telegram_routes_exempt_witness:
  "apiKeyMiddleware_telegram \<lparr> API_KEY = Some ''s3cret'', TELEGRAM_BOT_TOKEN = None \<rparr> ''/telegram-setup'' None = Next
   \<and> dispatch \<lparr> API_KEY = Some ''s3cret'', TELEGRAM_BOT_TOKEN = None \<rparr> telegram_app
        \<lparr> req_method = GET, req_path = ''/api/telegram-setup'', x_api_key = None, body_refused = None \<rparr>
       = Handled Telegram_setup
   \<and> dispatch \<lparr> API_KEY = Some ''s3cret'', TELEGRAM_BOT_TOKEN = None \<rparr> telegram_app
        \<lparr> req_method = POST, req_path = ''/api/telegram-webhook'', x_api_key = None, body_refused = None \<rparr>
       = Handled Telegram_webhook
   \<and> dispatch \<lparr> API_KEY = Some ''s3cret'', TELEGRAM_BOT_TOKEN = None \<rparr> telegram_app
        \<lparr> req_method = POST, req_path = ''/api/exec'', x_api_key = None, body_refused = None \<rparr>
       = Refused 403 (Reply False ''Forbidden: Invalid API Key'')"
proof -
  define E where "E = \<lparr> API_KEY = Some ''s3cret'', TELEGRAM_BOT_TOKEN = None \<rparr>"
  have s: "startsWith ''/telegram-setup'' ''/telegram-''"
    by (simp add: startsWith_def)
  have r: "dispatch E telegram_app
        \<lparr> req_method = POST, req_path = ''/api/exec'', x_api_key = None, body_refused = None \<rparr>
       = Refused 403 (Reply False ''Forbidden: Invalid API Key'')"
    by (simp add: E_def telegram_app_def run_middleware_def after_middleware_def mounted_def lower_def
          method_matches_def route_matches_def startsWith_def apiKeyMiddleware_telegram_def
          or_default_def Let_def)
  from telegram_routes_exempt [of "''/telegram-setup''" E None] s r show ?thesis
    by (simp add: E_def)
qed

section \<open>Errors while handling a request\<close>





end
